theory Spec2Isabelle
  imports Complex_Main "HOL-Library.Word"
begin

section \<open>Cursors (pv/view/cursor.cpp)\<close>

text \<open>
  A \<open>Cursor\<close> is a \<open>TimeMarker\<close> with a display order. \<open>c_index\<close> is the
  member \<open>_index\<close> (a \<open>uint64_t\<close> sample position, set by the \<open>TimeMarker\<close>
  constructor from \<open>sampleIndex\<close>), \<open>c_order\<close> is the member \<open>_order\<close> (an \<open>int\<close>).
\<close>

record Cursor =
  c_index :: "64 word"
  c_order :: int

text \<open>
  The constructor \<open>Cursor::Cursor(View &view, int order, uint64_t sampleIndex)\<close>.
  Its body is the single statement \<open>_order = _order;\<close>: the member is assigned to
  itself and the parameter \<open>order\<close> is never read. What the member holds before the
  body runs is not determined by the constructor, so the model takes that content as the
  explicit argument \<open>uninit\<close>. The view reference is only stored and is left out.
\<close>

definition Cursor_Cursor :: "int \<Rightarrow> int \<Rightarrow> 64 word \<Rightarrow> Cursor" where
  "Cursor_Cursor uninit order sampleIndex =
     (let this = \<lparr>c_index = sampleIndex, c_order = uninit\<rparr>
      in this\<lparr>c_order := c_order this\<rparr>)"

section \<open>Texts (Qt's QString, as far as the measurement code uses it)\<close>

text \<open>
  \<open>QString::number\<close> prints an integer in decimal, a negative one with a leading minus
  glyph. \<open>digits\<close> is the decimal text of a natural number.
\<close>

function digits :: "nat \<Rightarrow> string" where
  "digits n =
     (if n < 10 then [''0123456789'' ! n]
      else digits (n div 10) @ [''0123456789'' ! (n mod 10)])"
  by pat_completeness auto
termination
  by (relation "measure id") auto

declare digits.simps [simp del]

definition number :: "int \<Rightarrow> string" where
  "number n = (if n < 0 then CHR ''-'' # digits (nat (- n)) else digits (nat n))"

text \<open>\<open>QString::replace(QChar before, QChar after)\<close>: every occurrence is replaced.\<close>

definition replace :: "char \<Rightarrow> char \<Rightarrow> string \<Rightarrow> string" where
  "replace old_char new_char s = map (\<lambda>c. if c = old_char then new_char else c) s"

section \<open>The session and the view, as the measure dock reads them\<close>

text \<open>
  The work mode of the device. The dock names \<open>LOGIC\<close>, \<open>DSO\<close> and \<open>ANALOG\<close>;
  \<open>OTHER_MODE\<close> stands for any further value of the mode integer.
\<close>

datatype dev_mode = LOGIC | DSO | ANALOG | OTHER_MODE

datatype channel_type = SR_CHANNEL_LOGIC | SR_CHANNEL_DSO | SR_CHANNEL_ANALOG

text \<open>
  A signal of the session: its channel type, whether it is enabled, its channel index,
  and the bit-level snapshot of its samples (\<open>None\<close> when the signal has no data).
\<close>

record signal =
  signal_type :: channel_type
  enabled :: bool
  get_index :: int
  snapshot :: "bool list option"

record SigSession =
  work_mode :: dev_mode
  signals :: "signal list"
  cur_snap_samplerate :: "64 word"

text \<open>
  The view, as far as the dock reads it: the marker lists of view.h (\<open>_logic_cursors\<close>,
  \<open>_dso_cursors\<close>), reached through \<open>get_cursorList\<close>, and the ruler's formatting.
  \<open>time_text\<close> stands for the ruler's text of a time span, given the span in samples
  and the sample rate (ruler.cpp is not among the sources and the spec does not fix the
  format).
\<close>

record View =
  cursor_lists :: "dev_mode \<Rightarrow> Cursor list"
  time_text :: "64 word \<Rightarrow> 64 word \<Rightarrow> string"

text \<open>
  Modelled from the spec: \<open>View::get_cursorList\<close> (declared in view.h, defined in
  view.cpp, which is not among the sources). The spec keeps one marker set per
  acquisition mode, so the list is looked up by the work mode of the device.
\<close>

definition get_cursorList :: "View \<Rightarrow> SigSession \<Rightarrow> Cursor list" where
  "get_cursorList v ss = cursor_lists v (work_mode ss)"

text \<open>
  Modelled from the spec: \<open>View::get_cursor_samples(int index)\<close> (view.cpp is not among
  the sources). It is the sample index of the marker at position \<open>index\<close> of the
  ordered marker list; the spec says nothing about a position outside the list, where the
  model answers 0.
\<close>

definition get_cursor_samples :: "Cursor list \<Rightarrow> int \<Rightarrow> 64 word" where
  "get_cursor_samples cursor_list i =
     (if 0 \<le> i \<and> i < int (length cursor_list) then c_index (cursor_list ! nat i) else 0)"

text \<open>
  Modelled from the spec: \<open>View::get_cm_delta(int index1, int index2)\<close> (view.cpp is not
  among the sources). The spec's distance result carries a formatted time delta whose
  magnitude is the same for both orders of the two markers and which is written with a
  leading plus glyph when it is not negated; \<open>update_dist\<close> negates it by glyph
  substitution.
\<close>

definition get_cm_delta :: "View \<Rightarrow> SigSession \<Rightarrow> int \<Rightarrow> int \<Rightarrow> string" where
  "get_cm_delta v ss index1 index2 =
     (let cursor_list = get_cursorList v ss;
          samples1 = get_cursor_samples cursor_list index1;
          samples2 = get_cursor_samples cursor_list index2;
          delta_sample = (if samples2 < samples1 then samples1 - samples2
                          else samples2 - samples1)
      in CHR ''+'' # time_text v delta_sample (cur_snap_samplerate ss))"

text \<open>
  Modelled from the spec: \<open>LogicSignal::edges(end, start, rising, falling)\<close>
  (logicsignal.cpp is not among the sources). The spec's \<open>edge_count\<close> scans the
  snapshot over the interval from the smaller to the larger of the two sample indices and
  counts the 0-to-1 transitions (rising) and the 1-to-0 transitions (falling); it is not
  available when the snapshot is absent. \<open>None\<close> is the \<open>false\<close> return; the pair
  holds the two output parameters. Samples beyond the snapshot are not scanned. The two
  counts stay below the number of samples scanned, so their \<open>uint64_t\<close> sum does not
  wrap and they are natural numbers here.
\<close>

fun transitions :: "bool list \<Rightarrow> nat \<times> nat" where
  "transitions (x # y # ys) =
     (let (rising, falling) = transitions (y # ys)
      in (if \<not> x \<and> y then rising + 1 else rising,
          if x \<and> \<not> y then falling + 1 else falling))"
| "transitions _ = (0, 0)"

text \<open>
  Modelled from the spec: \<open>LogicSignal::edges\<close>, with \<open>transitions\<close> counting over the
  samples of the interval.
\<close>

definition edges :: "signal \<Rightarrow> 64 word \<Rightarrow> 64 word \<Rightarrow> (nat \<times> nat) option" where
  "edges s end_index start_index =
     (case snapshot s of
        None \<Rightarrow> None
      | Some bits \<Rightarrow>
          (let lo = unat (min end_index start_index);
               hi = unat (max end_index start_index)
           in Some (transitions (take (hi - lo + 1) (drop lo bits)))))"

section \<open>Doubles, as far as the cursor label uses them\<close>

text \<open>
  A \<open>double\<close> is not a number, an infinity, or a finite value; the sign (true for
  the negative values) is kept apart from the magnitude, so that there are two zeros.
  Which magnitudes a double can hold is not modelled. The exact result of an operation is
  rounded, and the rounding is a parameter: for a result of the given sign and of the
  exact magnitude \<open>m\<close>, \<open>rnd negative m\<close> is the magnitude of the double that
  stands for it, or \<open>None\<close> when the result overflows to an infinity.
\<close>

datatype double = NaN | Infinity bool | Finite bool real

type_synonym rounding = "bool \<Rightarrow> real \<Rightarrow> real option"

definition rounded :: "rounding \<Rightarrow> bool \<Rightarrow> real \<Rightarrow> double" where
  "rounded rnd negative m =
     (case rnd negative m of None \<Rightarrow> Infinity negative | Some m' \<Rightarrow> Finite negative m')"

text \<open>The conversions of a \<open>uint64_t\<close> and of an \<open>int64_t\<close> to \<open>double\<close>.\<close>

definition double_of_uint64 :: "rounding \<Rightarrow> 64 word \<Rightarrow> double" where
  "double_of_uint64 rnd n = rounded rnd False (real (unat n))"

definition double_of_int64 :: "rounding \<Rightarrow> 64 word \<Rightarrow> double" where
  "double_of_int64 rnd n = rounded rnd (sint n < 0) (real_of_int \<bar>sint n\<bar>)"

text \<open>
  The product and the quotient of two doubles. The sign of the result is the exclusive or
  of the signs; an infinity times a zero, an infinity by an infinity and a zero by a zero
  are not a number; a finite value other than zero divided by a zero is an infinity.
\<close>

fun multiply :: "rounding \<Rightarrow> double \<Rightarrow> double \<Rightarrow> double" where
  "multiply rnd NaN b = NaN"
| "multiply rnd a NaN = NaN"
| "multiply rnd (Infinity s) (Infinity t) = Infinity (s \<noteq> t)"
| "multiply rnd (Infinity s) (Finite t n) = (if n = 0 then NaN else Infinity (s \<noteq> t))"
| "multiply rnd (Finite s m) (Infinity t) = (if m = 0 then NaN else Infinity (s \<noteq> t))"
| "multiply rnd (Finite s m) (Finite t n) = rounded rnd (s \<noteq> t) (m * n)"

fun quotient :: "rounding \<Rightarrow> double \<Rightarrow> double \<Rightarrow> double" where
  "quotient rnd NaN b = NaN"
| "quotient rnd a NaN = NaN"
| "quotient rnd (Infinity s) (Infinity t) = NaN"
| "quotient rnd (Infinity s) (Finite t n) = Infinity (s \<noteq> t)"
| "quotient rnd (Finite s m) (Infinity t) = Finite (s \<noteq> t) 0"
| "quotient rnd (Finite s m) (Finite t n) =
     (if n = 0 then (if m = 0 then NaN else Infinity (s \<noteq> t))
      else rounded rnd (s \<noteq> t) (m / n))"

text \<open>
  The comparison \<open><\<close> of two doubles: false when either is not a number; the two zeros
  are equal. \<open>a > b\<close> is \<open>b < a\<close>.
\<close>

definition signed :: "bool \<Rightarrow> real \<Rightarrow> real" where
  "signed negative m = (if negative then - m else m)"

fun less_double :: "double \<Rightarrow> double \<Rightarrow> bool" where
  "less_double NaN b = False"
| "less_double a NaN = False"
| "less_double (Infinity s) (Infinity t) = (s \<and> \<not> t)"
| "less_double (Infinity s) (Finite t n) = s"
| "less_double (Finite s m) (Infinity t) = (\<not> t)"
| "less_double (Finite s m) (Finite t n) = (signed s m < signed t n)"

section \<open>The label of a cursor (pv/view/cursor.cpp)\<close>

text \<open>
  The view, as \<open>Cursor::get_label_rect\<close> reads it: \<open>session()\<close>, \<open>scale()\<close> (a
  \<open>double\<close>, seconds per pixel), \<open>x_offset()\<close> (an \<open>int64_t\<close>) and the \<open>width()\<close>
  of the widget (an \<open>int\<close>). All four are set by code of view.cpp.
\<close>

record View_geometry =
  geometry_session :: SigSession
  scale :: double
  x_offset :: "64 word"
  width :: "32 word"

datatype QRect = QRect int int int int

text \<open>
  The local variables \<open>samples_per_pixel\<close> and \<open>cur_offset\<close> of \<open>get_label_rect\<close>:
  the sample rate and the sample index of the cursor are converted to \<open>double\<close>.
\<close>

definition samples_per_pixel :: "rounding \<Rightarrow> View_geometry \<Rightarrow> double" where
  "samples_per_pixel rnd v =
     multiply rnd (double_of_uint64 rnd (cur_snap_samplerate (geometry_session v))) (scale v)"

definition cur_offset :: "rounding \<Rightarrow> View_geometry \<Rightarrow> Cursor \<Rightarrow> double" where
  "cur_offset rnd v this =
     quotient rnd (double_of_uint64 rnd (c_index this)) (samples_per_pixel rnd v)"

text \<open>
  \<open>Cursor::get_label_rect\<close>: the returned rectangle and the output parameter
  \<open>visible\<close>. The two bounds are \<open>int64_t\<close> values that the comparisons convert to
  \<open>double\<close>; the width is widened and added in 64 bits (the sum wraps here where it
  would overflow, which C++ leaves undefined). Lines 64 to 74 compute the rectangle of a
  visible label from the parameters \<open>rect\<close> and \<open>has_hoff\<close>, the size of the text,
  \<open>View::index2pixel\<close> and \<open>View::LabelPadding\<close>; the last two are not among the
  sources, and the rectangle these lines give is the argument \<open>label_rect\<close>.
\<close>

definition get_label_rect :: "rounding \<Rightarrow> View_geometry \<Rightarrow> Cursor \<Rightarrow> QRect \<Rightarrow> QRect \<times> bool" where
  "get_label_rect rnd v this label_rect =
     (if less_double (cur_offset rnd v this) (double_of_int64 rnd (x_offset v))
         \<or> less_double (double_of_int64 rnd (x_offset v + scast (width v)))
              (cur_offset rnd v this)
      then (QRect (- 1) (- 1) 0 0, False)
      else (label_rect, True))"

section \<open>The measure dock (pv/dock/measuredock.cpp)\<close>

subsection \<open>Widgets and rows\<close>

text \<open>
  A pointer to a widget is \<open>None\<close> when it is \<open>NULL\<close> and otherwise holds what the
  dock reads and writes of the widget: the text of a button or label, the items and the
  current index of a combo box. Every row owns its widgets (each build creates new ones),
  so no two rows share one. Style sheets, fonts, icons and layouts are left out.

  An item of a channel selector is the text \<open>QString::number(index)\<close> of a channel
  index and is read back with \<open>toInt\<close>; the model keeps the number itself.
\<close>

type_synonym 'a ptr = "'a option"

record QComboBox =
  items :: "int list"
  currentIndex :: int

definition count :: "QComboBox \<Rightarrow> int" where
  "count b = int (length (items b))"

definition addItem :: "QComboBox \<Rightarrow> int \<Rightarrow> QComboBox" where
  "addItem b x =
     b\<lparr>items := items b @ [x],
       currentIndex := (if items b = [] then 0 else currentIndex b)\<rparr>"

definition setCurrentIndex :: "QComboBox \<Rightarrow> int \<Rightarrow> QComboBox" where
  "setCurrentIndex b i = b\<lparr>currentIndex := (if 0 \<le> i \<and> i < count b then i else - 1)\<rparr>"

text \<open>\<open>box->currentText().toInt()\<close>: the empty text of an empty selection reads as 0.\<close>

definition currentText_toInt :: "QComboBox \<Rightarrow> int" where
  "currentText_toInt b =
     (if 0 \<le> currentIndex b \<and> currentIndex b < count b
      then items b ! nat (currentIndex b) else 0)"

text \<open>
  \<open>cursor_row_info\<close> (declared in measuredock.h): the row of a distance or an edge
  measurement. \<open>cursor1\<close> and \<open>cursor2\<close> are the display orders of the two markers, or
  -1. The result of the row is the text of \<open>r_label\<close>; the row has no other field for
  it. The references, the channel index and the number of markers stay far inside the
  range of \<open>int\<close>, so they are integers here and \<open>(int)cursor_list.size()\<close> is the
  length of the list.
\<close>

record cursor_row_info =
  del_bt :: "unit ptr"
  start_bt :: "string ptr"
  end_bt :: "string ptr"
  r_label :: "string ptr"
  box :: "QComboBox ptr"
  cursor1 :: int
  cursor2 :: int
  channelIndex :: int

text \<open>
  \<open>cursor_opt_info\<close>: a row of the cursor panel with its three widgets and its marker.
  \<open>row_list_item\<close>: the rows of one work mode (the members \<open>_mode_type\<close>,
  \<open>_dist_row_list\<close>, \<open>_edge_row_list\<close> and \<open>_opt_row_list\<close>).
\<close>

record cursor_opt_info =
  opt_del_bt :: "unit ptr"
  goto_bt :: "string ptr"
  info_label :: "string ptr"
  cursor :: Cursor

record row_list_item =
  mode_type :: dev_mode
  dist_row_list :: "cursor_row_info list"
  edge_row_list :: "cursor_row_info list"
  opt_row_list :: "cursor_opt_info list"

text \<open>
  The dock: its session, its view and the array \<open>_mode_rows\<close>, whose length is the
  constant \<open>MODE_ROWS_LENGTH\<close> of measuredock.h.
\<close>

record MeasureDock =
  session :: SigSession
  view :: View
  mode_rows :: "row_list_item list"

text \<open>
  Dereferencing a \<open>NULL\<close> widget pointer ends the run: a function that may do so
  returns \<open>Inl NullDereference\<close> then, and \<open>Inr\<close> of the new state otherwise.
\<close>

datatype error = NullDereference

definition bind_err :: "error + 'a \<Rightarrow> ('a \<Rightarrow> error + 'b) \<Rightarrow> error + 'b" where
  "bind_err m f = (case m of Inl e \<Rightarrow> Inl e | Inr x \<Rightarrow> f x)"

subsection \<open>The rows of the active mode\<close>

definition mode_dex :: "dev_mode \<Rightarrow> nat" where
  "mode_dex m = (if m = LOGIC then 0 else if m = DSO then 1 else if m = ANALOG then 2 else 0)"

definition detach_row :: "cursor_row_info \<Rightarrow> cursor_row_info" where
  "detach_row r = r\<lparr>del_bt := None, start_bt := None, end_bt := None, r_label := None,
                      box := None\<rparr>"

definition detach_rows :: "row_list_item \<Rightarrow> row_list_item" where
  "detach_rows rows =
     rows\<lparr>dist_row_list := map detach_row (dist_row_list rows),
           edge_row_list := map detach_row (edge_row_list rows),
           opt_row_list := []\<rparr>"

text \<open>
  \<open>get_mode_rows\<close> detaches the widgets of every other mode and returns the rows of the
  active one: the new state of the dock and the index \<open>dex\<close> into \<open>_mode_rows\<close>.
\<close>

definition get_mode_rows :: "MeasureDock \<Rightarrow> MeasureDock \<times> nat" where
  "get_mode_rows d =
     (let mode = work_mode (session d);
          dex = mode_dex mode;
          mr = map (\<lambda>(i, rows). if i = dex then rows else detach_rows rows)
                 (enumerate 0 (mode_rows d));
          mr' = mr[dex := (mr ! dex)\<lparr>mode_type := mode\<rparr>]
      in (d\<lparr>mode_rows := mr'\<rparr>, dex))"

subsection \<open>Building the panels, adding rows\<close>

text \<open>
  The body of the loop of \<open>build_dist_pannel\<close>: new widgets for a row. The two buttons
  start with an empty text and the new label is empty unless the row still has a label,
  whose text it takes over; a bound reference is then written on its button.
\<close>

definition build_dist_row :: "cursor_row_info \<Rightarrow> cursor_row_info" where
  "build_dist_row r =
     r\<lparr>del_bt := Some (),
       start_bt := Some (if cursor1 r \<noteq> - 1 then number (cursor1 r) else ''''),
       end_bt := Some (if cursor2 r \<noteq> - 1 then number (cursor2 r) else ''''),
       r_label := Some (case r_label r of None \<Rightarrow> '''' | Some t \<Rightarrow> t)\<rparr>"

definition build_dist_pannel :: "MeasureDock \<Rightarrow> MeasureDock" where
  "build_dist_pannel d =
     (let (d1, dex) = get_mode_rows d;
          rows = mode_rows d1 ! dex
      in d1\<lparr>mode_rows := (mode_rows d1)
               [dex := rows\<lparr>dist_row_list := map build_dist_row (dist_row_list rows)\<rparr>]\<rparr>)"

text \<open>The row \<open>inf\<close> that \<open>add_dist_measure\<close> and \<open>add_edge_measure\<close> append.\<close>

definition new_row :: cursor_row_info where
  "new_row = \<lparr>del_bt = None, start_bt = None, end_bt = None, r_label = None, box = None,
               cursor1 = - 1, cursor2 = - 1, channelIndex = 0\<rparr>"

text \<open>\<open>Max_Measure_Limits\<close> is a constant of measuredock.h and is a parameter here.\<close>

definition add_dist_measure :: "nat \<Rightarrow> MeasureDock \<Rightarrow> MeasureDock" where
  "add_dist_measure Max_Measure_Limits d =
     (let (d1, dex) = get_mode_rows d;
          rows = mode_rows d1 ! dex
      in if length (dist_row_list rows) < Max_Measure_Limits
         then build_dist_pannel
                (d1\<lparr>mode_rows := (mode_rows d1)
                      [dex := rows\<lparr>dist_row_list := dist_row_list rows @ [new_row]\<rparr>]\<rparr>)
         else d1)"

text \<open>
  The channel selector lists the indices of the enabled logic signals; adding the first
  item to an empty combo box makes it the current one.
\<close>

definition update_probe_selector :: "SigSession \<Rightarrow> QComboBox \<Rightarrow> QComboBox" where
  "update_probe_selector ss selector =
     foldl (\<lambda>b s. if signal_type s = SR_CHANNEL_LOGIC \<and> enabled s
                   then addItem b (get_index s) else b)
       (selector\<lparr>items := [], currentIndex := - 1\<rparr>) (signals ss)"

definition create_probe_selector :: "SigSession \<Rightarrow> QComboBox" where
  "create_probe_selector ss = update_probe_selector ss \<lparr>items = [], currentIndex = - 1\<rparr>"

text \<open>
  The body of the loop of \<open>build_edge_pannel\<close>: as for a distance row, with buttons that
  start with a text of one space and with a new channel selector, on which the channel
  index of the row is selected when the selector has that many items.
\<close>

definition build_edge_row :: "SigSession \<Rightarrow> cursor_row_info \<Rightarrow> cursor_row_info" where
  "build_edge_row ss r =
     (let ch_cmb = create_probe_selector ss;
          ch_cmb = (if channelIndex r < count ch_cmb
                    then setCurrentIndex ch_cmb (channelIndex r) else ch_cmb)
      in r\<lparr>del_bt := Some (),
           start_bt := Some (if cursor1 r \<noteq> - 1 then number (cursor1 r) else '' ''),
           end_bt := Some (if cursor2 r \<noteq> - 1 then number (cursor2 r) else '' ''),
           r_label := Some (case r_label r of None \<Rightarrow> '''' | Some t \<Rightarrow> t),
           box := Some ch_cmb\<rparr>)"

definition build_edge_pannel :: "MeasureDock \<Rightarrow> MeasureDock" where
  "build_edge_pannel d =
     (let (d1, dex) = get_mode_rows d;
          rows = mode_rows d1 ! dex
      in d1\<lparr>mode_rows := (mode_rows d1)
               [dex := rows\<lparr>edge_row_list :=
                             map (build_edge_row (session d1)) (edge_row_list rows)\<rparr>]\<rparr>)"

definition add_edge_measure :: "nat \<Rightarrow> MeasureDock \<Rightarrow> MeasureDock" where
  "add_edge_measure Max_Measure_Limits d =
     (let (d1, dex) = get_mode_rows d;
          rows = mode_rows d1 ! dex
      in if length (edge_row_list rows) < Max_Measure_Limits
         then build_edge_pannel
                (d1\<lparr>mode_rows := (mode_rows d1)
                      [dex := rows\<lparr>edge_row_list := edge_row_list rows @ [new_row]\<rparr>]\<rparr>)
         else d1)"

subsection \<open>Recomputing the distance rows\<close>

text \<open>
  Lines 674 to 679 of \<open>update_dist\<close>, for the two display orders of a row:
  \<open>cursor_delta\<close> is the \<open>int64_t delta\<close> (the difference of two \<open>uint64_t\<close> sample
  indices, read as a signed 64-bit value) and \<open>dist_text\<close> is the text put on the
  result label.
\<close>

definition cursor_delta :: "Cursor list \<Rightarrow> int \<Rightarrow> int \<Rightarrow> int" where
  "cursor_delta cursor_list c1 c2 =
     sint (get_cursor_samples cursor_list (c1 - 1) - get_cursor_samples cursor_list (c2 - 1))"

definition dist_text :: "View \<Rightarrow> SigSession \<Rightarrow> int \<Rightarrow> int \<Rightarrow> string" where
  "dist_text v ss c1 c2 =
     (let delta = cursor_delta (get_cursorList v ss) c1 c2;
          delta_text = get_cm_delta v ss (c1 - 1) (c2 - 1) @ ''/'' @ number delta
      in if delta < 0 then replace CHR ''+'' CHR ''-'' delta_text else delta_text)"

text \<open>
  The body of the loop of \<open>update_dist\<close>, for a row whose \<open>start_bt\<close> is not \<open>NULL\<close>
  (the loop has checked it). \<open>set_cursor_btn_color\<close> reads the text of the button it is
  given, so \<open>end_bt\<close> is dereferenced in every pass, as \<open>r_label\<close> is.
\<close>

definition update_dist_row :: "View \<Rightarrow> SigSession \<Rightarrow> cursor_row_info \<Rightarrow> error + cursor_row_info" where
  "update_dist_row v ss info =
     (let cursor_list = get_cursorList v ss;
          info1 = (if cursor1 info \<noteq> - 1 \<and> cursor1 info > int (length cursor_list)
                  then info\<lparr>start_bt := Some '''', cursor1 := - 1\<rparr> else info)
      in case end_bt info1 of
           None \<Rightarrow> Inl NullDereference
         | Some _ \<Rightarrow>
             (let info2 = (if cursor2 info1 \<noteq> - 1 \<and> cursor2 info1 > int (length cursor_list)
                          then info1\<lparr>end_bt := Some '''', cursor2 := - 1\<rparr> else info1)
              in case r_label info2 of
                   None \<Rightarrow> Inl NullDereference
                 | Some _ \<Rightarrow>
                     Inr (info2\<lparr>r_label :=
                            Some (if cursor1 info2 \<noteq> - 1 \<and> cursor2 info2 \<noteq> - 1
                                  then dist_text v ss (cursor1 info2) (cursor2 info2)
                                  else '' '')\<rparr>)))"

text \<open>The loop over the rows: it stops at the first row whose \<open>start_bt\<close> is \<open>NULL\<close>.\<close>

fun update_dist_rows :: "View \<Rightarrow> SigSession \<Rightarrow> cursor_row_info list \<Rightarrow> error + cursor_row_info list" where
  "update_dist_rows v ss [] = Inr []"
| "update_dist_rows v ss (info # rest) =
     (if start_bt info = None then Inr (info # rest)
      else (case update_dist_row v ss info of
              Inl e \<Rightarrow> Inl e
            | Inr info' \<Rightarrow>
                (case update_dist_rows v ss rest of
                   Inl e \<Rightarrow> Inl e
                 | Inr rest' \<Rightarrow> Inr (info' # rest'))))"

definition update_dist :: "MeasureDock \<Rightarrow> error + MeasureDock" where
  "update_dist d =
     (let (d1, dex) = get_mode_rows d;
          rows = mode_rows d1 ! dex
      in case update_dist_rows (view d1) (session d1) (dist_row_list rows) of
           Inl e \<Rightarrow> Inl e
         | Inr rs \<Rightarrow> Inr (d1\<lparr>mode_rows := (mode_rows d1)[dex := rows\<lparr>dist_row_list := rs\<rparr>]\<rparr>))"

subsection \<open>Recomputing the edge rows\<close>

text \<open>
  The inner loop of \<open>update_edge\<close> over the signals of the session: the first enabled
  logic signal with the selected index whose edge scan succeeds gives the text. The
  selector \<open>box\<close> is dereferenced when the third conjunct of the test is evaluated.
  The result is \<open>None\<close> when the loop ends with \<open>mValid\<close> still false.
\<close>

fun scan_signals :: "signal list \<Rightarrow> QComboBox ptr \<Rightarrow> 64 word \<Rightarrow> 64 word \<Rightarrow> error + string option" where
  "scan_signals [] b end_index start_index = Inr None"
| "scan_signals (s # rest) b end_index start_index =
     (if signal_type s = SR_CHANNEL_LOGIC \<and> enabled s
      then (case b of
              None \<Rightarrow> Inl NullDereference
            | Some bx \<Rightarrow>
                if get_index s = currentText_toInt bx
                then (case edges s end_index start_index of
                        Some (rising_edges, falling_edges) \<Rightarrow>
                          Inr (Some (number (int rising_edges) @ ''/'' @
                                     number (int falling_edges) @ ''/'' @
                                     number (int (rising_edges + falling_edges))))
                      | None \<Rightarrow> scan_signals rest b end_index start_index)
                else scan_signals rest b end_index start_index)
      else scan_signals rest b end_index start_index)"

definition update_edge_row :: "View \<Rightarrow> SigSession \<Rightarrow> cursor_row_info \<Rightarrow> error + cursor_row_info" where
  "update_edge_row v ss info =
     (let cursor_list = get_cursorList v ss;
          info1 = (if cursor1 info \<noteq> - 1 \<and> cursor1 info > int (length cursor_list)
                  then info\<lparr>start_bt := Some '''', cursor1 := - 1\<rparr> else info)
      in case (if cursor2 info1 \<noteq> - 1 \<and> cursor2 info1 > int (length cursor_list)
               then (case end_bt info1 of
                       None \<Rightarrow> Inl NullDereference
                     | Some _ \<Rightarrow> Inr (info1\<lparr>end_bt := Some '''', cursor2 := - 1\<rparr>))
               else Inr info1) of
           Inl e \<Rightarrow> Inl e
         | Inr info2 \<Rightarrow>
             (case (if cursor1 info2 \<noteq> - 1 \<and> cursor2 info2 \<noteq> - 1
                    then scan_signals (signals ss) (box info2)
                           (get_cursor_samples cursor_list (cursor2 info2 - 1))
                           (get_cursor_samples cursor_list (cursor1 info2 - 1))
                    else Inr None) of
                Inl e \<Rightarrow> Inl e
              | Inr found \<Rightarrow>
                  (case r_label info2 of
                     None \<Rightarrow> Inl NullDereference
                   | Some _ \<Rightarrow>
                       Inr (info2\<lparr>r_label :=
                              Some (case found of Some delta_text \<Rightarrow> delta_text
                                    | None \<Rightarrow> ''-/-/-'')\<rparr>))))"

fun update_edge_rows :: "View \<Rightarrow> SigSession \<Rightarrow> cursor_row_info list \<Rightarrow> error + cursor_row_info list" where
  "update_edge_rows v ss [] = Inr []"
| "update_edge_rows v ss (info # rest) =
     (if start_bt info = None then Inr (info # rest)
      else (case update_edge_row v ss info of
              Inl e \<Rightarrow> Inl e
            | Inr info' \<Rightarrow>
                (case update_edge_rows v ss rest of
                   Inl e \<Rightarrow> Inl e
                 | Inr rest' \<Rightarrow> Inr (info' # rest'))))"

definition update_edge :: "MeasureDock \<Rightarrow> error + MeasureDock" where
  "update_edge d =
     (let (d1, dex) = get_mode_rows d;
          rows = mode_rows d1 ! dex
      in case update_edge_rows (view d1) (session d1) (edge_row_list rows) of
           Inl e \<Rightarrow> Inl e
         | Inr rs \<Rightarrow> Inr (d1\<lparr>mode_rows := (mode_rows d1)[dex := rows\<lparr>edge_row_list := rs\<rparr>]\<rparr>))"

subsection \<open>Recalculation, reload, removal of a marker\<close>

text \<open>
  \<open>reCalc\<close>, \<open>reload\<close> and \<open>cursor_update\<close> also rebuild and relabel the cursor panel
  (\<open>build_cursor_pannel\<close>, \<open>update_cursor_info\<close>); these write \<open>_opt_row_list\<close> only
  and are left out, as are the visibility of the group boxes and the label sizes.
\<close>

definition reCalc :: "MeasureDock \<Rightarrow> error + MeasureDock" where
  "reCalc d = bind_err (update_dist d) update_edge"

definition reload :: "MeasureDock \<Rightarrow> error + MeasureDock" where
  "reload d = reCalc (build_edge_pannel (build_dist_pannel d))"

definition cursor_update :: "MeasureDock \<Rightarrow> error + MeasureDock" where
  "cursor_update d = bind_err (update_dist d) update_edge"

text \<open>
  Modelled from the spec: \<open>View::del_cursor\<close> and \<open>View::make_cursors_order\<close> (view.cpp
  is not among the sources). The spec's marker registry deletes the marker and reassigns
  the display order of the remaining ones: 1-based, dense, by ascending sample index,
  markers at the same index in their former order. The marker is named by its position
  in the list.
\<close>

definition make_cursors_order :: "Cursor list \<Rightarrow> Cursor list" where
  "make_cursors_order cursor_list =
     map (\<lambda>(i, c). c\<lparr>c_order := int i + 1\<rparr>) (enumerate 0 (sort_key c_index cursor_list))"

text \<open>
  Modelled from the spec: \<open>View::del_cursor\<close>, for the marker at position \<open>i\<close> of the
  list of the current mode.
\<close>

definition View_del_cursor :: "View \<Rightarrow> SigSession \<Rightarrow> nat \<Rightarrow> View" where
  "View_del_cursor v ss i =
     (let cursor_list = get_cursorList v ss
      in v\<lparr>cursor_lists := (cursor_lists v)
             (work_mode ss := make_cursors_order (take i cursor_list @ drop (Suc i) cursor_list))\<rparr>)"

text \<open>
  \<open>MeasureDock::del_cursor\<close>: the sender is the delete button of a row of the cursor
  panel; \<open>build_cursor_pannel\<close> pairs the rows of the panel with the markers of the list
  in order, so the row is given by the position \<open>i\<close> of its marker. The marker is
  deleted from the view, then \<open>cursor_update\<close> recomputes the rows.
\<close>

definition del_cursor :: "nat \<Rightarrow> MeasureDock \<Rightarrow> error + MeasureDock" where
  "del_cursor i d = cursor_update (d\<lparr>view := View_del_cursor (view d) (session d) i\<rparr>)"

section \<open>Notions used in the statements\<close>

text \<open>The rows of the mode the device is in.\<close>

definition active_rows :: "MeasureDock \<Rightarrow> row_list_item" where
  "active_rows d = mode_rows d ! mode_dex (work_mode (session d))"

text \<open>
  A row whose widgets are all in place, as \<open>build_dist_pannel\<close> leaves a distance row
  and \<open>build_edge_pannel\<close> leaves an edge row (which has a channel selector as well).
\<close>

definition dist_bound :: "cursor_row_info \<Rightarrow> bool" where
  "dist_bound r = (start_bt r \<noteq> None \<and> end_bt r \<noteq> None \<and> r_label r \<noteq> None)"

definition edge_bound :: "cursor_row_info \<Rightarrow> bool" where
  "edge_bound r = (dist_bound r \<and> box r \<noteq> None)"

text \<open>What the cleanup of stale references makes of a reference, for \<open>n\<close> markers.\<close>

definition cleared :: "nat \<Rightarrow> int \<Rightarrow> int" where
  "cleared n c = (if c \<noteq> - 1 \<and> c > int n then - 1 else c)"

text \<open>A text without a plus or a minus glyph.\<close>

definition glyph_free :: "string \<Rightarrow> bool" where
  "glyph_free s = (CHR ''+'' \<notin> set s \<and> CHR ''-'' \<notin> set s)"

text \<open>
  A change of the acquisition mode, as the dock sees it: the device reports the new work
  mode and the dock is reloaded (\<open>reload\<close> is called from outside the dock).
\<close>

definition switch_mode :: "dev_mode \<Rightarrow> MeasureDock \<Rightarrow> error + MeasureDock" where
  "switch_mode m d = reload (d\<lparr>session := (session d)\<lparr>work_mode := m\<rparr>\<rparr>)"

text \<open>
  Two rows with the same bindings (the two marker references and the channel index), and
  a row all of whose widget pointers are \<open>NULL\<close>.
\<close>

definition same_bindings :: "cursor_row_info \<Rightarrow> cursor_row_info \<Rightarrow> bool" where
  "same_bindings r r' =
     (cursor1 r' = cursor1 r \<and> cursor2 r' = cursor2 r \<and> channelIndex r' = channelIndex r)"

definition detached :: "cursor_row_info \<Rightarrow> bool" where
  "detached r = (del_bt r = None \<and> start_bt r = None \<and> end_bt r = None \<and> r_label r = None
                 \<and> box r = None)"

text \<open>
  The notions of the statement on a change of mode and back. \<open>enabled_logic\<close>: the
  channel numbers of the enabled logic signals, in the order of the session.
  \<open>selector_position\<close> and \<open>selected_channel\<close>: the position that is current in
  a channel selector built anew for a row with the channel index \<open>k\<close>, and the channel
  number read from it (0 when nothing is selected).
\<close>

definition enabled_logic :: "SigSession \<Rightarrow> int list" where
  "enabled_logic ss =
     map get_index (filter (\<lambda>s. signal_type s = SR_CHANNEL_LOGIC \<and> enabled s) (signals ss))"

definition selector_position :: "SigSession \<Rightarrow> int \<Rightarrow> int" where
  "selector_position ss k =
     (if enabled_logic ss = [] \<or> k < 0 then - 1
      else if k < int (length (enabled_logic ss)) then k else 0)"

definition selected_channel :: "SigSession \<Rightarrow> int \<Rightarrow> int" where
  "selected_channel ss k =
     (if selector_position ss k = - 1 then 0
      else enabled_logic ss ! nat (selector_position ss k))"

text \<open>
  The result of an edge row for the channel \<open>ch\<close> and two sample positions: the counts
  of the first enabled logic signal with that channel number whose scan succeeds, as
  rising/falling/total, and the placeholder when there is none.
\<close>

definition edge_text :: "nat \<times> nat \<Rightarrow> string" where
  "edge_text counts =
     number (int (fst counts)) @ ''/'' @ number (int (snd counts)) @ ''/'' @
     number (int (fst counts + snd counts))"

definition edge_result :: "SigSession \<Rightarrow> int \<Rightarrow> 64 word \<Rightarrow> 64 word \<Rightarrow> string" where
  "edge_result ss ch end_index start_index =
     (case find (\<lambda>s. signal_type s = SR_CHANNEL_LOGIC \<and> enabled s \<and> get_index s = ch
                      \<and> edges s end_index start_index \<noteq> None) (signals ss) of
        None \<Rightarrow> ''-/-/-''
      | Some s \<Rightarrow> edge_text (the (edges s end_index start_index)))"

text \<open>
  A row after its mode has become active again, for the markers and signals of that
  moment: the text of the button of a reference (\<open>blank\<close> when the reference is unset,
  empty when it has just been reset), and the whole row, with new widgets, the references
  above the number of markers reset, and the result computed anew.
\<close>

definition button_text :: "string \<Rightarrow> nat \<Rightarrow> int \<Rightarrow> string" where
  "button_text blank n c = (if c = - 1 then blank else if int n < c then '''' else number c)"

definition resumed_dist_row :: "View \<Rightarrow> SigSession \<Rightarrow> cursor_row_info \<Rightarrow> cursor_row_info" where
  "resumed_dist_row v ss r =
     (let n = length (get_cursorList v ss);
          c1 = cleared n (cursor1 r);
          c2 = cleared n (cursor2 r)
      in \<lparr>del_bt = Some (),
          start_bt = Some (button_text '''' n (cursor1 r)),
          end_bt = Some (button_text '''' n (cursor2 r)),
          r_label = Some (if c1 \<noteq> - 1 \<and> c2 \<noteq> - 1 then dist_text v ss c1 c2 else '' ''),
          box = None, cursor1 = c1, cursor2 = c2, channelIndex = channelIndex r\<rparr>)"

definition resumed_edge_row :: "View \<Rightarrow> SigSession \<Rightarrow> cursor_row_info \<Rightarrow> cursor_row_info" where
  "resumed_edge_row v ss r =
     (let cursor_list = get_cursorList v ss;
          n = length cursor_list;
          c1 = cleared n (cursor1 r);
          c2 = cleared n (cursor2 r)
      in \<lparr>del_bt = Some (),
          start_bt = Some (button_text '' '' n (cursor1 r)),
          end_bt = Some (button_text '' '' n (cursor2 r)),
          r_label = Some (if c1 \<noteq> - 1 \<and> c2 \<noteq> - 1
                          then edge_result ss (selected_channel ss (channelIndex r))
                                 (get_cursor_samples cursor_list (c2 - 1))
                                 (get_cursor_samples cursor_list (c1 - 1))
                          else ''-/-/-''),
          box = Some \<lparr>items = enabled_logic ss,
                       currentIndex = selector_position ss (channelIndex r)\<rparr>,
          cursor1 = c1, cursor2 = c2, channelIndex = channelIndex r\<rparr>)"

text \<open>
  The rows of a mode that is not active, against the rows as they were left: as many
  distance rows and edge rows, in the same order, each with the bindings it had and with
  no widget.
\<close>

definition kept_detached :: "row_list_item \<Rightarrow> row_list_item \<Rightarrow> bool" where
  "kept_detached rows rows' =
     (list_all2 (\<lambda>r r'. same_bindings r r' \<and> detached r')
        (dist_row_list rows) (dist_row_list rows')
      \<and> list_all2 (\<lambda>r r'. same_bindings r r' \<and> detached r')
          (edge_row_list rows) (edge_row_list rows'))"

subsection \<open>A dock in logic mode, for the instances\<close>

text \<open>
  Three markers at the samples 0, 2 and 6, one enabled and one disabled logic channel,
  three distance rows and three edge rows with their widgets in place; the labels are the
  texts the recomputation gives for these markers. The selector of the last edge row was
  built while channel 1 was still enabled and has that channel selected.
\<close>

definition example_session :: SigSession where
  "example_session =
     \<lparr>work_mode = LOGIC,
      signals =
        [\<lparr>signal_type = SR_CHANNEL_LOGIC, enabled = True, get_index = 0,
           snapshot = Some [False, False, True, True, False, False, True]\<rparr>,
         \<lparr>signal_type = SR_CHANNEL_LOGIC, enabled = False, get_index = 1,
           snapshot = Some [True, False, True, False, True, False, True]\<rparr>],
      cur_snap_samplerate = 1000000\<rparr>"

definition example_view :: View where
  "example_view =
     \<lparr>cursor_lists = (\<lambda>m. if m = LOGIC
         then [\<lparr>c_index = 0, c_order = 1\<rparr>, \<lparr>c_index = 2, c_order = 2\<rparr>,
               \<lparr>c_index = 6, c_order = 3\<rparr>]
         else []),
      time_text = (\<lambda>delta_sample rate. digits (unat delta_sample) @ ''us'')\<rparr>"

definition example_rows :: row_list_item where
  "example_rows =
     \<lparr>mode_type = LOGIC,
      dist_row_list =
        [\<lparr>del_bt = Some (), start_bt = Some ''1'', end_bt = Some ''2'',
           r_label = Some ''-2us/-2'', box = None, cursor1 = 1, cursor2 = 2, channelIndex = 0\<rparr>,
         \<lparr>del_bt = Some (), start_bt = Some ''2'', end_bt = Some ''3'',
           r_label = Some ''-4us/-4'', box = None, cursor1 = 2, cursor2 = 3, channelIndex = 0\<rparr>,
         \<lparr>del_bt = Some (), start_bt = Some '''', end_bt = Some ''2'',
           r_label = Some '' '', box = None, cursor1 = - 1, cursor2 = 2, channelIndex = 0\<rparr>],
      edge_row_list =
        [\<lparr>del_bt = Some (), start_bt = Some ''1'', end_bt = Some ''3'',
           r_label = Some ''2/1/3'', box = Some \<lparr>items = [0], currentIndex = 0\<rparr>,
           cursor1 = 1, cursor2 = 3, channelIndex = 0\<rparr>,
         \<lparr>del_bt = Some (), start_bt = Some '' '', end_bt = Some ''3'',
           r_label = Some ''-/-/-'', box = Some \<lparr>items = [0], currentIndex = 0\<rparr>,
           cursor1 = - 1, cursor2 = 3, channelIndex = 0\<rparr>,
         \<lparr>del_bt = Some (), start_bt = Some ''1'', end_bt = Some ''2'',
           r_label = Some ''-/-/-'', box = Some \<lparr>items = [0, 1], currentIndex = 1\<rparr>,
           cursor1 = 1, cursor2 = 2, channelIndex = 1\<rparr>],
      opt_row_list = []\<rparr>"

definition empty_rows :: row_list_item where
  "empty_rows = \<lparr>mode_type = LOGIC, dist_row_list = [], edge_row_list = [], opt_row_list = []\<rparr>"

definition example_dock :: MeasureDock where
  "example_dock =
     \<lparr>session = example_session, view = example_view,
      mode_rows = [example_rows, empty_rows, empty_rows]\<rparr>"

text \<open>
  The same dock when the first marker has been deleted from the view and the dock has not
  yet recomputed its rows: the markers at the samples 2 and 6 remain, as first and second.
\<close>

definition two_marker_view :: View where
  "two_marker_view =
     example_view\<lparr>cursor_lists := (\<lambda>m. if m = LOGIC
         then [\<lparr>c_index = 2, c_order = 1\<rparr>, \<lparr>c_index = 6, c_order = 2\<rparr>]
         else [])\<rparr>"

definition two_marker_dock :: MeasureDock where
  "two_marker_dock = example_dock\<lparr>view := two_marker_view\<rparr>"

text \<open>
  The example dock after a fourth distance row has been added: \<open>add_dist_measure\<close>
  builds the panel and does not recompute, so the new row has an empty result label.
\<close>

definition fresh_row_dock :: MeasureDock where
  "fresh_row_dock = add_dist_measure 4 example_dock"

text \<open>
  The same dock with rows of the two other modes, which are not active and have no
  widgets: a distance row of the oscilloscope mode without references and a distance row
  of the analog mode that refers to the markers 1 and 2.
\<close>

definition scope_rows :: row_list_item where
  "scope_rows =
     \<lparr>mode_type = DSO, dist_row_list = [new_row], edge_row_list = [], opt_row_list = []\<rparr>"

definition analog_rows :: row_list_item where
  "analog_rows =
     \<lparr>mode_type = ANALOG, dist_row_list = [new_row\<lparr>cursor1 := 1, cursor2 := 2\<rparr>],
      edge_row_list = [], opt_row_list = []\<rparr>"

definition three_mode_dock :: MeasureDock where
  "three_mode_dock = example_dock\<lparr>mode_rows := [example_rows, scope_rows, analog_rows]\<rparr>"

text \<open>
  That dock as \<open>reload\<close> leaves it: the selector of the last edge row is built anew and
  lists the one enabled channel, so the row counts the edges of channel 0.
\<close>

definition reloaded_rows :: row_list_item where
  "reloaded_rows =
     example_rows\<lparr>edge_row_list :=
        [edge_row_list example_rows ! 0,
         edge_row_list example_rows ! 1,
         (edge_row_list example_rows ! 2)
            \<lparr>r_label := Some ''1/0/1'', box := Some \<lparr>items = [0], currentIndex = 0\<rparr>\<rparr>]\<rparr>"

definition reloaded_dock :: MeasureDock where
  "reloaded_dock = example_dock\<lparr>mode_rows := [reloaded_rows, scope_rows, analog_rows]\<rparr>"

subsection \<open>The label of a cursor, for the statement and its instances\<close>

text \<open>
  A double that is not a number, one that is a zero, one that is an infinity; the order
  \<open>\<le>\<close> of two doubles (false when either is not a number); a double that lies within
  an interval of two doubles.
\<close>

definition is_nan :: "double \<Rightarrow> bool" where
  "is_nan a = (a = NaN)"

definition is_zero :: "double \<Rightarrow> bool" where
  "is_zero a = (case a of Finite s m \<Rightarrow> m = 0 | _ \<Rightarrow> False)"

definition is_infinity :: "double \<Rightarrow> bool" where
  "is_infinity a = (case a of Infinity s \<Rightarrow> True | _ \<Rightarrow> False)"

fun le_double :: "double \<Rightarrow> double \<Rightarrow> bool" where
  "le_double NaN b = False"
| "le_double a NaN = False"
| "le_double (Infinity s) (Infinity t) = (s \<or> \<not> t)"
| "le_double (Infinity s) (Finite t n) = s"
| "le_double (Finite s m) (Infinity t) = (\<not> t)"
| "le_double (Finite s m) (Finite t n) = (signed s m \<le> signed t n)"

definition lies_within :: "double \<Rightarrow> double \<Rightarrow> double \<Rightarrow> bool" where
  "lies_within a lo hi = (le_double lo a \<and> le_double a hi)"

text \<open>
  The two ends of the visible part of the view as doubles: \<open>x_offset\<close>, and
  \<open>x_offset\<close> plus the width.
\<close>

definition left_edge :: "rounding \<Rightarrow> View_geometry \<Rightarrow> double" where
  "left_edge rnd v = double_of_int64 rnd (x_offset v)"

definition right_edge :: "rounding \<Rightarrow> View_geometry \<Rightarrow> double" where
  "right_edge rnd v = double_of_int64 rnd (x_offset v + scast (width v))"

text \<open>
  The rounding that leaves a magnitude as it is: the arithmetic of the doubles on
  operands and results that a double holds exactly.
\<close>

definition exact :: rounding where
  "exact negative m = Some m"

text \<open>
  A view of 800 pixels at the offset 50, with 1024 samples per second and 1/256 second
  per pixel, that is, 4 samples per pixel; and the same view when the session reports a
  sample rate of 0.
\<close>

definition example_geometry :: View_geometry where
  "example_geometry =
     \<lparr>geometry_session = example_session\<lparr>cur_snap_samplerate := 1024\<rparr>,
      scale = Finite False (1 / 256), x_offset = 50, width = 800\<rparr>"

definition degenerate_geometry :: View_geometry where
  "degenerate_geometry =
     example_geometry\<lparr>geometry_session := example_session\<lparr>cur_snap_samplerate := 0\<rparr>\<rparr>"

section \<open>Properties\<close>

subsection \<open>Auxiliary facts: texts and sample differences\<close>

lemma digits_chars: "set (digits n) \<subseteq> set ''0123456789''"
proof (induction n rule: digits.induct)
  case (1 n)
  have a: "\<And>k. k < 10 \<Longrightarrow> ''0123456789'' ! k \<in> set ''0123456789''"
    by (rule nth_mem) simp
  show ?case
  proof (cases "n < 10")
    case True
    then show ?thesis using a[of n] by (subst digits.simps) simp
  next
    case False
    have "n mod 10 < 10" by simp
    then show ?thesis using False 1 a[of "n mod 10"] by (subst digits.simps) simp
  qed
qed

lemma digits_no_plus: "CHR ''+'' \<notin> set (digits n)"
  using digits_chars[of n] by auto

lemma digits_no_minus: "CHR ''-'' \<notin> set (digits n)"
  using digits_chars[of n] by auto

lemma sint_diff_small:
  fixes x y :: "64 word"
  assumes "uint x < 2 ^ 63" "uint y < 2 ^ 63"
  shows "sint (x - y) = uint x - uint y"
proof -
  have "x - y = word_of_int (uint x - uint y)" by simp
  then have "sint (x - y) = signed_take_bit 63 (uint x - uint y)"
    by (simp only: sint_sbintrunc') simp
  also have "\<dots> = uint x - uint y"
  proof (rule signed_take_bit_int_eq_self)
    show "- (2 ^ 63) \<le> uint x - uint y"
      using assms(2) uint_ge_0[of x] by linarith
    show "uint x - uint y < 2 ^ 63"
      using assms(1) uint_ge_0[of y] by linarith
  qed
  finally show ?thesis .
qed

subsection \<open>Auxiliary facts: the rows of the active mode\<close>

lemma get_mode_rows_snd: "snd (get_mode_rows d) = mode_dex (work_mode (session d))"
  by (simp add: get_mode_rows_def Let_def)

lemma get_mode_rows_session: "session (fst (get_mode_rows d)) = session d"
  by (simp add: get_mode_rows_def Let_def)

lemma get_mode_rows_view: "view (fst (get_mode_rows d)) = view d"
  by (simp add: get_mode_rows_def Let_def)

lemma get_mode_rows_length: "length (mode_rows (fst (get_mode_rows d))) = length (mode_rows d)"
  by (simp add: get_mode_rows_def Let_def)

lemma get_mode_rows_active:
  "mode_dex (work_mode (session d)) < length (mode_rows d) \<Longrightarrow>
   mode_rows (fst (get_mode_rows d)) ! mode_dex (work_mode (session d)) =
     (mode_rows d ! mode_dex (work_mode (session d)))\<lparr>mode_type := work_mode (session d)\<rparr>"
  by (simp add: get_mode_rows_def Let_def nth_enumerate_eq)

lemma get_mode_rows_inactive:
  "i < length (mode_rows d) \<Longrightarrow> i \<noteq> mode_dex (work_mode (session d)) \<Longrightarrow>
   mode_rows (fst (get_mode_rows d)) ! i = detach_rows (mode_rows d ! i)"
  by (simp add: get_mode_rows_def Let_def nth_enumerate_eq)

subsection \<open>Auxiliary facts: recomputing the rows\<close>

lemma update_dist_row_case:
  assumes "dist_bound r"
  shows "case update_dist_row v ss r of Inl e \<Rightarrow> False | Inr r' \<Rightarrow>
       cursor1 r' = cleared (length (get_cursorList v ss)) (cursor1 r)
     \<and> cursor2 r' = cleared (length (get_cursorList v ss)) (cursor2 r)
     \<and> start_bt r' = (if cursor1 r' = cursor1 r then start_bt r else Some '''')
     \<and> end_bt r' = (if cursor2 r' = cursor2 r then end_bt r else Some '''')
     \<and> r_label r' = Some (if cursor1 r' \<noteq> - 1 \<and> cursor2 r' \<noteq> - 1
                           then dist_text v ss (cursor1 r') (cursor2 r') else '' '')
     \<and> channelIndex r' = channelIndex r \<and> box r' = box r \<and> del_bt r' = del_bt r
     \<and> dist_bound r'"
  using assms
  by (auto simp: update_dist_row_def dist_bound_def cleared_def Let_def split: option.splits)

lemma update_dist_row_bound:
  assumes "dist_bound r"
  shows "\<exists>r'. update_dist_row v ss r = Inr r'
     \<and> cursor1 r' = cleared (length (get_cursorList v ss)) (cursor1 r)
     \<and> cursor2 r' = cleared (length (get_cursorList v ss)) (cursor2 r)
     \<and> start_bt r' = (if cursor1 r' = cursor1 r then start_bt r else Some '''')
     \<and> end_bt r' = (if cursor2 r' = cursor2 r then end_bt r else Some '''')
     \<and> r_label r' = Some (if cursor1 r' \<noteq> - 1 \<and> cursor2 r' \<noteq> - 1
                           then dist_text v ss (cursor1 r') (cursor2 r') else '' '')
     \<and> channelIndex r' = channelIndex r \<and> box r' = box r \<and> del_bt r' = del_bt r
     \<and> dist_bound r'"
  using update_dist_row_case[OF assms, of v ss]
  by (cases "update_dist_row v ss r") simp_all

lemma update_dist_rows_bound:
  "list_all dist_bound rows \<Longrightarrow>
   \<exists>rows'. update_dist_rows v ss rows = Inr rows' \<and> length rows' = length rows
      \<and> (\<forall>i<length rows. update_dist_row v ss (rows ! i) = Inr (rows' ! i))"
proof (induction rows)
  case Nil
  then show ?case by simp
next
  case (Cons r rows)
  then have b: "dist_bound r" and bs: "list_all dist_bound rows" by simp_all
  from update_dist_row_bound[OF b, of v ss] obtain r' where r': "update_dist_row v ss r = Inr r'"
    by blast
  from Cons.IH[OF bs] obtain rows' where rows': "update_dist_rows v ss rows = Inr rows'"
    "length rows' = length rows" "\<forall>i<length rows. update_dist_row v ss (rows ! i) = Inr (rows' ! i)"
    by blast
  have s: "start_bt r \<noteq> None" using b by (simp add: dist_bound_def)
  have "update_dist_rows v ss (r # rows) = Inr (r' # rows')"
    using s r' rows'(1) by auto
  moreover have "\<forall>i<length (r # rows). update_dist_row v ss ((r # rows) ! i) = Inr ((r' # rows') ! i)"
    using r' rows'(3) by (auto simp: nth_Cons split: nat.splits)
  ultimately show ?case using rows'(2) by simp
qed

lemma update_dist_dock:
  assumes dex: "mode_dex (work_mode (session d)) < length (mode_rows d)"
    and bound: "list_all dist_bound (dist_row_list (active_rows d))"
  shows "\<exists>d'. update_dist d = Inr d' \<and> session d' = session d \<and> view d' = view d
     \<and> length (mode_rows d') = length (mode_rows d)
     \<and> length (dist_row_list (active_rows d')) = length (dist_row_list (active_rows d))
     \<and> edge_row_list (active_rows d') = edge_row_list (active_rows d)
     \<and> (\<forall>i<length (dist_row_list (active_rows d)).
          update_dist_row (view d) (session d) (dist_row_list (active_rows d) ! i)
            = Inr (dist_row_list (active_rows d') ! i))
     \<and> (\<forall>j<length (mode_rows d). j \<noteq> mode_dex (work_mode (session d)) \<longrightarrow>
          mode_rows d' ! j = detach_rows (mode_rows d ! j))"
proof -
  let ?dex = "mode_dex (work_mode (session d))"
  let ?d1 = "fst (get_mode_rows d)"
  have act: "mode_rows ?d1 ! ?dex = (mode_rows d ! ?dex)\<lparr>mode_type := work_mode (session d)\<rparr>"
    by (rule get_mode_rows_active[OF dex])
  have rows: "dist_row_list (mode_rows ?d1 ! ?dex) = dist_row_list (active_rows d)"
    by (simp add: act active_rows_def)
  from update_dist_rows_bound[OF bound, of "view d" "session d"] obtain rs where
    rs: "update_dist_rows (view d) (session d) (dist_row_list (active_rows d)) = Inr rs"
      "length rs = length (dist_row_list (active_rows d))"
      "\<forall>i<length (dist_row_list (active_rows d)).
          update_dist_row (view d) (session d) (dist_row_list (active_rows d) ! i) = Inr (rs ! i)"
    by blast
  define d' where "d' = ?d1\<lparr>mode_rows := (mode_rows ?d1)[?dex := (mode_rows ?d1 ! ?dex)\<lparr>dist_row_list := rs\<rparr>]\<rparr>"
  have res: "update_dist d = Inr d'"
    using rs(1) rows
    by (simp add: update_dist_def case_prod_beta get_mode_rows_snd get_mode_rows_session
        get_mode_rows_view d'_def Let_def)
  have len: "?dex < length (mode_rows ?d1)" using dex by (simp add: get_mode_rows_length)
  have se: "session d' = session d" and vi: "view d' = view d"
    by (simp_all add: d'_def get_mode_rows_session get_mode_rows_view)
  have le: "length (mode_rows d') = length (mode_rows d)"
    by (simp add: d'_def get_mode_rows_length)
  have a: "active_rows d' = (mode_rows ?d1 ! ?dex)\<lparr>dist_row_list := rs\<rparr>"
    using len by (simp add: active_rows_def se) (simp add: d'_def)
  have dl: "dist_row_list (active_rows d') = rs" by (simp add: a)
  have el: "edge_row_list (active_rows d') = edge_row_list (active_rows d)"
    by (simp add: a act) (simp add: active_rows_def)
  have other: "\<forall>j<length (mode_rows d). j \<noteq> ?dex \<longrightarrow> mode_rows d' ! j = detach_rows (mode_rows d ! j)"
    by (simp add: d'_def get_mode_rows_inactive)
  show ?thesis
    using res se vi le el other rs(2,3) unfolding dl[symmetric] by blast
qed

lemma scan_signals_box:
  "\<exists>found. scan_signals sigs (Some bx) e s = Inr found"
  by (induction sigs) (auto split: option.splits)

lemma update_edge_row_case:
  assumes "edge_bound r"
  shows "case update_edge_row v ss r of Inl e \<Rightarrow> False | Inr r' \<Rightarrow>
       cursor1 r' = cleared (length (get_cursorList v ss)) (cursor1 r)
     \<and> cursor2 r' = cleared (length (get_cursorList v ss)) (cursor2 r)
     \<and> start_bt r' = (if cursor1 r' = cursor1 r then start_bt r else Some '''')
     \<and> end_bt r' = (if cursor2 r' = cursor2 r then end_bt r else Some '''')
     \<and> r_label r' = Some (if cursor1 r' \<noteq> - 1 \<and> cursor2 r' \<noteq> - 1
          then (case scan_signals (signals ss) (box r)
                       (get_cursor_samples (get_cursorList v ss) (cursor2 r' - 1))
                       (get_cursor_samples (get_cursorList v ss) (cursor1 r' - 1)) of
                  Inr (Some delta_text) \<Rightarrow> delta_text | _ \<Rightarrow> ''-/-/-'')
          else ''-/-/-'')
     \<and> channelIndex r' = channelIndex r \<and> box r' = box r \<and> del_bt r' = del_bt r
     \<and> edge_bound r'"
proof -
  let ?cl = "get_cursorList v ss"
  from assms obtain sb eb rl bx where
    w: "start_bt r = Some sb" "end_bt r = Some eb" "r_label r = Some rl" "box r = Some bx"
    by (auto simp: edge_bound_def dist_bound_def)
  define c1 where "c1 = cleared (length ?cl) (cursor1 r)"
  define c2 where "c2 = cleared (length ?cl) (cursor2 r)"
  obtain found where
    f: "scan_signals (signals ss) (Some bx) (get_cursor_samples ?cl (c2 - 1))
          (get_cursor_samples ?cl (c1 - 1)) = Inr found"
    using scan_signals_box by blast
  consider (a) "cursor1 r \<noteq> - 1 \<and> cursor1 r > int (length ?cl)" "cursor2 r \<noteq> - 1 \<and> cursor2 r > int (length ?cl)"
    | (b) "cursor1 r \<noteq> - 1 \<and> cursor1 r > int (length ?cl)" "\<not> (cursor2 r \<noteq> - 1 \<and> cursor2 r > int (length ?cl))"
    | (c) "\<not> (cursor1 r \<noteq> - 1 \<and> cursor1 r > int (length ?cl))" "cursor2 r \<noteq> - 1 \<and> cursor2 r > int (length ?cl)"
    | (d) "\<not> (cursor1 r \<noteq> - 1 \<and> cursor1 r > int (length ?cl))" "\<not> (cursor2 r \<noteq> - 1 \<and> cursor2 r > int (length ?cl))"
    by blast
  then show ?thesis
  proof cases
    case a
    then show ?thesis
      by (simp add: update_edge_row_def Let_def cleared_def w edge_bound_def dist_bound_def)
  next
    case b
    then show ?thesis
      by (simp add: update_edge_row_def Let_def cleared_def w edge_bound_def dist_bound_def)
  next
    case c
    then show ?thesis
      by (auto simp add: update_edge_row_def Let_def cleared_def w edge_bound_def dist_bound_def)
  next
    case d
    then have e: "c1 = cursor1 r" "c2 = cursor2 r" by (auto simp: c1_def c2_def cleared_def)
    show ?thesis
    proof (cases "cursor1 r \<noteq> - 1 \<and> cursor2 r \<noteq> - 1")
      case True
      with d f e show ?thesis
        by (cases found)
           (simp_all add: update_edge_row_def Let_def cleared_def w edge_bound_def dist_bound_def)
    next
      case False
      with d show ?thesis
        by (auto simp add: update_edge_row_def Let_def cleared_def w edge_bound_def dist_bound_def)
    qed
  qed
qed

lemma update_edge_row_bound:
  assumes "edge_bound r"
  shows "\<exists>r'. update_edge_row v ss r = Inr r'"
  using update_edge_row_case[OF assms, of v ss]
  by (cases "update_edge_row v ss r") simp_all

lemma update_edge_rows_bound:
  "list_all edge_bound rows \<Longrightarrow>
   \<exists>rows'. update_edge_rows v ss rows = Inr rows' \<and> length rows' = length rows
      \<and> (\<forall>i<length rows. update_edge_row v ss (rows ! i) = Inr (rows' ! i))"
proof (induction rows)
  case Nil
  then show ?case by simp
next
  case (Cons r rows)
  then have b: "edge_bound r" and bs: "list_all edge_bound rows" by simp_all
  from update_edge_row_bound[OF b, of v ss] obtain r' where r': "update_edge_row v ss r = Inr r'"
    by blast
  from Cons.IH[OF bs] obtain rows' where rows': "update_edge_rows v ss rows = Inr rows'"
    "length rows' = length rows" "\<forall>i<length rows. update_edge_row v ss (rows ! i) = Inr (rows' ! i)"
    by blast
  have s: "start_bt r \<noteq> None" using b by (simp add: edge_bound_def dist_bound_def)
  have "update_edge_rows v ss (r # rows) = Inr (r' # rows')"
    using s r' rows'(1) by auto
  moreover have "\<forall>i<length (r # rows). update_edge_row v ss ((r # rows) ! i) = Inr ((r' # rows') ! i)"
    using r' rows'(3) by (auto simp: nth_Cons split: nat.splits)
  ultimately show ?case using rows'(2) by simp
qed

lemma update_edge_dock:
  assumes dex: "mode_dex (work_mode (session d)) < length (mode_rows d)"
    and bound: "list_all edge_bound (edge_row_list (active_rows d))"
  shows "\<exists>d'. update_edge d = Inr d' \<and> session d' = session d \<and> view d' = view d
     \<and> length (mode_rows d') = length (mode_rows d)
     \<and> length (edge_row_list (active_rows d')) = length (edge_row_list (active_rows d))
     \<and> dist_row_list (active_rows d') = dist_row_list (active_rows d)
     \<and> (\<forall>i<length (edge_row_list (active_rows d)).
          update_edge_row (view d) (session d) (edge_row_list (active_rows d) ! i)
            = Inr (edge_row_list (active_rows d') ! i))
     \<and> (\<forall>j<length (mode_rows d). j \<noteq> mode_dex (work_mode (session d)) \<longrightarrow>
          mode_rows d' ! j = detach_rows (mode_rows d ! j))"
proof -
  let ?dex = "mode_dex (work_mode (session d))"
  let ?d1 = "fst (get_mode_rows d)"
  have act: "mode_rows ?d1 ! ?dex = (mode_rows d ! ?dex)\<lparr>mode_type := work_mode (session d)\<rparr>"
    by (rule get_mode_rows_active[OF dex])
  have rows: "edge_row_list (mode_rows ?d1 ! ?dex) = edge_row_list (active_rows d)"
    by (simp add: act active_rows_def)
  from update_edge_rows_bound[OF bound, of "view d" "session d"] obtain rs where
    rs: "update_edge_rows (view d) (session d) (edge_row_list (active_rows d)) = Inr rs"
      "length rs = length (edge_row_list (active_rows d))"
      "\<forall>i<length (edge_row_list (active_rows d)).
          update_edge_row (view d) (session d) (edge_row_list (active_rows d) ! i) = Inr (rs ! i)"
    by blast
  define d' where "d' = ?d1\<lparr>mode_rows := (mode_rows ?d1)[?dex := (mode_rows ?d1 ! ?dex)\<lparr>edge_row_list := rs\<rparr>]\<rparr>"
  have res: "update_edge d = Inr d'"
    using rs(1) rows
    by (simp add: update_edge_def case_prod_beta get_mode_rows_snd get_mode_rows_session
        get_mode_rows_view d'_def Let_def)
  have len: "?dex < length (mode_rows ?d1)" using dex by (simp add: get_mode_rows_length)
  have se: "session d' = session d" and vi: "view d' = view d"
    by (simp_all add: d'_def get_mode_rows_session get_mode_rows_view)
  have le: "length (mode_rows d') = length (mode_rows d)"
    by (simp add: d'_def get_mode_rows_length)
  have a: "active_rows d' = (mode_rows ?d1 ! ?dex)\<lparr>edge_row_list := rs\<rparr>"
    using len by (simp add: active_rows_def se) (simp add: d'_def)
  have dl: "edge_row_list (active_rows d') = rs" by (simp add: a)
  have el: "dist_row_list (active_rows d') = dist_row_list (active_rows d)"
    by (simp add: a act) (simp add: active_rows_def)
  have other: "\<forall>j<length (mode_rows d). j \<noteq> ?dex \<longrightarrow> mode_rows d' ! j = detach_rows (mode_rows d ! j)"
    by (simp add: d'_def get_mode_rows_inactive)
  show ?thesis
    using res se vi le el other rs(2,3) unfolding dl[symmetric] by blast
qed

subsection \<open>Construction of a cursor\<close>

text \<open>
  C2. The claim is that a constructed cursor carries the constructor argument as its
  display order. The constructor as written does not: whatever the order argument is,
  the field keeps the content it had before the body ran. The theorem evaluates the
  constructor: order argument 1, prior content 0, sample index 1000 give order 0.
\<close>

theorem Cursor_order_not_from_argument:
  "c_order (Cursor_Cursor uninit order sampleIndex) = uninit
   \<and> c_order (Cursor_Cursor 0 1 1000) \<noteq> 1"
  by (simp add: Cursor_Cursor_def)

subsection \<open>The label of a cursor and the visible part of the view\<close>

lemma not_less_double:
  "lo \<noteq> NaN \<Longrightarrow> hi \<noteq> NaN \<Longrightarrow>
   \<not> less_double a lo \<and> \<not> less_double hi a \<longleftrightarrow> a = NaN \<or> lies_within a lo hi"
  by (cases a; cases lo; cases hi) (auto simp: lies_within_def)

lemma rounded_number: "rounded rnd s m \<noteq> NaN" "\<not> is_nan (rounded rnd s m)"
  by (simp_all add: rounded_def is_nan_def split: option.splits)

lemma edges_are_numbers: "left_edge rnd v \<noteq> NaN" "right_edge rnd v \<noteq> NaN"
  by (simp_all add: left_edge_def right_edge_def double_of_int64_def rounded_number)

text \<open>
  When the offset of a cursor is not a number. The quotient of two doubles is not a
  number when one of them is not, when both are zeros and when both are infinities; the
  product, when a factor is not a number and when one is a zero and the other an
  infinity. Under the roundings of the machine a sample index converts to a finite
  double, and to a zero only when it is 0. So the offset is not a number only when
  \<open>samples_per_pixel\<close> is not a number (the scale is not a number, or it is an
  infinity while the sample rate is 0), or when \<open>samples_per_pixel\<close> is a zero and
  the cursor stands at the sample 0.
\<close>

lemma quotient_nan:
  "is_nan (quotient rnd a b) \<longleftrightarrow>
     is_nan a \<or> is_nan b \<or> (is_zero a \<and> is_zero b) \<or> (is_infinity a \<and> is_infinity b)"
  by (cases a; cases b)
     (auto simp: is_nan_def is_zero_def is_infinity_def rounded_number)

lemma multiply_nan:
  "is_nan (multiply rnd a b) \<longleftrightarrow>
     is_nan a \<or> is_nan b \<or> (is_zero a \<and> is_infinity b) \<or> (is_infinity a \<and> is_zero b)"
  by (cases a; cases b)
     (auto simp: is_nan_def is_zero_def is_infinity_def rounded_number)

lemma cur_offset_nan:
  "is_nan (cur_offset rnd v this) \<longleftrightarrow>
     is_nan (samples_per_pixel rnd v)
     \<or> (is_zero (double_of_uint64 rnd (c_index this)) \<and> is_zero (samples_per_pixel rnd v))
     \<or> (is_infinity (double_of_uint64 rnd (c_index this))
          \<and> is_infinity (samples_per_pixel rnd v))"
  by (simp add: cur_offset_def quotient_nan double_of_uint64_def rounded_number)

lemma samples_per_pixel_nan:
  "is_nan (samples_per_pixel rnd v) \<longleftrightarrow>
     is_nan (scale v)
     \<or> (is_zero (double_of_uint64 rnd (cur_snap_samplerate (geometry_session v)))
          \<and> is_infinity (scale v))
     \<or> (is_infinity (double_of_uint64 rnd (cur_snap_samplerate (geometry_session v)))
          \<and> is_zero (scale v))"
  by (simp add: samples_per_pixel_def multiply_nan double_of_uint64_def rounded_number)

lemmas label_eval =
  get_label_rect_def cur_offset_def samples_per_pixel_def double_of_uint64_def
  double_of_int64_def left_edge_def right_edge_def rounded_def exact_def signed_def
  lies_within_def is_nan_def example_geometry_def degenerate_geometry_def

text \<open>
  With a sample rate of 0 the cursor at the sample 0 has an offset of 0/0, which is not a
  number; both comparisons are false and the label is reported visible.
\<close>

lemma label_at_rate_zero:
  "is_nan (cur_offset exact degenerate_geometry \<lparr>c_index = 0, c_order = 1\<rparr>)"
  "get_label_rect exact degenerate_geometry \<lparr>c_index = 0, c_order = 1\<rparr> (QRect 80 4 40 20)
     = (QRect 80 4 40 20, True)"
  by (simp_all add: label_eval)

text \<open>
  C7. \<open>get_label_rect\<close> compares the offset of the cursor, the double computed as the
  sample index divided by the product of sample rate and scale, with the two ends of the
  view. Whenever that offset is a number, the label is reported visible if and only if
  the offset lies within the interval from \<open>x_offset\<close> to \<open>x_offset\<close> plus the
  width, both ends included, and when it lies outside, \<open>visible\<close> is false and the
  rectangle returned is (-1, -1, 0, 0); when it lies within, the rectangle is the one of
  the label. This holds for every rounding of the arithmetic. An offset that is not a
  number passes both comparisons: the label is then reported visible.
\<close>

theorem label_visible_iff_within:
  "(\<not> is_nan (cur_offset rnd v this) \<longrightarrow>
      (snd (get_label_rect rnd v this label_rect) \<longleftrightarrow>
         lies_within (cur_offset rnd v this) (left_edge rnd v) (right_edge rnd v))
      \<and> (\<not> lies_within (cur_offset rnd v this) (left_edge rnd v) (right_edge rnd v) \<longrightarrow>
            get_label_rect rnd v this label_rect = (QRect (- 1) (- 1) 0 0, False))
      \<and> (lies_within (cur_offset rnd v this) (left_edge rnd v) (right_edge rnd v) \<longrightarrow>
            get_label_rect rnd v this label_rect = (label_rect, True)))
   \<and> (is_nan (cur_offset rnd v this) \<longrightarrow>
        get_label_rect rnd v this label_rect = (label_rect, True))"
proof -
  let ?q = "cur_offset rnd v this"
  have d: "get_label_rect rnd v this label_rect =
             (if \<not> less_double ?q (left_edge rnd v) \<and> \<not> less_double (right_edge rnd v) ?q
              then (label_rect, True) else (QRect (- 1) (- 1) 0 0, False))"
    by (simp add: get_label_rect_def left_edge_def right_edge_def)
  have n: "\<not> less_double ?q (left_edge rnd v) \<and> \<not> less_double (right_edge rnd v) ?q \<longleftrightarrow>
             is_nan ?q \<or> lies_within ?q (left_edge rnd v) (right_edge rnd v)"
    using not_less_double[OF edges_are_numbers(1) edges_are_numbers(2), where a = ?q]
    by (simp add: is_nan_def)
  have w: "\<not> lies_within NaN lo hi" for lo hi
    by (simp add: lies_within_def)
  show ?thesis
    unfolding d n using w by (auto simp: is_nan_def)
qed

theorem label_visible_iff_within_witness:
  "\<not> is_nan (cur_offset exact example_geometry \<lparr>c_index = 400, c_order = 1\<rparr>)
   \<and> lies_within (cur_offset exact example_geometry \<lparr>c_index = 400, c_order = 1\<rparr>)
        (left_edge exact example_geometry) (right_edge exact example_geometry)
   \<and> get_label_rect exact example_geometry \<lparr>c_index = 400, c_order = 1\<rparr> (QRect 80 4 40 20)
        = (QRect 80 4 40 20, True)
   \<and> \<not> is_nan (cur_offset exact example_geometry \<lparr>c_index = 4000, c_order = 2\<rparr>)
   \<and> \<not> lies_within (cur_offset exact example_geometry \<lparr>c_index = 4000, c_order = 2\<rparr>)
        (left_edge exact example_geometry) (right_edge exact example_geometry)
   \<and> get_label_rect exact example_geometry \<lparr>c_index = 4000, c_order = 2\<rparr> (QRect 80 4 40 20)
        = (QRect (- 1) (- 1) 0 0, False)
   \<and> \<not> snd (get_label_rect exact example_geometry \<lparr>c_index = 100, c_order = 1\<rparr>
              (QRect 80 4 40 20))
   \<and> snd (get_label_rect exact example_geometry \<lparr>c_index = 200, c_order = 1\<rparr>
            (QRect 80 4 40 20))
   \<and> snd (get_label_rect exact example_geometry \<lparr>c_index = 3400, c_order = 1\<rparr>
            (QRect 80 4 40 20))"
proof -
  have a: "\<not> is_nan (cur_offset exact example_geometry \<lparr>c_index = 400, c_order = 1\<rparr>)"
    "lies_within (cur_offset exact example_geometry \<lparr>c_index = 400, c_order = 1\<rparr>)
        (left_edge exact example_geometry) (right_edge exact example_geometry)"
    by (simp_all add: label_eval)
  have b: "\<not> is_nan (cur_offset exact example_geometry \<lparr>c_index = 4000, c_order = 2\<rparr>)"
    "\<not> lies_within (cur_offset exact example_geometry \<lparr>c_index = 4000, c_order = 2\<rparr>)
        (left_edge exact example_geometry) (right_edge exact example_geometry)"
    by (simp_all add: label_eval)
  have c: "\<not> is_nan (cur_offset exact example_geometry \<lparr>c_index = 100, c_order = 1\<rparr>)"
    "\<not> lies_within (cur_offset exact example_geometry \<lparr>c_index = 100, c_order = 1\<rparr>)
        (left_edge exact example_geometry) (right_edge exact example_geometry)"
    "\<not> is_nan (cur_offset exact example_geometry \<lparr>c_index = 200, c_order = 1\<rparr>)"
    "lies_within (cur_offset exact example_geometry \<lparr>c_index = 200, c_order = 1\<rparr>)
        (left_edge exact example_geometry) (right_edge exact example_geometry)"
    "\<not> is_nan (cur_offset exact example_geometry \<lparr>c_index = 3400, c_order = 1\<rparr>)"
    "lies_within (cur_offset exact example_geometry \<lparr>c_index = 3400, c_order = 1\<rparr>)
        (left_edge exact example_geometry) (right_edge exact example_geometry)"
    by (simp_all add: label_eval)
  from label_visible_iff_within[of exact example_geometry "\<lparr>c_index = 400, c_order = 1\<rparr>"
      "QRect 80 4 40 20"] a
  have a': "get_label_rect exact example_geometry \<lparr>c_index = 400, c_order = 1\<rparr>
              (QRect 80 4 40 20) = (QRect 80 4 40 20, True)"
    by blast
  from label_visible_iff_within[of exact example_geometry "\<lparr>c_index = 4000, c_order = 2\<rparr>"
      "QRect 80 4 40 20"] b
  have b': "get_label_rect exact example_geometry \<lparr>c_index = 4000, c_order = 2\<rparr>
              (QRect 80 4 40 20) = (QRect (- 1) (- 1) 0 0, False)"
    by blast
  from label_visible_iff_within[of exact example_geometry "\<lparr>c_index = 100, c_order = 1\<rparr>"
      "QRect 80 4 40 20"] c(1,2)
  have c1: "\<not> snd (get_label_rect exact example_geometry \<lparr>c_index = 100, c_order = 1\<rparr>
              (QRect 80 4 40 20))"
    by blast
  from label_visible_iff_within[of exact example_geometry "\<lparr>c_index = 200, c_order = 1\<rparr>"
      "QRect 80 4 40 20"] c(3,4)
  have c2: "snd (get_label_rect exact example_geometry \<lparr>c_index = 200, c_order = 1\<rparr>
              (QRect 80 4 40 20))"
    by blast
  from label_visible_iff_within[of exact example_geometry "\<lparr>c_index = 3400, c_order = 1\<rparr>"
      "QRect 80 4 40 20"] c(5,6)
  have c3: "snd (get_label_rect exact example_geometry \<lparr>c_index = 3400, c_order = 1\<rparr>
              (QRect 80 4 40 20))"
    by blast
  show ?thesis
    by (intro conjI a a' b b' c1 c2 c3)
qed

subsection \<open>Rows with an unset reference\<close>

lemma example_dock_facts:
  "mode_dex (work_mode (session example_dock)) < length (mode_rows example_dock)"
  "list_all dist_bound (dist_row_list (active_rows example_dock))"
  "list_all edge_bound (edge_row_list (active_rows example_dock))"
  by (simp_all add: example_dock_def example_session_def example_rows_def active_rows_def
      mode_dex_def dist_bound_def edge_bound_def)

text \<open>
  C5. When the rows of the active mode have their widgets in place, \<open>update_dist\<close>
  returns, and every distance row one of whose two references is -1 then shows the
  placeholder of one space; likewise \<open>update_edge\<close> returns and every edge row with
  an unset reference shows \<open>-/-/-\<close>. The statement holds for every view and session,
  so the result of such a row depends on no marker and no signal: nothing is measured.
\<close>

theorem placeholder_when_unset:
  assumes dex: "mode_dex (work_mode (session d)) < length (mode_rows d)"
    and db: "list_all dist_bound (dist_row_list (active_rows d))"
    and eb: "list_all edge_bound (edge_row_list (active_rows d))"
  shows "(\<exists>d'. update_dist d = Inr d' \<and>
            (\<forall>i<length (dist_row_list (active_rows d)).
               cursor1 (dist_row_list (active_rows d) ! i) = - 1
                 \<or> cursor2 (dist_row_list (active_rows d) ! i) = - 1 \<longrightarrow>
               r_label (dist_row_list (active_rows d') ! i) = Some '' ''))
       \<and> (\<exists>d'. update_edge d = Inr d' \<and>
            (\<forall>i<length (edge_row_list (active_rows d)).
               cursor1 (edge_row_list (active_rows d) ! i) = - 1
                 \<or> cursor2 (edge_row_list (active_rows d) ! i) = - 1 \<longrightarrow>
               r_label (edge_row_list (active_rows d') ! i) = Some ''-/-/-''))"
proof
  from update_dist_dock[OF dex db] obtain d' where
    d': "update_dist d = Inr d'"
    "\<forall>i<length (dist_row_list (active_rows d)).
        update_dist_row (view d) (session d) (dist_row_list (active_rows d) ! i)
          = Inr (dist_row_list (active_rows d') ! i)"
    by blast
  have "r_label (dist_row_list (active_rows d') ! i) = Some '' ''"
    if i: "i < length (dist_row_list (active_rows d))"
      and u: "cursor1 (dist_row_list (active_rows d) ! i) = - 1
                 \<or> cursor2 (dist_row_list (active_rows d) ! i) = - 1" for i
  proof -
    let ?r = "dist_row_list (active_rows d) ! i"
    have b: "dist_bound ?r" using db i by (simp add: list_all_length)
    have "update_dist_row (view d) (session d) ?r = Inr (dist_row_list (active_rows d') ! i)"
      using d'(2) i by blast
    with update_dist_row_case[OF b, of "view d" "session d"] u show ?thesis
      by (auto simp: cleared_def split: if_splits)
  qed
  with d'(1) show "\<exists>d'. update_dist d = Inr d' \<and>
            (\<forall>i<length (dist_row_list (active_rows d)).
               cursor1 (dist_row_list (active_rows d) ! i) = - 1
                 \<or> cursor2 (dist_row_list (active_rows d) ! i) = - 1 \<longrightarrow>
               r_label (dist_row_list (active_rows d') ! i) = Some '' '')"
    by blast
next
  from update_edge_dock[OF dex eb] obtain d' where
    d': "update_edge d = Inr d'"
    "\<forall>i<length (edge_row_list (active_rows d)).
        update_edge_row (view d) (session d) (edge_row_list (active_rows d) ! i)
          = Inr (edge_row_list (active_rows d') ! i)"
    by blast
  have "r_label (edge_row_list (active_rows d') ! i) = Some ''-/-/-''"
    if i: "i < length (edge_row_list (active_rows d))"
      and u: "cursor1 (edge_row_list (active_rows d) ! i) = - 1
                 \<or> cursor2 (edge_row_list (active_rows d) ! i) = - 1" for i
  proof -
    let ?r = "edge_row_list (active_rows d) ! i"
    have b: "edge_bound ?r" using eb i by (simp add: list_all_length)
    have "update_edge_row (view d) (session d) ?r = Inr (edge_row_list (active_rows d') ! i)"
      using d'(2) i by blast
    with update_edge_row_case[OF b, of "view d" "session d"] u show ?thesis
      by (auto simp: cleared_def split: if_splits)
  qed
  with d'(1) show "\<exists>d'. update_edge d = Inr d' \<and>
            (\<forall>i<length (edge_row_list (active_rows d)).
               cursor1 (edge_row_list (active_rows d) ! i) = - 1
                 \<or> cursor2 (edge_row_list (active_rows d) ! i) = - 1 \<longrightarrow>
               r_label (edge_row_list (active_rows d') ! i) = Some ''-/-/-'')"
    by blast
qed

theorem placeholder_when_unset_witness:
  "mode_dex (work_mode (session example_dock)) < length (mode_rows example_dock)
   \<and> list_all dist_bound (dist_row_list (active_rows example_dock))
   \<and> list_all edge_bound (edge_row_list (active_rows example_dock))
   \<and> cursor1 (dist_row_list (active_rows example_dock) ! 2) = - 1
   \<and> cursor1 (edge_row_list (active_rows example_dock) ! 1) = - 1
   \<and> (\<exists>d'. update_dist example_dock = Inr d'
          \<and> r_label (dist_row_list (active_rows d') ! 2) = Some '' '')
   \<and> (\<exists>d'. update_edge example_dock = Inr d'
          \<and> r_label (edge_row_list (active_rows d') ! 1) = Some ''-/-/-'')"
proof -
  note f = example_dock_facts
  have c: "cursor1 (dist_row_list (active_rows example_dock) ! 2) = - 1"
    "cursor1 (edge_row_list (active_rows example_dock) ! 1) = - 1"
    "2 < length (dist_row_list (active_rows example_dock))"
    "1 < length (edge_row_list (active_rows example_dock))"
    by (simp_all add: example_dock_def example_session_def example_rows_def active_rows_def
        mode_dex_def)
  from placeholder_when_unset[OF f] c show ?thesis
    using f by blast
qed

subsection \<open>The cleanup of stale references\<close>

lemma get_cursor_samples_in_range:
  "1 \<le> c \<Longrightarrow> c \<le> int (length cursor_list) \<Longrightarrow>
   get_cursor_samples cursor_list (c - 1) = c_index (cursor_list ! nat (c - 1))"
  by (simp add: get_cursor_samples_def)

lemma two_marker_list:
  "get_cursorList two_marker_view example_session
   = [\<lparr>c_index = 2, c_order = 1\<rparr>, \<lparr>c_index = 6, c_order = 2\<rparr>]"
  by (simp add: get_cursorList_def two_marker_view_def example_session_def)

lemma two_marker_dock_facts:
  "mode_dex (work_mode (session two_marker_dock)) < length (mode_rows two_marker_dock)"
  "list_all dist_bound (dist_row_list (active_rows two_marker_dock))"
  "list_all edge_bound (edge_row_list (active_rows two_marker_dock))"
  "2 = int (length (get_cursorList (view two_marker_dock) (session two_marker_dock)))"
  by (simp_all add: two_marker_dock_def example_dock_def two_marker_list)
     (simp_all add: example_session_def example_rows_def active_rows_def
      mode_dex_def dist_bound_def edge_bound_def)

text \<open>
  C10. In \<open>update_dist\<close> and in \<open>update_edge\<close>, for \<open>n\<close> markers in the list of
  the view: a reference greater than \<open>n\<close> is set to -1 and the text of its button is
  emptied; a reference of at most \<open>n\<close>, also one equal to \<open>n\<close>, is kept with its
  button. A row whose two references lie between 1 and \<open>n\<close> is measured on the
  markers that stand at these positions of the list now, whichever they are: the distance
  text is that of the two orders and its sample difference is taken from the markers at
  positions \<open>cursor1 - 1\<close> and \<open>cursor2 - 1\<close>; the edge scan runs between the
  samples of these two markers.
\<close>

theorem stale_reference_cleanup:
  assumes dex: "mode_dex (work_mode (session d)) < length (mode_rows d)"
    and db: "list_all dist_bound (dist_row_list (active_rows d))"
    and eb: "list_all edge_bound (edge_row_list (active_rows d))"
    and n: "n = int (length (get_cursorList (view d) (session d)))"
  shows "(\<exists>d'. update_dist d = Inr d' \<and>
            (\<forall>i<length (dist_row_list (active_rows d)).
               (let r = dist_row_list (active_rows d) ! i;
                    r' = dist_row_list (active_rows d') ! i
                in (cursor1 r > n \<longrightarrow> cursor1 r' = - 1 \<and> start_bt r' = Some '''')
                 \<and> (cursor1 r \<le> n \<longrightarrow> cursor1 r' = cursor1 r \<and> start_bt r' = start_bt r)
                 \<and> (cursor2 r > n \<longrightarrow> cursor2 r' = - 1 \<and> end_bt r' = Some '''')
                 \<and> (cursor2 r \<le> n \<longrightarrow> cursor2 r' = cursor2 r \<and> end_bt r' = end_bt r)
                 \<and> (1 \<le> cursor1 r \<and> cursor1 r \<le> n \<and> 1 \<le> cursor2 r \<and> cursor2 r \<le> n \<longrightarrow>
                      r_label r' = Some (dist_text (view d) (session d) (cursor1 r) (cursor2 r))
                      \<and> cursor_delta (get_cursorList (view d) (session d)) (cursor1 r) (cursor2 r) =
                          sint (c_index (get_cursorList (view d) (session d) ! nat (cursor1 r - 1)) -
                                c_index (get_cursorList (view d) (session d) ! nat (cursor2 r - 1)))))))
       \<and> (\<exists>d'. update_edge d = Inr d' \<and>
            (\<forall>i<length (edge_row_list (active_rows d)).
               (let r = edge_row_list (active_rows d) ! i;
                    r' = edge_row_list (active_rows d') ! i
                in (cursor1 r > n \<longrightarrow> cursor1 r' = - 1 \<and> start_bt r' = Some '''')
                 \<and> (cursor1 r \<le> n \<longrightarrow> cursor1 r' = cursor1 r \<and> start_bt r' = start_bt r)
                 \<and> (cursor2 r > n \<longrightarrow> cursor2 r' = - 1 \<and> end_bt r' = Some '''')
                 \<and> (cursor2 r \<le> n \<longrightarrow> cursor2 r' = cursor2 r \<and> end_bt r' = end_bt r)
                 \<and> (1 \<le> cursor1 r \<and> cursor1 r \<le> n \<and> 1 \<le> cursor2 r \<and> cursor2 r \<le> n \<longrightarrow>
                      r_label r' =
                        Some (case scan_signals (signals (session d)) (box r)
                                (c_index (get_cursorList (view d) (session d) ! nat (cursor2 r - 1)))
                                (c_index (get_cursorList (view d) (session d) ! nat (cursor1 r - 1))) of
                              Inr (Some delta_text) \<Rightarrow> delta_text | _ \<Rightarrow> ''-/-/-'')))))"
proof
  from update_dist_dock[OF dex db] obtain d' where
    d': "update_dist d = Inr d'"
    "\<forall>i<length (dist_row_list (active_rows d)).
        update_dist_row (view d) (session d) (dist_row_list (active_rows d) ! i)
          = Inr (dist_row_list (active_rows d') ! i)"
    by blast
  have "let r = dist_row_list (active_rows d) ! i;
            r' = dist_row_list (active_rows d') ! i
        in (cursor1 r > n \<longrightarrow> cursor1 r' = - 1 \<and> start_bt r' = Some '''')
         \<and> (cursor1 r \<le> n \<longrightarrow> cursor1 r' = cursor1 r \<and> start_bt r' = start_bt r)
         \<and> (cursor2 r > n \<longrightarrow> cursor2 r' = - 1 \<and> end_bt r' = Some '''')
         \<and> (cursor2 r \<le> n \<longrightarrow> cursor2 r' = cursor2 r \<and> end_bt r' = end_bt r)
         \<and> (1 \<le> cursor1 r \<and> cursor1 r \<le> n \<and> 1 \<le> cursor2 r \<and> cursor2 r \<le> n \<longrightarrow>
              r_label r' = Some (dist_text (view d) (session d) (cursor1 r) (cursor2 r))
                      \<and> cursor_delta (get_cursorList (view d) (session d)) (cursor1 r) (cursor2 r) =
                          sint (c_index (get_cursorList (view d) (session d) ! nat (cursor1 r - 1)) -
                                c_index (get_cursorList (view d) (session d) ! nat (cursor2 r - 1))))"
    if i: "i < length (dist_row_list (active_rows d))" for i
  proof -
    let ?r = "dist_row_list (active_rows d) ! i"
    have b: "dist_bound ?r" using db i by (simp add: list_all_length)
    have "update_dist_row (view d) (session d) ?r = Inr (dist_row_list (active_rows d') ! i)"
      using d'(2) i by blast
    with update_dist_row_case[OF b, of "view d" "session d"] n show ?thesis
      by (auto simp: cleared_def Let_def cursor_delta_def get_cursor_samples_in_range split: if_splits)
  qed
  with d'(1) show "\<exists>d'. update_dist d = Inr d' \<and>
            (\<forall>i<length (dist_row_list (active_rows d)).
               (let r = dist_row_list (active_rows d) ! i;
                    r' = dist_row_list (active_rows d') ! i
                in (cursor1 r > n \<longrightarrow> cursor1 r' = - 1 \<and> start_bt r' = Some '''')
                 \<and> (cursor1 r \<le> n \<longrightarrow> cursor1 r' = cursor1 r \<and> start_bt r' = start_bt r)
                 \<and> (cursor2 r > n \<longrightarrow> cursor2 r' = - 1 \<and> end_bt r' = Some '''')
                 \<and> (cursor2 r \<le> n \<longrightarrow> cursor2 r' = cursor2 r \<and> end_bt r' = end_bt r)
                 \<and> (1 \<le> cursor1 r \<and> cursor1 r \<le> n \<and> 1 \<le> cursor2 r \<and> cursor2 r \<le> n \<longrightarrow>
                      r_label r' = Some (dist_text (view d) (session d) (cursor1 r) (cursor2 r))
                      \<and> cursor_delta (get_cursorList (view d) (session d)) (cursor1 r) (cursor2 r) =
                          sint (c_index (get_cursorList (view d) (session d) ! nat (cursor1 r - 1)) -
                                c_index (get_cursorList (view d) (session d) ! nat (cursor2 r - 1))))))"
    by blast
next
  let ?cl = "get_cursorList (view d) (session d)"
  from update_edge_dock[OF dex eb] obtain d' where
    d': "update_edge d = Inr d'"
    "\<forall>i<length (edge_row_list (active_rows d)).
        update_edge_row (view d) (session d) (edge_row_list (active_rows d) ! i)
          = Inr (edge_row_list (active_rows d') ! i)"
    by blast
  have "let r = edge_row_list (active_rows d) ! i;
            r' = edge_row_list (active_rows d') ! i
        in (cursor1 r > n \<longrightarrow> cursor1 r' = - 1 \<and> start_bt r' = Some '''')
         \<and> (cursor1 r \<le> n \<longrightarrow> cursor1 r' = cursor1 r \<and> start_bt r' = start_bt r)
         \<and> (cursor2 r > n \<longrightarrow> cursor2 r' = - 1 \<and> end_bt r' = Some '''')
         \<and> (cursor2 r \<le> n \<longrightarrow> cursor2 r' = cursor2 r \<and> end_bt r' = end_bt r)
         \<and> (1 \<le> cursor1 r \<and> cursor1 r \<le> n \<and> 1 \<le> cursor2 r \<and> cursor2 r \<le> n \<longrightarrow>
              r_label r' =
                Some (case scan_signals (signals (session d)) (box r)
                        (c_index (?cl ! nat (cursor2 r - 1)))
                        (c_index (?cl ! nat (cursor1 r - 1))) of
                      Inr (Some delta_text) \<Rightarrow> delta_text | _ \<Rightarrow> ''-/-/-''))"
    if i: "i < length (edge_row_list (active_rows d))" for i
  proof -
    let ?r = "edge_row_list (active_rows d) ! i"
    let ?r' = "edge_row_list (active_rows d') ! i"
    have b: "edge_bound ?r" using eb i by (simp add: list_all_length)
    have u: "update_edge_row (view d) (session d) ?r = Inr ?r'"
      using d'(2) i by blast
    have slots: "(cursor1 ?r > n \<longrightarrow> cursor1 ?r' = - 1 \<and> start_bt ?r' = Some '''')
         \<and> (cursor1 ?r \<le> n \<longrightarrow> cursor1 ?r' = cursor1 ?r \<and> start_bt ?r' = start_bt ?r)
         \<and> (cursor2 ?r > n \<longrightarrow> cursor2 ?r' = - 1 \<and> end_bt ?r' = Some '''')
         \<and> (cursor2 ?r \<le> n \<longrightarrow> cursor2 ?r' = cursor2 ?r \<and> end_bt ?r' = end_bt ?r)"
      using update_edge_row_case[OF b, of "view d" "session d"] n u
      by (auto simp: cleared_def split: if_splits)
    have lab: "r_label ?r' =
                Some (case scan_signals (signals (session d)) (box ?r)
                        (c_index (?cl ! nat (cursor2 ?r - 1)))
                        (c_index (?cl ! nat (cursor1 ?r - 1))) of
                      Inr (Some delta_text) \<Rightarrow> delta_text | _ \<Rightarrow> ''-/-/-'')"
      if rg: "1 \<le> cursor1 ?r \<and> cursor1 ?r \<le> n \<and> 1 \<le> cursor2 ?r \<and> cursor2 ?r \<le> n"
    proof -
      from rg n have k: "cleared (length ?cl) (cursor1 ?r) = cursor1 ?r"
        "cleared (length ?cl) (cursor2 ?r) = cursor2 ?r"
        "cursor1 ?r \<noteq> - 1" "cursor2 ?r \<noteq> - 1"
        by (auto simp: cleared_def)
      from rg n have s: "get_cursor_samples ?cl (cursor1 ?r - 1) = c_index (?cl ! nat (cursor1 ?r - 1))"
        "get_cursor_samples ?cl (cursor2 ?r - 1) = c_index (?cl ! nat (cursor2 ?r - 1))"
        by (simp_all add: get_cursor_samples_in_range)
      from update_edge_row_case[OF b, of "view d" "session d"] u k s show ?thesis
        by simp
    qed
    from slots lab show ?thesis by (simp add: Let_def)
  qed
  with d'(1) show "\<exists>d'. update_edge d = Inr d' \<and>
            (\<forall>i<length (edge_row_list (active_rows d)).
               (let r = edge_row_list (active_rows d) ! i;
                    r' = edge_row_list (active_rows d') ! i
                in (cursor1 r > n \<longrightarrow> cursor1 r' = - 1 \<and> start_bt r' = Some '''')
                 \<and> (cursor1 r \<le> n \<longrightarrow> cursor1 r' = cursor1 r \<and> start_bt r' = start_bt r)
                 \<and> (cursor2 r > n \<longrightarrow> cursor2 r' = - 1 \<and> end_bt r' = Some '''')
                 \<and> (cursor2 r \<le> n \<longrightarrow> cursor2 r' = cursor2 r \<and> end_bt r' = end_bt r)
                 \<and> (1 \<le> cursor1 r \<and> cursor1 r \<le> n \<and> 1 \<le> cursor2 r \<and> cursor2 r \<le> n \<longrightarrow>
                      r_label r' =
                        Some (case scan_signals (signals (session d)) (box r)
                                (c_index (?cl ! nat (cursor2 r - 1)))
                                (c_index (?cl ! nat (cursor1 r - 1))) of
                              Inr (Some delta_text) \<Rightarrow> delta_text | _ \<Rightarrow> ''-/-/-''))))"
    by blast
qed

theorem stale_reference_cleanup_witness:
  "mode_dex (work_mode (session two_marker_dock)) < length (mode_rows two_marker_dock)
   \<and> list_all dist_bound (dist_row_list (active_rows two_marker_dock))
   \<and> list_all edge_bound (edge_row_list (active_rows two_marker_dock))
   \<and> 2 = int (length (get_cursorList (view two_marker_dock) (session two_marker_dock)))
   \<and> cursor1 (dist_row_list (active_rows two_marker_dock) ! 1) = 2
   \<and> cursor2 (dist_row_list (active_rows two_marker_dock) ! 1) = 3
   \<and> (\<exists>d'. update_dist two_marker_dock = Inr d'
          \<and> cursor1 (dist_row_list (active_rows d') ! 1) = 2
          \<and> cursor2 (dist_row_list (active_rows d') ! 1) = - 1
          \<and> end_bt (dist_row_list (active_rows d') ! 1) = Some [])
   \<and> (\<exists>d'. update_edge two_marker_dock = Inr d'
          \<and> cursor1 (edge_row_list (active_rows d') ! 0) = 1
          \<and> cursor2 (edge_row_list (active_rows d') ! 0) = - 1
          \<and> end_bt (edge_row_list (active_rows d') ! 0) = Some [])"
proof -
  note f = two_marker_dock_facts
  have c: "cursor1 (dist_row_list (active_rows two_marker_dock) ! 1) = 2"
    "cursor2 (dist_row_list (active_rows two_marker_dock) ! 1) = 3"
    "cursor1 (edge_row_list (active_rows two_marker_dock) ! 0) = 1"
    "cursor2 (edge_row_list (active_rows two_marker_dock) ! 0) = 3"
    "1 < length (dist_row_list (active_rows two_marker_dock))"
    "0 < length (edge_row_list (active_rows two_marker_dock))"
    by (simp_all add: two_marker_dock_def example_dock_def example_session_def example_rows_def
        active_rows_def mode_dex_def)
  note th = stale_reference_cleanup[OF f]
  have "\<exists>d'. update_dist two_marker_dock = Inr d'
          \<and> cursor1 (dist_row_list (active_rows d') ! 1) = 2
          \<and> cursor2 (dist_row_list (active_rows d') ! 1) = - 1
          \<and> end_bt (dist_row_list (active_rows d') ! 1) = Some []"
    using th[THEN conjunct1] c(1,2,5)
    by (elim exE conjE allE[where x=1]) (auto simp: Let_def)
  moreover have "\<exists>d'. update_edge two_marker_dock = Inr d'
          \<and> cursor1 (edge_row_list (active_rows d') ! 0) = 1
          \<and> cursor2 (edge_row_list (active_rows d') ! 0) = - 1
          \<and> end_bt (edge_row_list (active_rows d') ! 0) = Some []"
    using th[THEN conjunct2] c(3,4,6)
    by (elim exE conjE allE[where x=0]) (auto simp: Let_def)
  ultimately show ?thesis using f c(1,2) by blast
qed

subsection \<open>Edge rows on a channel that cannot be scanned\<close>

lemma scan_signals_unavailable:
  assumes "\<forall>s\<in>set sigs. get_index s = currentText_toInt bx \<longrightarrow>
             signal_type s \<noteq> SR_CHANNEL_LOGIC \<or> \<not> enabled s \<or> edges s e st = None"
  shows "scan_signals sigs (Some bx) e st = Inr None"
  using assms by (induction sigs) auto

lemma unavailable_dock_facts:
  "2 < length (edge_row_list (active_rows example_dock))"
  "box (edge_row_list (active_rows example_dock) ! 2) = Some \<lparr>items = [0, 1], currentIndex = 1\<rparr>"
  "cursor1 (edge_row_list (active_rows example_dock) ! 2) = 1"
  "cursor2 (edge_row_list (active_rows example_dock) ! 2) = 2"
  "\<forall>s\<in>set (signals (session example_dock)).
      get_index s = currentText_toInt \<lparr>items = [0, 1], currentIndex = 1\<rparr> \<longrightarrow>
               signal_type s \<noteq> SR_CHANNEL_LOGIC \<or> \<not> enabled s
               \<or> (\<forall>end_index start_index. edges s end_index start_index = None)"
  by (simp_all add: example_dock_def example_session_def example_rows_def active_rows_def
        mode_dex_def currentText_toInt_def count_def)

text \<open>
  C6. An edge row whose widgets are in place (whether or not its two references are bound)
  shows exactly \<open>-/-/-\<close> after \<open>update_edge\<close> when every signal of the session
  that carries the index selected in the row's channel selector is not a logic signal, is
  disabled, or fails its edge scan. The statement holds for every view, so the positions
  of the markers do not matter, and the label is written anew, so nothing stale stays.
\<close>

theorem edge_placeholder_when_unavailable:
  assumes dex: "mode_dex (work_mode (session d)) < length (mode_rows d)"
    and eb: "list_all edge_bound (edge_row_list (active_rows d))"
    and i: "i < length (edge_row_list (active_rows d))"
    and bx: "box (edge_row_list (active_rows d) ! i) = Some bx"
    and un: "\<forall>s\<in>set (signals (session d)). get_index s = currentText_toInt bx \<longrightarrow>
               signal_type s \<noteq> SR_CHANNEL_LOGIC \<or> \<not> enabled s
               \<or> (\<forall>end_index start_index. edges s end_index start_index = None)"
  shows "\<exists>d'. update_edge d = Inr d'
           \<and> r_label (edge_row_list (active_rows d') ! i) = Some ''-/-/-''"
proof -
  let ?r = "edge_row_list (active_rows d) ! i"
  from update_edge_dock[OF dex eb] obtain d' where
    d': "update_edge d = Inr d'"
    "\<forall>i<length (edge_row_list (active_rows d)).
        update_edge_row (view d) (session d) (edge_row_list (active_rows d) ! i)
          = Inr (edge_row_list (active_rows d') ! i)"
    by blast
  have b: "edge_bound ?r" using eb i by (simp add: list_all_length)
  have u: "update_edge_row (view d) (session d) ?r = Inr (edge_row_list (active_rows d') ! i)"
    using d'(2) i by blast
  have sc: "scan_signals (signals (session d)) (box ?r) e st = Inr None" for e st
  proof -
    have "\<forall>s\<in>set (signals (session d)). get_index s = currentText_toInt bx \<longrightarrow>
             signal_type s \<noteq> SR_CHANNEL_LOGIC \<or> \<not> enabled s \<or> edges s e st = None"
      using un by auto
    then show ?thesis unfolding bx by (rule scan_signals_unavailable)
  qed
  from update_edge_row_case[OF b, of "view d" "session d"] u
  have "r_label (edge_row_list (active_rows d') ! i) = Some ''-/-/-''"
    by (simp add: sc)
  with d'(1) show ?thesis by blast
qed

theorem edge_placeholder_when_unavailable_witness:
  "mode_dex (work_mode (session example_dock)) < length (mode_rows example_dock)
   \<and> list_all edge_bound (edge_row_list (active_rows example_dock))
   \<and> 2 < length (edge_row_list (active_rows example_dock))
   \<and> box (edge_row_list (active_rows example_dock) ! 2) = Some \<lparr>items = [0, 1], currentIndex = 1\<rparr>
   \<and> cursor1 (edge_row_list (active_rows example_dock) ! 2) = 1
   \<and> cursor2 (edge_row_list (active_rows example_dock) ! 2) = 2
   \<and> \<not> enabled (signals (session example_dock) ! 1)
   \<and> (\<exists>d'. update_edge example_dock = Inr d'
          \<and> r_label (edge_row_list (active_rows d') ! 2) = Some ''-/-/-'')"
proof -
  have e: "\<not> enabled (signals (session example_dock) ! 1)"
    by (simp add: example_dock_def example_session_def)
  from edge_placeholder_when_unavailable[OF example_dock_facts(1,3) unavailable_dock_facts(1,2,5)]
  show ?thesis
    using example_dock_facts(1,3) unavailable_dock_facts(1-4) e by blast
qed

subsection \<open>Edge counts and the order of the two markers\<close>

text \<open>
  C4. The edge scan of a channel between two sample indices gives the same rising and
  falling counts for both orders of the indices, and the loop of \<open>update_edge\<close> over
  the signals therefore gives the same text (rising, falling and their sum) or the same
  failure for both orders. A row with the references (a, b) scans from the sample of b to
  the sample of a, a row with (b, a) the other way round.
\<close>

theorem edge_count_symmetric:
  "edges s a b = edges s b a
   \<and> scan_signals sigs bx a b = scan_signals sigs bx b a"
proof
  show e: "edges s a b = edges s b a" for s
    unfolding edges_def min.commute[of a b] max.commute[of a b] ..
  show "scan_signals sigs bx a b = scan_signals sigs bx b a"
    by (induction sigs) (auto simp: e split: option.splits)
qed

subsection \<open>The sign of a distance\<close>

lemma replace_absent: "a \<notin> set s \<Longrightarrow> replace a b s = s"
  by (induction s) (auto simp: replace_def)

lemma replace_append: "replace a b (s @ t) = replace a b s @ replace a b t"
  by (simp add: replace_def)

lemma replace_Cons: "replace a b (c # s) = (if c = a then b else c) # replace a b s"
  by (simp add: replace_def)

lemma cursor_delta_small:
  assumes "\<forall>c\<in>set cursor_list. uint (c_index c) < 2 ^ 63"
  shows "cursor_delta cursor_list a b =
           uint (get_cursor_samples cursor_list (a - 1)) - uint (get_cursor_samples cursor_list (b - 1))"
proof -
  have s: "uint (get_cursor_samples cursor_list i) < 2 ^ 63" for i
  proof (cases "0 \<le> i \<and> i < int (length cursor_list)")
    case True
    then have "cursor_list ! nat i \<in> set cursor_list" by (intro nth_mem) linarith
    with assms have "uint (c_index (cursor_list ! nat i)) < 2 ^ 63" by blast
    with True show ?thesis by (simp add: get_cursor_samples_def)
  next
    case False
    then show ?thesis by (auto simp add: get_cursor_samples_def)
  qed
  show ?thesis unfolding cursor_delta_def by (rule sint_diff_small) (rule s)+
qed

lemma get_cm_delta_commute: "get_cm_delta v ss i j = get_cm_delta v ss j i"
  by (auto simp: get_cm_delta_def Let_def)

lemma get_cm_delta_form:
  assumes "\<forall>delta_sample rate. glyph_free (time_text v delta_sample rate)"
  shows "\<exists>t. glyph_free t \<and> get_cm_delta v ss i j = CHR ''+'' # t"
  using assms by (simp add: get_cm_delta_def Let_def)

lemma dist_text_positive:
  assumes "0 < cursor_delta (get_cursorList v ss) x y"
  shows "dist_text v ss x y =
           get_cm_delta v ss (x - 1) (y - 1) @ ''/'' @
           digits (nat (cursor_delta (get_cursorList v ss) x y))"
  using assms by (simp add: dist_text_def Let_def number_def)

lemma dist_text_zero:
  assumes "cursor_delta (get_cursorList v ss) x y = 0"
  shows "dist_text v ss x y = get_cm_delta v ss (x - 1) (y - 1) @ ''/'' @ digits 0"
  using assms by (simp add: dist_text_def Let_def number_def)

lemma dist_text_negative:
  assumes "cursor_delta (get_cursorList v ss) x y < 0"
  shows "dist_text v ss x y =
           replace CHR ''+'' CHR ''-'' (get_cm_delta v ss (x - 1) (y - 1)) @ ''/'' @
           CHR ''-'' # digits (nat (- cursor_delta (get_cursorList v ss) x y))"
  using assms
  by (simp add: dist_text_def Let_def number_def replace_append replace_Cons
      replace_absent[OF digits_no_plus])

text \<open>
  C3. For two display orders a and b, with \<open>delta\<close> the sample difference that
  \<open>update_dist\<close> computes for a row with the references (a, b): the row with (b, a)
  gets the negated difference. When \<open>delta\<close> is positive the text for (a, b) is a plus
  glyph, the time text and the count, and the text for (b, a) is a minus glyph, the same
  time text and the same count with a minus; when \<open>delta\<close> is negative it is the other
  way round. So the time delta carries exactly one sign glyph, the leading one, plus for a
  positive and minus for a negative difference, the count after the slash is the signed
  decimal number, and a plus and a minus never occur in the same text.

  \<open>View::get_cm_delta\<close> and the ruler's formatting are not among the sources: the time
  text is taken to be free of sign glyphs. The marker positions are taken below
  \<open>2 ^ 63\<close> samples, so that the \<open>int64_t\<close> difference does not wrap.
\<close>

theorem distance_sign:
  assumes glyphs: "\<forall>delta_sample rate. glyph_free (time_text v delta_sample rate)"
    and small: "\<forall>c\<in>set (get_cursorList v ss). uint (c_index c) < 2 ^ 63"
    and delta: "delta = cursor_delta (get_cursorList v ss) a b"
  shows "cursor_delta (get_cursorList v ss) b a = - delta
     \<and> (0 < delta \<longrightarrow>
          (\<exists>t. glyph_free t
             \<and> dist_text v ss a b = CHR ''+'' # t @ ''/'' @ digits (nat delta)
             \<and> dist_text v ss b a = CHR ''-'' # t @ ''/'' @ CHR ''-'' # digits (nat delta)))
     \<and> (delta < 0 \<longrightarrow>
          (\<exists>t. glyph_free t
             \<and> dist_text v ss a b = CHR ''-'' # t @ ''/'' @ CHR ''-'' # digits (nat (- delta))
             \<and> dist_text v ss b a = CHR ''+'' # t @ ''/'' @ digits (nat (- delta))))
     \<and> \<not> (CHR ''+'' \<in> set (dist_text v ss a b) \<and> CHR ''-'' \<in> set (dist_text v ss a b))"
proof -
  let ?cl = "get_cursorList v ss"
  have c1: "cursor_delta ?cl b a = - delta"
    unfolding delta by (simp add: cursor_delta_small[OF small])
  from get_cm_delta_form[OF glyphs] obtain t where
    t: "glyph_free t" "get_cm_delta v ss (a - 1) (b - 1) = CHR ''+'' # t"
    by blast
  have t': "get_cm_delta v ss (b - 1) (a - 1) = CHR ''+'' # t"
    using t(2) get_cm_delta_commute[of v ss "b - 1" "a - 1"] by simp
  have rt: "replace CHR ''+'' CHR ''-'' t = t"
    using t(1) by (simp add: glyph_free_def replace_absent)
  have c2: "\<exists>t. glyph_free t
             \<and> dist_text v ss a b = CHR ''+'' # t @ ''/'' @ digits (nat delta)
             \<and> dist_text v ss b a = CHR ''-'' # t @ ''/'' @ CHR ''-'' # digits (nat delta)"
    if p: "0 < delta"
  proof -
    have "dist_text v ss a b = CHR ''+'' # t @ ''/'' @ digits (nat delta)"
      using dist_text_positive[of v ss a b] p t(2) delta by simp
    moreover have "dist_text v ss b a = CHR ''-'' # t @ ''/'' @ CHR ''-'' # digits (nat delta)"
      using dist_text_negative[of v ss b a] p t' c1 rt by (simp add: replace_Cons)
    ultimately show ?thesis using t(1) by blast
  qed
  have c3: "\<exists>t. glyph_free t
             \<and> dist_text v ss a b = CHR ''-'' # t @ ''/'' @ CHR ''-'' # digits (nat (- delta))
             \<and> dist_text v ss b a = CHR ''+'' # t @ ''/'' @ digits (nat (- delta))"
    if p: "delta < 0"
  proof -
    have "dist_text v ss a b = CHR ''-'' # t @ ''/'' @ CHR ''-'' # digits (nat (- delta))"
      using dist_text_negative[of v ss a b] p t(2) delta rt by (simp add: replace_Cons)
    moreover have "dist_text v ss b a = CHR ''+'' # t @ ''/'' @ digits (nat (- delta))"
      using dist_text_positive[of v ss b a] p t' c1 by simp
    ultimately show ?thesis using t(1) by blast
  qed
  have c4: "\<not> (CHR ''+'' \<in> set (dist_text v ss a b) \<and> CHR ''-'' \<in> set (dist_text v ss a b))"
  proof -
    consider "delta < 0" | "delta = 0" | "0 < delta" by linarith
    then show ?thesis
    proof cases
      case 1
      from c3[OF 1] show ?thesis by (auto simp: glyph_free_def digits_no_plus)
    next
      case 2
      then have "dist_text v ss a b = CHR ''+'' # t @ ''/'' @ digits 0"
        using dist_text_zero[of v ss a b] t(2) delta by simp
      with t(1) show ?thesis by (simp add: glyph_free_def digits_no_minus)
    next
      case 3
      from c2[OF 3] show ?thesis by (auto simp: glyph_free_def digits_no_minus)
    qed
  qed
  from c1 c2 c3 c4 show ?thesis by blast
qed

theorem distance_sign_witness:
  "(\<forall>delta_sample rate. glyph_free (time_text example_view delta_sample rate))
   \<and> list_all (\<lambda>c. uint (c_index c) < 2 ^ 63) (get_cursorList example_view example_session)
   \<and> cursor_delta (get_cursorList example_view example_session) 1 2 = - 2
   \<and> cursor_delta (get_cursorList example_view example_session) 2 1 = 2
   \<and> dist_text example_view example_session 1 2 = ''-2us/-2''
   \<and> dist_text example_view example_session 2 1 = ''+2us/2''
   \<and> \<not> (CHR ''+'' \<in> set (dist_text example_view example_session 1 2)
        \<and> CHR ''-'' \<in> set (dist_text example_view example_session 1 2))"
proof -
  have g: "\<forall>delta_sample rate. glyph_free (time_text example_view delta_sample rate)"
    by (simp add: example_view_def glyph_free_def digits_no_plus digits_no_minus)
  have s: "\<forall>c\<in>set (get_cursorList example_view example_session). uint (c_index c) < 2 ^ 63"
    by (simp add: example_view_def example_session_def get_cursorList_def)
  have d: "- 2 = cursor_delta (get_cursorList example_view example_session) 1 2"
    by (simp add: cursor_delta_def get_cursor_samples_def example_view_def example_session_def
        get_cursorList_def)
  have t: "dist_text example_view example_session 1 2 = ''-2us/-2''"
    "dist_text example_view example_session 2 1 = ''+2us/2''"
    by (simp_all add: dist_text_def cursor_delta_def get_cm_delta_def get_cursor_samples_def
        example_view_def example_session_def get_cursorList_def number_def replace_def
        digits.simps)
  have s': "list_all (\<lambda>c. uint (c_index c) < 2 ^ 63) (get_cursorList example_view example_session)"
    using s by (simp add: list_all_iff)
  from distance_sign[OF g s d] g s' d t show ?thesis by simp
qed

subsection \<open>Adding a row\<close>

lemma get_mode_rows_active_rows:
  "mode_dex (work_mode (session d)) < length (mode_rows d) \<Longrightarrow>
   active_rows (fst (get_mode_rows d)) = (active_rows d)\<lparr>mode_type := work_mode (session d)\<rparr>"
  by (simp add: active_rows_def get_mode_rows_session get_mode_rows_active)

lemma build_dist_pannel_session: "session (build_dist_pannel d) = session d"
  by (simp add: build_dist_pannel_def case_prod_beta Let_def get_mode_rows_session)

lemma build_dist_pannel_view: "view (build_dist_pannel d) = view d"
  by (simp add: build_dist_pannel_def case_prod_beta Let_def get_mode_rows_view)

lemma build_dist_pannel_length: "length (mode_rows (build_dist_pannel d)) = length (mode_rows d)"
  by (simp add: build_dist_pannel_def case_prod_beta Let_def get_mode_rows_length)

lemma build_dist_pannel_active:
  assumes "mode_dex (work_mode (session d)) < length (mode_rows d)"
  shows "active_rows (build_dist_pannel d) =
     (active_rows d)\<lparr>mode_type := work_mode (session d),
                      dist_row_list := map build_dist_row (dist_row_list (active_rows d))\<rparr>"
  using assms
  by (simp add: active_rows_def build_dist_pannel_session)
     (simp add: build_dist_pannel_def case_prod_beta Let_def get_mode_rows_snd
        get_mode_rows_length get_mode_rows_active)

lemma build_dist_pannel_inactive:
  assumes "j < length (mode_rows d)" "j \<noteq> mode_dex (work_mode (session d))"
  shows "mode_rows (build_dist_pannel d) ! j = detach_rows (mode_rows d ! j)"
  using assms
  by (simp add: build_dist_pannel_def case_prod_beta Let_def get_mode_rows_snd
        get_mode_rows_inactive)

lemma build_edge_pannel_session: "session (build_edge_pannel d) = session d"
  by (simp add: build_edge_pannel_def case_prod_beta Let_def get_mode_rows_session)

lemma build_edge_pannel_view: "view (build_edge_pannel d) = view d"
  by (simp add: build_edge_pannel_def case_prod_beta Let_def get_mode_rows_view)

lemma build_edge_pannel_length: "length (mode_rows (build_edge_pannel d)) = length (mode_rows d)"
  by (simp add: build_edge_pannel_def case_prod_beta Let_def get_mode_rows_length)

lemma build_edge_pannel_active:
  assumes "mode_dex (work_mode (session d)) < length (mode_rows d)"
  shows "active_rows (build_edge_pannel d) =
     (active_rows d)\<lparr>mode_type := work_mode (session d),
                      edge_row_list := map (build_edge_row (session d)) (edge_row_list (active_rows d))\<rparr>"
  using assms
  by (simp add: active_rows_def build_edge_pannel_session)
     (simp add: build_edge_pannel_def case_prod_beta Let_def get_mode_rows_snd
        get_mode_rows_length get_mode_rows_active get_mode_rows_session)

lemma build_edge_pannel_inactive:
  assumes "j < length (mode_rows d)" "j \<noteq> mode_dex (work_mode (session d))"
  shows "mode_rows (build_edge_pannel d) ! j = detach_rows (mode_rows d ! j)"
  using assms
  by (simp add: build_edge_pannel_def case_prod_beta Let_def get_mode_rows_snd
        get_mode_rows_inactive)

lemma build_dist_row_fields:
  "cursor1 (build_dist_row r) = cursor1 r" "cursor2 (build_dist_row r) = cursor2 r"
  "channelIndex (build_dist_row r) = channelIndex r" "dist_bound (build_dist_row r)"
  by (simp_all add: build_dist_row_def dist_bound_def)

lemma build_edge_row_fields:
  "cursor1 (build_edge_row ss r) = cursor1 r" "cursor2 (build_edge_row ss r) = cursor2 r"
  "channelIndex (build_edge_row ss r) = channelIndex r" "edge_bound (build_edge_row ss r)"
  by (simp_all add: build_edge_row_def edge_bound_def dist_bound_def Let_def)

text \<open>
  Building a panel puts the widgets of every row of the active mode in place, which is
  what the statements about \<open>update_dist\<close> and \<open>update_edge\<close> assume of the rows.
\<close>

lemma build_dist_pannel_bound:
  assumes "mode_dex (work_mode (session d)) < length (mode_rows d)"
  shows "list_all dist_bound (dist_row_list (active_rows (build_dist_pannel d)))"
  by (simp add: build_dist_pannel_active[OF assms] list_all_length build_dist_row_fields)

lemma build_edge_pannel_bound:
  assumes "mode_dex (work_mode (session d)) < length (mode_rows d)"
  shows "list_all edge_bound (edge_row_list (active_rows (build_edge_pannel d)))"
  by (simp add: build_edge_pannel_active[OF assms] list_all_length build_edge_row_fields)

lemma add_dist_measure_at_cap:
  assumes "Max_Measure_Limits \<le> length (dist_row_list (active_rows d))"
    and "mode_dex (work_mode (session d)) < length (mode_rows d)"
  shows "add_dist_measure Max_Measure_Limits d = fst (get_mode_rows d)"
  using assms
  by (simp add: add_dist_measure_def case_prod_beta Let_def get_mode_rows_snd
      get_mode_rows_active active_rows_def)

lemma add_dist_measure_below_cap:
  assumes "length (dist_row_list (active_rows d)) < Max_Measure_Limits"
    and dex: "mode_dex (work_mode (session d)) < length (mode_rows d)"
  shows "active_rows (add_dist_measure Max_Measure_Limits d) =
     (active_rows d)\<lparr>mode_type := work_mode (session d),
        dist_row_list := map build_dist_row (dist_row_list (active_rows d) @ [new_row])\<rparr>"
proof -
  let ?dex = "mode_dex (work_mode (session d))"
  let ?d1 = "fst (get_mode_rows d)"
  let ?rows = "mode_rows ?d1 ! ?dex"
  define d2 where "d2 = ?d1\<lparr>mode_rows := (mode_rows ?d1)
                [?dex := ?rows\<lparr>dist_row_list := dist_row_list ?rows @ [new_row]\<rparr>]\<rparr>"
  have r: "?rows = (active_rows d)\<lparr>mode_type := work_mode (session d)\<rparr>"
    using get_mode_rows_active[OF dex] by (simp add: active_rows_def)
  have a: "add_dist_measure Max_Measure_Limits d = build_dist_pannel d2"
    using assms(1) r
    by (simp add: add_dist_measure_def case_prod_beta Let_def get_mode_rows_snd d2_def)
  have s2: "session d2 = session d" by (simp add: d2_def get_mode_rows_session)
  have l2: "mode_dex (work_mode (session d2)) < length (mode_rows d2)"
    using dex by (simp add: s2) (simp add: d2_def get_mode_rows_length)
  have a2: "active_rows d2 = ?rows\<lparr>dist_row_list := dist_row_list ?rows @ [new_row]\<rparr>"
    using dex by (simp add: active_rows_def s2) (simp add: d2_def get_mode_rows_length)
  have b: "active_rows (build_dist_pannel d2) =
     (active_rows d2)\<lparr>mode_type := work_mode (session d2),
                      dist_row_list := map build_dist_row (dist_row_list (active_rows d2))\<rparr>"
    by (rule build_dist_pannel_active[OF l2])
  show ?thesis by (simp add: a b a2 s2 r)
qed

lemma add_edge_measure_at_cap:
  assumes "Max_Measure_Limits \<le> length (edge_row_list (active_rows d))"
    and "mode_dex (work_mode (session d)) < length (mode_rows d)"
  shows "add_edge_measure Max_Measure_Limits d = fst (get_mode_rows d)"
  using assms
  by (simp add: add_edge_measure_def case_prod_beta Let_def get_mode_rows_snd
      get_mode_rows_active active_rows_def)

lemma add_edge_measure_below_cap:
  assumes "length (edge_row_list (active_rows d)) < Max_Measure_Limits"
    and dex: "mode_dex (work_mode (session d)) < length (mode_rows d)"
  shows "active_rows (add_edge_measure Max_Measure_Limits d) =
     (active_rows d)\<lparr>mode_type := work_mode (session d),
        edge_row_list := map (build_edge_row (session d)) (edge_row_list (active_rows d) @ [new_row])\<rparr>"
proof -
  let ?dex = "mode_dex (work_mode (session d))"
  let ?d1 = "fst (get_mode_rows d)"
  let ?rows = "mode_rows ?d1 ! ?dex"
  define d2 where "d2 = ?d1\<lparr>mode_rows := (mode_rows ?d1)
                [?dex := ?rows\<lparr>edge_row_list := edge_row_list ?rows @ [new_row]\<rparr>]\<rparr>"
  have r: "?rows = (active_rows d)\<lparr>mode_type := work_mode (session d)\<rparr>"
    using get_mode_rows_active[OF dex] by (simp add: active_rows_def)
  have a: "add_edge_measure Max_Measure_Limits d = build_edge_pannel d2"
    using assms(1) r
    by (simp add: add_edge_measure_def case_prod_beta Let_def get_mode_rows_snd d2_def)
  have s2: "session d2 = session d" by (simp add: d2_def get_mode_rows_session)
  have l2: "mode_dex (work_mode (session d2)) < length (mode_rows d2)"
    using dex by (simp add: s2) (simp add: d2_def get_mode_rows_length)
  have a2: "active_rows d2 = ?rows\<lparr>edge_row_list := edge_row_list ?rows @ [new_row]\<rparr>"
    using dex by (simp add: active_rows_def s2) (simp add: d2_def get_mode_rows_length)
  have b: "active_rows (build_edge_pannel d2) =
     (active_rows d2)\<lparr>mode_type := work_mode (session d2),
                      edge_row_list := map (build_edge_row (session d2)) (edge_row_list (active_rows d2))\<rparr>"
    by (rule build_edge_pannel_active[OF l2])
  show ?thesis by (simp add: a b a2 s2 r)
qed

text \<open>
  C8. For the distance rows and for the edge rows of the active mode: when the list
  already holds \<open>Max_Measure_Limits\<close> rows (or more), adding a row leaves the list as
  it is, and the dock is changed by nothing but the detaching that \<open>get_mode_rows\<close>
  does to the other modes; below the cap the list grows by exactly one row, the last
  one, which has both references -1 and the channel index 0, and the rows before it keep
  their references and channel index.
\<close>

theorem add_row_cap:
  assumes dex: "mode_dex (work_mode (session d)) < length (mode_rows d)"
  shows "(let rows = dist_row_list (active_rows d);
              rows' = dist_row_list (active_rows (add_dist_measure Max_Measure_Limits d))
          in (Max_Measure_Limits \<le> length rows \<longrightarrow>
                rows' = rows \<and> add_dist_measure Max_Measure_Limits d = fst (get_mode_rows d))
           \<and> (length rows < Max_Measure_Limits \<longrightarrow>
                length rows' = length rows + 1
                \<and> cursor1 (last rows') = - 1 \<and> cursor2 (last rows') = - 1
                \<and> channelIndex (last rows') = 0
                \<and> (\<forall>i<length rows. cursor1 (rows' ! i) = cursor1 (rows ! i)
                       \<and> cursor2 (rows' ! i) = cursor2 (rows ! i)
                       \<and> channelIndex (rows' ! i) = channelIndex (rows ! i))))
       \<and> (let rows = edge_row_list (active_rows d);
              rows' = edge_row_list (active_rows (add_edge_measure Max_Measure_Limits d))
          in (Max_Measure_Limits \<le> length rows \<longrightarrow>
                rows' = rows \<and> add_edge_measure Max_Measure_Limits d = fst (get_mode_rows d))
           \<and> (length rows < Max_Measure_Limits \<longrightarrow>
                length rows' = length rows + 1
                \<and> cursor1 (last rows') = - 1 \<and> cursor2 (last rows') = - 1
                \<and> channelIndex (last rows') = 0
                \<and> (\<forall>i<length rows. cursor1 (rows' ! i) = cursor1 (rows ! i)
                       \<and> cursor2 (rows' ! i) = cursor2 (rows ! i)
                       \<and> channelIndex (rows' ! i) = channelIndex (rows ! i))))"
proof -
  have n: "cursor1 new_row = - 1" "cursor2 new_row = - 1" "channelIndex new_row = 0"
    by (simp_all add: new_row_def)
  have d1: "dist_row_list (active_rows (add_dist_measure Max_Measure_Limits d)) =
              dist_row_list (active_rows d)
            \<and> add_dist_measure Max_Measure_Limits d = fst (get_mode_rows d)"
    if "Max_Measure_Limits \<le> length (dist_row_list (active_rows d))"
    using add_dist_measure_at_cap[OF that dex] get_mode_rows_active_rows[OF dex]
    by (simp del: fst_conv)
  have d2: "dist_row_list (active_rows (add_dist_measure Max_Measure_Limits d)) =
              map build_dist_row (dist_row_list (active_rows d)) @ [build_dist_row new_row]"
    if "length (dist_row_list (active_rows d)) < Max_Measure_Limits"
    using add_dist_measure_below_cap[OF that dex] by simp
  have e1: "edge_row_list (active_rows (add_edge_measure Max_Measure_Limits d)) =
              edge_row_list (active_rows d)
            \<and> add_edge_measure Max_Measure_Limits d = fst (get_mode_rows d)"
    if "Max_Measure_Limits \<le> length (edge_row_list (active_rows d))"
    using add_edge_measure_at_cap[OF that dex] get_mode_rows_active_rows[OF dex]
    by (simp del: fst_conv)
  have e2: "edge_row_list (active_rows (add_edge_measure Max_Measure_Limits d)) =
              map (build_edge_row (session d)) (edge_row_list (active_rows d))
                @ [build_edge_row (session d) new_row]"
    if "length (edge_row_list (active_rows d)) < Max_Measure_Limits"
    using add_edge_measure_below_cap[OF that dex] by simp
  show ?thesis
    unfolding Let_def
  proof (intro conjI impI allI)
    show "dist_row_list (active_rows (add_dist_measure Max_Measure_Limits d)) =
              dist_row_list (active_rows d)"
      if "Max_Measure_Limits \<le> length (dist_row_list (active_rows d))"
      by (rule d1[OF that, THEN conjunct1])
    show "add_dist_measure Max_Measure_Limits d = fst (get_mode_rows d)"
      if "Max_Measure_Limits \<le> length (dist_row_list (active_rows d))"
      by (rule d1[OF that, THEN conjunct2])
    show "edge_row_list (active_rows (add_edge_measure Max_Measure_Limits d)) =
              edge_row_list (active_rows d)"
      if "Max_Measure_Limits \<le> length (edge_row_list (active_rows d))"
      by (rule e1[OF that, THEN conjunct1])
    show "add_edge_measure Max_Measure_Limits d = fst (get_mode_rows d)"
      if "Max_Measure_Limits \<le> length (edge_row_list (active_rows d))"
      by (rule e1[OF that, THEN conjunct2])
  qed (simp_all add: d2 e2 n build_dist_row_fields build_edge_row_fields nth_append)
qed

theorem add_row_cap_witness:
  "mode_dex (work_mode (session example_dock)) < length (mode_rows example_dock)
   \<and> length (dist_row_list (active_rows example_dock)) = 3
   \<and> length (edge_row_list (active_rows example_dock)) = 3
   \<and> dist_row_list (active_rows (add_dist_measure 3 example_dock))
        = dist_row_list (active_rows example_dock)
   \<and> edge_row_list (active_rows (add_edge_measure 3 example_dock))
        = edge_row_list (active_rows example_dock)
   \<and> length (dist_row_list (active_rows (add_dist_measure 4 example_dock))) = 4
   \<and> cursor1 (last (dist_row_list (active_rows (add_dist_measure 4 example_dock)))) = - 1
   \<and> cursor2 (last (dist_row_list (active_rows (add_dist_measure 4 example_dock)))) = - 1
   \<and> channelIndex (last (dist_row_list (active_rows (add_dist_measure 4 example_dock)))) = 0
   \<and> length (edge_row_list (active_rows (add_edge_measure 4 example_dock))) = 4
   \<and> cursor1 (last (edge_row_list (active_rows (add_edge_measure 4 example_dock)))) = - 1
   \<and> cursor2 (last (edge_row_list (active_rows (add_edge_measure 4 example_dock)))) = - 1
   \<and> channelIndex (last (edge_row_list (active_rows (add_edge_measure 4 example_dock)))) = 0"
proof -
  note f = example_dock_facts(1)
  have l: "length (dist_row_list (active_rows example_dock)) = 3"
    "length (edge_row_list (active_rows example_dock)) = 3"
    by (simp_all add: example_dock_def example_session_def example_rows_def active_rows_def
        mode_dex_def)
  note at_cap = add_row_cap[OF f, of 3, unfolded Let_def l]
  note below_cap = add_row_cap[OF f, of 4, unfolded Let_def l]
  have le: "(3::nat) \<le> 3" "(3::nat) < 4" by simp_all
  from at_cap le have A:
    "dist_row_list (active_rows (add_dist_measure 3 example_dock))
        = dist_row_list (active_rows example_dock)"
    "edge_row_list (active_rows (add_edge_measure 3 example_dock))
        = edge_row_list (active_rows example_dock)"
    by blast+
  from below_cap le have B:
    "length (dist_row_list (active_rows (add_dist_measure 4 example_dock))) = 3 + 1"
    "cursor1 (last (dist_row_list (active_rows (add_dist_measure 4 example_dock)))) = - 1"
    "cursor2 (last (dist_row_list (active_rows (add_dist_measure 4 example_dock)))) = - 1"
    "channelIndex (last (dist_row_list (active_rows (add_dist_measure 4 example_dock)))) = 0"
    "length (edge_row_list (active_rows (add_edge_measure 4 example_dock))) = 3 + 1"
    "cursor1 (last (edge_row_list (active_rows (add_edge_measure 4 example_dock)))) = - 1"
    "cursor2 (last (edge_row_list (active_rows (add_edge_measure 4 example_dock)))) = - 1"
    "channelIndex (last (edge_row_list (active_rows (add_edge_measure 4 example_dock)))) = 0"
    by blast+
  from A B l f show ?thesis by simp
qed

subsection \<open>Removing a marker\<close>

lemma detach_rows_idem: "detach_rows (detach_rows rows) = detach_rows rows"
  by (simp add: detach_rows_def detach_row_def)

lemma cursor_update_dock:
  assumes dex: "mode_dex (work_mode (session d)) < length (mode_rows d)"
    and db: "list_all dist_bound (dist_row_list (active_rows d))"
    and eb: "list_all edge_bound (edge_row_list (active_rows d))"
  shows "\<exists>d'. cursor_update d = Inr d' \<and> session d' = session d \<and> view d' = view d
     \<and> length (mode_rows d') = length (mode_rows d)
     \<and> length (dist_row_list (active_rows d')) = length (dist_row_list (active_rows d))
     \<and> length (edge_row_list (active_rows d')) = length (edge_row_list (active_rows d))
     \<and> (\<forall>i<length (dist_row_list (active_rows d)).
          update_dist_row (view d) (session d) (dist_row_list (active_rows d) ! i)
            = Inr (dist_row_list (active_rows d') ! i))
     \<and> (\<forall>i<length (edge_row_list (active_rows d)).
          update_edge_row (view d) (session d) (edge_row_list (active_rows d) ! i)
            = Inr (edge_row_list (active_rows d') ! i))
     \<and> (\<forall>j<length (mode_rows d). j \<noteq> mode_dex (work_mode (session d)) \<longrightarrow>
          mode_rows d' ! j = detach_rows (mode_rows d ! j))"
proof -
  from update_dist_dock[OF dex db] obtain d1 where
    d1: "update_dist d = Inr d1" "session d1 = session d" "view d1 = view d"
      "length (mode_rows d1) = length (mode_rows d)"
      "length (dist_row_list (active_rows d1)) = length (dist_row_list (active_rows d))"
      "edge_row_list (active_rows d1) = edge_row_list (active_rows d)"
      "\<forall>i<length (dist_row_list (active_rows d)).
          update_dist_row (view d) (session d) (dist_row_list (active_rows d) ! i)
            = Inr (dist_row_list (active_rows d1) ! i)"
      "\<forall>j<length (mode_rows d). j \<noteq> mode_dex (work_mode (session d)) \<longrightarrow>
          mode_rows d1 ! j = detach_rows (mode_rows d ! j)"
    by blast
  have dex1: "mode_dex (work_mode (session d1)) < length (mode_rows d1)"
    using dex d1(2,4) by simp
  have eb1: "list_all edge_bound (edge_row_list (active_rows d1))"
    using eb d1(6) by simp
  from update_edge_dock[OF dex1 eb1] obtain d2 where
    d2: "update_edge d1 = Inr d2" "session d2 = session d1" "view d2 = view d1"
      "length (mode_rows d2) = length (mode_rows d1)"
      "length (edge_row_list (active_rows d2)) = length (edge_row_list (active_rows d1))"
      "dist_row_list (active_rows d2) = dist_row_list (active_rows d1)"
      "\<forall>i<length (edge_row_list (active_rows d1)).
          update_edge_row (view d1) (session d1) (edge_row_list (active_rows d1) ! i)
            = Inr (edge_row_list (active_rows d2) ! i)"
      "\<forall>j<length (mode_rows d1). j \<noteq> mode_dex (work_mode (session d1)) \<longrightarrow>
          mode_rows d2 ! j = detach_rows (mode_rows d1 ! j)"
    by blast
  have r: "cursor_update d = Inr d2"
    using d1(1) d2(1) by (simp add: cursor_update_def bind_err_def)
  have o: "\<forall>j<length (mode_rows d). j \<noteq> mode_dex (work_mode (session d)) \<longrightarrow>
          mode_rows d2 ! j = detach_rows (mode_rows d ! j)"
    using d1(8) d2(8) d1(2,4) by (simp add: detach_rows_idem)
  show ?thesis
    using r o d1(2-7) d2(2-7) by simp
qed

lemma make_cursors_order_length: "length (make_cursors_order cursor_list) = length cursor_list"
  by (simp add: make_cursors_order_def)

lemma View_del_cursor_length:
  assumes "k < length (get_cursorList v ss)"
  shows "int (length (get_cursorList (View_del_cursor v ss k) ss)) = int (length (get_cursorList v ss)) - 1"
  using assms
  by (simp add: View_del_cursor_def get_cursorList_def make_cursors_order_length Let_def)

lemma del_cursor_example: "del_cursor 0 example_dock = cursor_update two_marker_dock"
proof -
  have "View_del_cursor example_view example_session 0 = two_marker_view"
    by (simp add: View_del_cursor_def get_cursorList_def example_view_def example_session_def
        make_cursors_order_def enumerate_eq_zip two_marker_view_def fun_eq_iff)
  then show ?thesis
    by (simp add: del_cursor_def two_marker_dock_def example_dock_def)
qed

lemmas dock_eval =
  cursor_update_def bind_err_def update_dist_def update_edge_def
  get_mode_rows_def update_dist_row_def update_edge_row_def dist_text_def cursor_delta_def
  get_cm_delta_def get_cursor_samples_def get_cursorList_def
  edges_def number_def replace_def detach_rows_def detach_row_def
  currentText_toInt_def count_def mode_dex_def active_rows_def enumerate_eq_zip Let_def
  two_marker_dock_def two_marker_view_def
  example_dock_def example_session_def example_view_def example_rows_def empty_rows_def

lemma cursor_update_two_markers:
  "cursor_update two_marker_dock =
     Inr (two_marker_dock\<lparr>
            mode_rows :=
              [example_rows\<lparr>
                 dist_row_list :=
                   [\<lparr>del_bt = Some (), start_bt = Some ''1'', end_bt = Some ''2'',
                      r_label = Some ''-4us/-4'', box = None, cursor1 = 1, cursor2 = 2,
                      channelIndex = 0\<rparr>,
                    \<lparr>del_bt = Some (), start_bt = Some ''2'', end_bt = Some '''',
                      r_label = Some '' '', box = None, cursor1 = 2, cursor2 = - 1,
                      channelIndex = 0\<rparr>,
                    \<lparr>del_bt = Some (), start_bt = Some '''', end_bt = Some ''2'',
                      r_label = Some '' '', box = None, cursor1 = - 1, cursor2 = 2,
                      channelIndex = 0\<rparr>],
                 edge_row_list :=
                   [\<lparr>del_bt = Some (), start_bt = Some ''1'', end_bt = Some '''',
                      r_label = Some ''-/-/-'', box = Some \<lparr>items = [0], currentIndex = 0\<rparr>,
                      cursor1 = 1, cursor2 = - 1, channelIndex = 0\<rparr>,
                    \<lparr>del_bt = Some (), start_bt = Some '' '', end_bt = Some '''',
                      r_label = Some ''-/-/-'', box = Some \<lparr>items = [0], currentIndex = 0\<rparr>,
                      cursor1 = - 1, cursor2 = - 1, channelIndex = 0\<rparr>,
                    \<lparr>del_bt = Some (), start_bt = Some ''1'', end_bt = Some ''2'',
                      r_label = Some ''-/-/-'', box = Some \<lparr>items = [0, 1], currentIndex = 1\<rparr>,
                      cursor1 = 1, cursor2 = 2, channelIndex = 1\<rparr>]\<rparr>,
               empty_rows, empty_rows]\<rparr>)"
  by (simp add: dock_eval digits.simps)

text \<open>
  C1, as the claim states it, fails. In the example dock, with the markers 1, 2 and 3 at
  the samples 0, 2 and 6, the first distance row refers to the markers 1 and 2 and the
  second to the markers 2 and 3. Marker 1 is deleted: the markers at 2 and 6 remain, and
  \<open>cursor_update\<close> recomputes the rows. The first row referred to the deleted marker,
  yet it still refers to 1 and 2 and shows a distance, that of the markers which are
  first and second now. The second row did not refer to it, yet its second reference is
  reset to -1 and it shows the placeholder.
\<close>

theorem marker_removed_counterexample:
  "map c_index (get_cursorList (view example_dock) (session example_dock)) = [0, 2, 6]
   \<and> map c_index (get_cursorList (view two_marker_dock) (session two_marker_dock)) = [2, 6]
   \<and> mode_rows two_marker_dock = mode_rows example_dock
   \<and> cursor1 (dist_row_list (active_rows example_dock) ! 0) = 1
   \<and> r_label (dist_row_list (active_rows example_dock) ! 0) = Some ''-2us/-2''
   \<and> cursor1 (dist_row_list (active_rows example_dock) ! 1) = 2
   \<and> cursor2 (dist_row_list (active_rows example_dock) ! 1) = 3
   \<and> r_label (dist_row_list (active_rows example_dock) ! 1) = Some ''-4us/-4''
   \<and> \<not> isl (cursor_update two_marker_dock)
   \<and> cursor1 (dist_row_list (active_rows (projr (cursor_update two_marker_dock))) ! 0) = 1
   \<and> r_label (dist_row_list (active_rows (projr (cursor_update two_marker_dock))) ! 0)
        = Some ''-4us/-4''
   \<and> cursor2 (dist_row_list (active_rows (projr (cursor_update two_marker_dock))) ! 1) = - 1
   \<and> r_label (dist_row_list (active_rows (projr (cursor_update two_marker_dock))) ! 1)
        = Some '' ''"
  by (simp add: cursor_update_two_markers)
     (simp add: two_marker_dock_def two_marker_view_def example_dock_def example_session_def
        example_view_def example_rows_def active_rows_def mode_dex_def get_cursorList_def)

text \<open>
  C1, amended. When one of \<open>n\<close> markers is deleted (whichever), so that the view holds
  \<open>n - 1\<close> markers, and the rows are updated: in every distance row and edge row a
  reference of \<open>n\<close> or more is reset to -1 and every smaller reference is kept, also one
  to the order of the deleted marker. A distance row with a reference at -1 then shows
  one space, any other distance row the distance of the markers that hold its two orders
  now; an edge row with a reference at -1 shows \<open>-/-/-\<close>. This holds for every list of
  markers, hence after every sequence of additions and removals.
\<close>

theorem marker_removed:
  assumes dex: "mode_dex (work_mode (session d)) < length (mode_rows d)"
    and db: "list_all dist_bound (dist_row_list (active_rows d))"
    and eb: "list_all edge_bound (edge_row_list (active_rows d))"
    and n: "n = int (length (get_cursorList (view d) (session d)))"
    and removed: "int (length (get_cursorList v' (session d))) = n - 1"
  shows "\<exists>d'. cursor_update (d\<lparr>view := v'\<rparr>) = Inr d' \<and> view d' = v' \<and> session d' = session d
     \<and> (\<forall>i<length (dist_row_list (active_rows d)).
          (let r = dist_row_list (active_rows d) ! i; r' = dist_row_list (active_rows d') ! i
           in cursor1 r' = (if n \<le> cursor1 r then - 1 else cursor1 r)
            \<and> cursor2 r' = (if n \<le> cursor2 r then - 1 else cursor2 r)
            \<and> r_label r' = Some (if cursor1 r' \<noteq> - 1 \<and> cursor2 r' \<noteq> - 1
                                  then dist_text v' (session d) (cursor1 r') (cursor2 r')
                                  else '' '')))
     \<and> (\<forall>i<length (edge_row_list (active_rows d)).
          (let r = edge_row_list (active_rows d) ! i; r' = edge_row_list (active_rows d') ! i
           in cursor1 r' = (if n \<le> cursor1 r then - 1 else cursor1 r)
            \<and> cursor2 r' = (if n \<le> cursor2 r then - 1 else cursor2 r)
            \<and> (cursor1 r' = - 1 \<or> cursor2 r' = - 1 \<longrightarrow> r_label r' = Some ''-/-/-'')))"
proof -
  define d0 where "d0 = d\<lparr>view := v'\<rparr>"
  have s0: "session d0 = session d" and m0: "mode_rows d0 = mode_rows d"
    and a0: "active_rows d0 = active_rows d" and v0: "view d0 = v'"
    by (simp_all add: d0_def active_rows_def)
  have dex0: "mode_dex (work_mode (session d0)) < length (mode_rows d0)"
    using dex by (simp add: s0 m0)
  from cursor_update_dock[OF dex0] db eb obtain d' where
    d': "cursor_update d0 = Inr d'" "session d' = session d0" "view d' = view d0"
      "\<forall>i<length (dist_row_list (active_rows d)).
          update_dist_row (view d0) (session d0) (dist_row_list (active_rows d) ! i)
            = Inr (dist_row_list (active_rows d') ! i)"
      "\<forall>i<length (edge_row_list (active_rows d)).
          update_edge_row (view d0) (session d0) (edge_row_list (active_rows d) ! i)
            = Inr (edge_row_list (active_rows d') ! i)"
    unfolding a0 by blast
  have cl: "cleared (length (get_cursorList v' (session d))) c = (if n \<le> c then - 1 else c)" for c
    using removed by (auto simp: cleared_def)
  have dist: "let r = dist_row_list (active_rows d) ! i; r' = dist_row_list (active_rows d') ! i
           in cursor1 r' = (if n \<le> cursor1 r then - 1 else cursor1 r)
            \<and> cursor2 r' = (if n \<le> cursor2 r then - 1 else cursor2 r)
            \<and> r_label r' = Some (if cursor1 r' \<noteq> - 1 \<and> cursor2 r' \<noteq> - 1
                                  then dist_text v' (session d) (cursor1 r') (cursor2 r')
                                  else '' '')"
    if i: "i < length (dist_row_list (active_rows d))" for i
  proof -
    have b: "dist_bound (dist_row_list (active_rows d) ! i)"
      using db i by (simp add: list_all_length)
    from update_dist_row_case[OF b, of v' "session d"] d'(4)[unfolded s0 v0] i
    show ?thesis by (simp add: Let_def cl)
  qed
  have edge: "let r = edge_row_list (active_rows d) ! i; r' = edge_row_list (active_rows d') ! i
           in cursor1 r' = (if n \<le> cursor1 r then - 1 else cursor1 r)
            \<and> cursor2 r' = (if n \<le> cursor2 r then - 1 else cursor2 r)
            \<and> (cursor1 r' = - 1 \<or> cursor2 r' = - 1 \<longrightarrow> r_label r' = Some ''-/-/-'')"
    if i: "i < length (edge_row_list (active_rows d))" for i
  proof -
    have b: "edge_bound (edge_row_list (active_rows d) ! i)"
      using eb i by (simp add: list_all_length)
    from update_edge_row_case[OF b, of v' "session d"] d'(5)[unfolded s0 v0] i
    show ?thesis by (auto simp add: Let_def cl)
  qed
  from d'(1) dist edge show ?thesis by (simp add: d'(2,3) s0 v0 d0_def)
qed

theorem marker_removed_witness:
  "mode_dex (work_mode (session example_dock)) < length (mode_rows example_dock)
   \<and> list_all dist_bound (dist_row_list (active_rows example_dock))
   \<and> list_all edge_bound (edge_row_list (active_rows example_dock))
   \<and> 3 = int (length (get_cursorList (view example_dock) (session example_dock)))
   \<and> int (length (get_cursorList two_marker_view (session example_dock))) = 3 - 1
   \<and> cursor1 (dist_row_list (active_rows example_dock) ! 1) = 2
   \<and> cursor2 (dist_row_list (active_rows example_dock) ! 1) = 3
   \<and> (\<exists>d'. cursor_update (example_dock\<lparr>view := two_marker_view\<rparr>) = Inr d'
          \<and> cursor1 (dist_row_list (active_rows d') ! 1) = 2
          \<and> cursor2 (dist_row_list (active_rows d') ! 1) = - 1
          \<and> r_label (dist_row_list (active_rows d') ! 1) = Some '' '')"
proof -
  note f = example_dock_facts
  have c: "3 = int (length (get_cursorList (view example_dock) (session example_dock)))"
    "int (length (get_cursorList two_marker_view (session example_dock))) = 3 - 1"
    by (simp_all add: example_dock_def example_session_def example_view_def get_cursorList_def
        two_marker_view_def)
  have r: "cursor1 (dist_row_list (active_rows example_dock) ! 1) = 2"
    "cursor2 (dist_row_list (active_rows example_dock) ! 1) = 3"
    "1 < length (dist_row_list (active_rows example_dock))"
    by (simp_all add: example_dock_def example_session_def example_rows_def active_rows_def
        mode_dex_def)
  have "\<exists>d'. cursor_update (example_dock\<lparr>view := two_marker_view\<rparr>) = Inr d'
          \<and> cursor1 (dist_row_list (active_rows d') ! 1) = 2
          \<and> cursor2 (dist_row_list (active_rows d') ! 1) = - 1
          \<and> r_label (dist_row_list (active_rows d') ! 1) = Some '' ''"
    using marker_removed[OF f c] r
    by (elim exE conjE allE[where x=1]) (auto simp: Let_def)
  with f c r(1,2) show ?thesis by blast
qed

subsection \<open>Switching the acquisition mode and back\<close>

lemma reload_dock:
  assumes dex: "mode_dex (work_mode (session d)) < length (mode_rows d)"
  shows "\<exists>d'. reload d = Inr d' \<and> session d' = session d \<and> view d' = view d
     \<and> length (mode_rows d') = length (mode_rows d)
     \<and> length (dist_row_list (active_rows d')) = length (dist_row_list (active_rows d))
     \<and> length (edge_row_list (active_rows d')) = length (edge_row_list (active_rows d))
     \<and> (\<forall>i<length (dist_row_list (active_rows d)).
          update_dist_row (view d) (session d) (build_dist_row (dist_row_list (active_rows d) ! i))
            = Inr (dist_row_list (active_rows d') ! i))
     \<and> (\<forall>i<length (edge_row_list (active_rows d)).
          update_edge_row (view d) (session d)
              (build_edge_row (session d) (edge_row_list (active_rows d) ! i))
            = Inr (edge_row_list (active_rows d') ! i))
     \<and> (\<forall>j<length (mode_rows d). j \<noteq> mode_dex (work_mode (session d)) \<longrightarrow>
          mode_rows d' ! j = detach_rows (mode_rows d ! j))"
proof -
  define da where "da = build_dist_pannel d"
  define db where "db = build_edge_pannel da"
  have sa: "session da = session d" and va: "view da = view d"
    and la: "length (mode_rows da) = length (mode_rows d)"
    by (simp_all add: da_def build_dist_pannel_session build_dist_pannel_view
        build_dist_pannel_length)
  have dexa: "mode_dex (work_mode (session da)) < length (mode_rows da)"
    using dex by (simp add: sa la)
  have sb: "session db = session d" and vb: "view db = view d"
    and lb: "length (mode_rows db) = length (mode_rows d)"
    by (simp_all add: db_def build_edge_pannel_session build_edge_pannel_view
        build_edge_pannel_length sa va la)
  have dexb: "mode_dex (work_mode (session db)) < length (mode_rows db)"
    using dex by (simp add: sb lb)
  have aa: "active_rows da = (active_rows d)\<lparr>mode_type := work_mode (session d),
                      dist_row_list := map build_dist_row (dist_row_list (active_rows d))\<rparr>"
    unfolding da_def by (rule build_dist_pannel_active[OF dex])
  have ab: "active_rows db = (active_rows da)\<lparr>mode_type := work_mode (session da),
              edge_row_list := map (build_edge_row (session da)) (edge_row_list (active_rows da))\<rparr>"
    unfolding db_def by (rule build_edge_pannel_active[OF dexa])
  have dl: "dist_row_list (active_rows db) = map build_dist_row (dist_row_list (active_rows d))"
    by (simp add: ab aa)
  have el: "edge_row_list (active_rows db) =
              map (build_edge_row (session d)) (edge_row_list (active_rows d))"
    by (simp add: ab aa sa)
  have bd: "list_all dist_bound (dist_row_list (active_rows db))"
    by (simp add: dl list_all_length build_dist_row_fields)
  have be: "list_all edge_bound (edge_row_list (active_rows db))"
    by (simp add: el list_all_length build_edge_row_fields)
  have oa: "\<forall>j<length (mode_rows d). j \<noteq> mode_dex (work_mode (session d)) \<longrightarrow>
          mode_rows da ! j = detach_rows (mode_rows d ! j)"
    by (simp add: da_def build_dist_pannel_inactive)
  have ob: "\<forall>j<length (mode_rows d). j \<noteq> mode_dex (work_mode (session d)) \<longrightarrow>
          mode_rows db ! j = detach_rows (mode_rows d ! j)"
    using oa by (simp add: db_def build_edge_pannel_inactive la sa detach_rows_idem)
  from cursor_update_dock[OF dexb bd be] obtain d' where
    d': "cursor_update db = Inr d'" "session d' = session db" "view d' = view db"
      "length (mode_rows d') = length (mode_rows db)"
      "length (dist_row_list (active_rows d')) = length (dist_row_list (active_rows db))"
      "length (edge_row_list (active_rows d')) = length (edge_row_list (active_rows db))"
      "\<forall>i<length (dist_row_list (active_rows db)).
          update_dist_row (view db) (session db) (dist_row_list (active_rows db) ! i)
            = Inr (dist_row_list (active_rows d') ! i)"
      "\<forall>i<length (edge_row_list (active_rows db)).
          update_edge_row (view db) (session db) (edge_row_list (active_rows db) ! i)
            = Inr (edge_row_list (active_rows d') ! i)"
      "\<forall>j<length (mode_rows db). j \<noteq> mode_dex (work_mode (session db)) \<longrightarrow>
          mode_rows d' ! j = detach_rows (mode_rows db ! j)"
    by blast
  have r: "reload d = Inr d'"
    using d'(1) by (simp add: reload_def reCalc_def cursor_update_def da_def db_def)
  have o: "\<forall>j<length (mode_rows d). j \<noteq> mode_dex (work_mode (session d)) \<longrightarrow>
          mode_rows d' ! j = detach_rows (mode_rows d ! j)"
    using d'(9) ob by (simp add: lb sb detach_rows_idem)
  have di: "\<forall>i<length (dist_row_list (active_rows d)).
          update_dist_row (view d) (session d) (build_dist_row (dist_row_list (active_rows d) ! i))
            = Inr (dist_row_list (active_rows d') ! i)"
    using d'(7) by (simp add: dl sb vb)
  have ei: "\<forall>i<length (edge_row_list (active_rows d)).
          update_edge_row (view d) (session d)
              (build_edge_row (session d) (edge_row_list (active_rows d) ! i))
            = Inr (edge_row_list (active_rows d') ! i)"
    using d'(8) by (simp add: el sb vb)
  show ?thesis
    using r o di ei d'(2-6) by (simp add: sb vb lb dl el)
qed

lemma scan_signals_find:
  "scan_signals sigs (Some bx) e s =
     Inr (case find (\<lambda>sg. signal_type sg = SR_CHANNEL_LOGIC \<and> enabled sg
                          \<and> get_index sg = currentText_toInt bx \<and> edges sg e s \<noteq> None) sigs of
            None \<Rightarrow> None
          | Some sg \<Rightarrow> Some (edge_text (the (edges sg e s))))"
  by (induction sigs) (auto simp: edge_text_def split: option.splits)

lemma probe_selector_fold:
  "foldl (\<lambda>b s. if P s then addItem b (get_index s) else b) b0 sigs =
     b0\<lparr>items := items b0 @ map get_index (filter P sigs),
        currentIndex := (if items b0 = [] \<and> filter P sigs \<noteq> [] then 0 else currentIndex b0)\<rparr>"
  by (induction sigs arbitrary: b0) (auto simp: addItem_def)

lemma create_probe_selector_eq:
  "create_probe_selector ss =
     \<lparr>items = enabled_logic ss, currentIndex = (if enabled_logic ss = [] then - 1 else 0)\<rparr>"
  by (simp add: create_probe_selector_def update_probe_selector_def probe_selector_fold
      enabled_logic_def)

lemma build_edge_row_box:
  "box (build_edge_row ss r) =
     Some \<lparr>items = enabled_logic ss, currentIndex = selector_position ss (channelIndex r)\<rparr>"
  by (auto simp: build_edge_row_def create_probe_selector_eq Let_def setCurrentIndex_def
      count_def selector_position_def)

lemma selected_channel_read:
  "currentText_toInt \<lparr>items = enabled_logic ss, currentIndex = selector_position ss k\<rparr>
     = selected_channel ss k"
  by (auto simp: currentText_toInt_def selected_channel_def selector_position_def count_def)

lemma reloaded_dist_row:
  "update_dist_row v ss (build_dist_row r) = Inr ((resumed_dist_row v ss r)\<lparr>box := box r\<rparr>)"
  by (cases r)
     (simp add: update_dist_row_def build_dist_row_def resumed_dist_row_def cleared_def
        button_text_def Let_def)

lemma edge_label_of_scan:
  "(case scan_signals (signals ss)
           (Some \<lparr>items = enabled_logic ss, currentIndex = selector_position ss k\<rparr>) e s of
      Inr (Some delta_text) \<Rightarrow> delta_text | _ \<Rightarrow> ''-/-/-'') = edge_result ss (selected_channel ss k) e s"
  by (simp add: scan_signals_find selected_channel_read edge_result_def split: option.splits)

lemma reloaded_edge_row:
  "update_edge_row v ss (build_edge_row ss r) = Inr (resumed_edge_row v ss r)"
proof -
  let ?b = "build_edge_row ss r"
  let ?n = "length (get_cursorList v ss)"
  have eb: "edge_bound ?b"
    by (simp add: edge_bound_def dist_bound_def build_edge_row_def Let_def)
  have f: "cursor1 ?b = cursor1 r" "cursor2 ?b = cursor2 r" "channelIndex ?b = channelIndex r"
    "del_bt ?b = Some ()"
    "start_bt ?b = Some (if cursor1 r \<noteq> - 1 then number (cursor1 r) else '' '')"
    "end_bt ?b = Some (if cursor2 r \<noteq> - 1 then number (cursor2 r) else '' '')"
    by (simp_all add: build_edge_row_def Let_def)
  obtain r' where r': "update_edge_row v ss ?b = Inr r'"
    using update_edge_row_bound[OF eb] by blast
  from update_edge_row_case[OF eb, of v ss] r'
  have g: "cursor1 r' = cleared ?n (cursor1 r)" "cursor2 r' = cleared ?n (cursor2 r)"
    "start_bt r' = (if cursor1 r' = cursor1 r then start_bt ?b else Some '''')"
    "end_bt r' = (if cursor2 r' = cursor2 r then end_bt ?b else Some '''')"
    "r_label r' = Some (if cursor1 r' \<noteq> - 1 \<and> cursor2 r' \<noteq> - 1
          then (case scan_signals (signals ss) (box ?b)
                       (get_cursor_samples (get_cursorList v ss) (cursor2 r' - 1))
                       (get_cursor_samples (get_cursorList v ss) (cursor1 r' - 1)) of
                  Inr (Some delta_text) \<Rightarrow> delta_text | _ \<Rightarrow> ''-/-/-'')
          else ''-/-/-'')"
    "channelIndex r' = channelIndex r" "box r' = box ?b" "del_bt r' = Some ()"
    by (simp_all add: f)
  have l: "r_label r' = r_label (resumed_edge_row v ss r)"
    unfolding g(5) build_edge_row_box edge_label_of_scan
    by (simp add: resumed_edge_row_def Let_def g(1,2))
  have s: "start_bt r' = start_bt (resumed_edge_row v ss r)"
    "end_bt r' = end_bt (resumed_edge_row v ss r)"
    unfolding g(3,4) f(5,6)
    by (auto simp: resumed_edge_row_def Let_def g(1,2) button_text_def cleared_def)
  have "r' = resumed_edge_row v ss r"
    by (rule cursor_row_info.equality)
       (simp_all add: l s, simp_all add: resumed_edge_row_def Let_def g build_edge_row_box)
  with r' show ?thesis by simp
qed

lemma resumed_row_detach:
  "resumed_dist_row v ss (detach_row r) = resumed_dist_row v ss r"
  "resumed_edge_row v ss (detach_row r) = resumed_edge_row v ss r"
  by (simp_all add: resumed_dist_row_def resumed_edge_row_def detach_row_def Let_def
      cong: if_cong)

lemma cleared_idem: "cleared n (cleared n c) = cleared n c"
  by (simp add: cleared_def)

lemma reload_rows:
  assumes dex: "mode_dex (work_mode (session d)) < length (mode_rows d)"
  shows "\<exists>d'. reload d = Inr d' \<and> session d' = session d \<and> view d' = view d
     \<and> length (mode_rows d') = length (mode_rows d)
     \<and> dist_row_list (active_rows d') =
         map (\<lambda>r. (resumed_dist_row (view d) (session d) r)\<lparr>box := box r\<rparr>)
           (dist_row_list (active_rows d))
     \<and> edge_row_list (active_rows d') =
         map (resumed_edge_row (view d) (session d)) (edge_row_list (active_rows d))
     \<and> (\<forall>j<length (mode_rows d). j \<noteq> mode_dex (work_mode (session d)) \<longrightarrow>
          mode_rows d' ! j = detach_rows (mode_rows d ! j))"
proof -
  from reload_dock[OF dex] obtain d' where
    d': "reload d = Inr d'" "session d' = session d" "view d' = view d"
      "length (mode_rows d') = length (mode_rows d)"
      "length (dist_row_list (active_rows d')) = length (dist_row_list (active_rows d))"
      "length (edge_row_list (active_rows d')) = length (edge_row_list (active_rows d))"
      "\<forall>i<length (dist_row_list (active_rows d)).
          update_dist_row (view d) (session d) (build_dist_row (dist_row_list (active_rows d) ! i))
            = Inr (dist_row_list (active_rows d') ! i)"
      "\<forall>i<length (edge_row_list (active_rows d)).
          update_edge_row (view d) (session d)
              (build_edge_row (session d) (edge_row_list (active_rows d) ! i))
            = Inr (edge_row_list (active_rows d') ! i)"
      "\<forall>j<length (mode_rows d). j \<noteq> mode_dex (work_mode (session d)) \<longrightarrow>
          mode_rows d' ! j = detach_rows (mode_rows d ! j)"
    by blast
  have dl: "dist_row_list (active_rows d') =
         map (\<lambda>r. (resumed_dist_row (view d) (session d) r)\<lparr>box := box r\<rparr>)
           (dist_row_list (active_rows d))"
  proof (rule nth_equalityI)
    show "length (dist_row_list (active_rows d')) =
          length (map (\<lambda>r. (resumed_dist_row (view d) (session d) r)\<lparr>box := box r\<rparr>)
                    (dist_row_list (active_rows d)))"
      by (simp add: d'(5))
  next
    fix i assume "i < length (dist_row_list (active_rows d'))"
    then have i: "i < length (dist_row_list (active_rows d))" by (simp add: d'(5))
    from d'(7)[rule_format, OF i]
    show "dist_row_list (active_rows d') ! i =
          map (\<lambda>r. (resumed_dist_row (view d) (session d) r)\<lparr>box := box r\<rparr>)
            (dist_row_list (active_rows d)) ! i"
      using i by (simp add: reloaded_dist_row)
  qed
  have el: "edge_row_list (active_rows d') =
         map (resumed_edge_row (view d) (session d)) (edge_row_list (active_rows d))"
  proof (rule nth_equalityI)
    show "length (edge_row_list (active_rows d')) =
          length (map (resumed_edge_row (view d) (session d)) (edge_row_list (active_rows d)))"
      by (simp add: d'(6))
  next
    fix i assume "i < length (edge_row_list (active_rows d'))"
    then have i: "i < length (edge_row_list (active_rows d))" by (simp add: d'(6))
    from d'(8)[rule_format, OF i]
    show "edge_row_list (active_rows d') ! i =
          map (resumed_edge_row (view d) (session d)) (edge_row_list (active_rows d)) ! i"
      using i by (simp add: reloaded_edge_row)
  qed
  from d'(1-4) dl el d'(9) show ?thesis by blast
qed

lemma update_dist_frame:
  "update_dist d = Inr d' \<Longrightarrow>
   session d' = session d \<and> view d' = view d \<and> length (mode_rows d') = length (mode_rows d)"
  by (auto simp: update_dist_def Let_def case_prod_beta get_mode_rows_session get_mode_rows_view
      get_mode_rows_length split: sum.splits)

lemma update_edge_frame:
  "update_edge d = Inr d' \<Longrightarrow>
   session d' = session d \<and> view d' = view d \<and> length (mode_rows d') = length (mode_rows d)"
  by (auto simp: update_edge_def Let_def case_prod_beta get_mode_rows_session get_mode_rows_view
      get_mode_rows_length split: sum.splits)

lemma reload_frame:
  assumes "reload d = Inr d'"
  shows "session d' = session d" "view d' = view d" "length (mode_rows d') = length (mode_rows d)"
proof -
  let ?b = "build_edge_pannel (build_dist_pannel d)"
  from assms obtain d1 where d1: "update_dist ?b = Inr d1" "update_edge d1 = Inr d'"
    by (auto simp: reload_def reCalc_def bind_err_def split: sum.splits)
  have b: "session ?b = session d" "view ?b = view d" "length (mode_rows ?b) = length (mode_rows d)"
    by (simp_all add: build_edge_pannel_session build_edge_pannel_view build_edge_pannel_length
        build_dist_pannel_session build_dist_pannel_view build_dist_pannel_length)
  from update_dist_frame[OF d1(1)] update_edge_frame[OF d1(2)] b
  show "session d' = session d" "view d' = view d" "length (mode_rows d') = length (mode_rows d)"
    by simp_all
qed

lemma detach_rows_kept: "kept_detached rows (detach_rows rows)"
  by (simp add: kept_detached_def detach_rows_def list_all2_conv_all_nth same_bindings_def
      detached_def detach_row_def)

lemma resumed_dist_row_again:
  "resumed_dist_row v ss ((resumed_dist_row v ss r)\<lparr>box := b\<rparr>) = resumed_dist_row v ss r"
  by (auto simp add: resumed_dist_row_def Let_def cleared_def button_text_def)

lemma resumed_edge_row_again:
  "resumed_edge_row v ss (resumed_edge_row v ss r) =
     (resumed_edge_row v ss r)
       \<lparr>start_bt := Some (button_text '' '' (length (get_cursorList v ss))
                            (cleared (length (get_cursorList v ss)) (cursor1 r))),
        end_bt := Some (button_text '' '' (length (get_cursorList v ss))
                            (cleared (length (get_cursorList v ss)) (cursor2 r)))\<rparr>"
  by (simp add: resumed_edge_row_def Let_def cleared_idem cong: if_cong)

lemma resumed_dist_row_box: "box (resumed_dist_row v ss r) = None"
  by (simp add: resumed_dist_row_def Let_def)

lemma resumed_dist_rows_of_detached:
  "map (\<lambda>r. (resumed_dist_row v ss r)\<lparr>box := box r\<rparr>) (map detach_row rows)
     = map (resumed_dist_row v ss) rows"
proof -
  have "(resumed_dist_row v ss (detach_row r))\<lparr>box := box (detach_row r)\<rparr>
          = resumed_dist_row v ss r" for r
    by (simp add: resumed_row_detach) (simp add: detach_row_def resumed_dist_row_def Let_def)
  then show ?thesis by simp
qed

lemma resumed_edge_rows_of_detached:
  "map (resumed_edge_row v ss) (map detach_row rows) = map (resumed_edge_row v ss) rows"
  by (simp add: resumed_row_detach)

lemma settled_dist_rows:
  "list_all2 (\<lambda>r r'. same_bindings r r' \<and> r_label r' = r_label r
                  \<and> start_bt r' = start_bt r \<and> end_bt r' = end_bt r \<and> del_bt r' = del_bt r)
     (map (\<lambda>r. (resumed_dist_row v ss r)\<lparr>box := box r\<rparr>) rows)
     (map (resumed_dist_row v ss)
        (map (\<lambda>r. (resumed_dist_row v ss r)\<lparr>box := box r\<rparr>) rows))"
  by (simp add: list_all2_conv_all_nth resumed_dist_row_again same_bindings_def)

lemma settled_edge_rows:
  "list_all2 (\<lambda>r r'. same_bindings r r' \<and> r_label r' = r_label r \<and> box r' = box r
                  \<and> del_bt r' = del_bt r)
     (map (resumed_edge_row v ss) rows)
     (map (resumed_edge_row v ss) (map (resumed_edge_row v ss) rows))"
  by (simp add: list_all2_conv_all_nth resumed_edge_row_again same_bindings_def)

lemma detach_rows_sel:
  "dist_row_list (detach_rows rows) = map detach_row (dist_row_list rows)"
  "edge_row_list (detach_rows rows) = map detach_row (edge_row_list rows)"
  by (simp_all add: detach_rows_def)

lemmas switch_eval =
  switch_mode_def reload_def reCalc_def build_dist_pannel_def build_edge_pannel_def
  build_dist_row_def build_edge_row_def create_probe_selector_def update_probe_selector_def
  addItem_def setCurrentIndex_def add_dist_measure_def new_row_def fresh_row_dock_def
  del_cursor_def cursor_update_def bind_err_def update_dist_def update_edge_def
  get_mode_rows_def update_dist_row_def update_edge_row_def dist_text_def cursor_delta_def
  get_cm_delta_def get_cursor_samples_def get_cursorList_def 
  edges_def number_def replace_def detach_rows_def detach_row_def
  currentText_toInt_def count_def mode_dex_def active_rows_def enumerate_eq_zip Let_def
  example_dock_def example_session_def example_view_def example_rows_def empty_rows_def

lemma fresh_row_dock_rows:
  "map r_label (dist_row_list (active_rows fresh_row_dock))
     = [Some ''-2us/-2'', Some ''-4us/-4'', Some '' '', Some '''']"
  by (simp add: switch_eval)

lemma fresh_row_dock_away:
  "\<not> isl (switch_mode DSO fresh_row_dock)"
  "map r_label (dist_row_list (mode_rows (projr (switch_mode DSO fresh_row_dock)) ! 0))
     = [None, None, None, None]"
  "map cursor1 (dist_row_list (mode_rows (projr (switch_mode DSO fresh_row_dock)) ! 0))
     = [1, 2, - 1, - 1]"
  by (simp_all add: switch_eval)

lemma fresh_row_dock_back:
  "\<not> isl (switch_mode LOGIC (projr (switch_mode DSO fresh_row_dock)))"
  "map r_label (dist_row_list (active_rows
      (projr (switch_mode LOGIC (projr (switch_mode DSO fresh_row_dock))))))
     = [Some ''-2us/-2'', Some ''-4us/-4'', Some '' '', Some '' '']"
  by (simp_all add: switch_eval digits.simps)

lemmas round_trip_eval =
  switch_mode_def reload_def reCalc_def build_dist_pannel_def build_edge_pannel_def
  build_dist_row_def build_edge_row_def create_probe_selector_def update_probe_selector_def
  addItem_def setCurrentIndex_def new_row_def
  cursor_update_def bind_err_def update_dist_def update_edge_def
  get_mode_rows_def update_dist_row_def update_edge_row_def dist_text_def cursor_delta_def
  get_cm_delta_def get_cursor_samples_def get_cursorList_def
  edges_def number_def replace_def detach_rows_def detach_row_def
  currentText_toInt_def count_def mode_dex_def active_rows_def enumerate_eq_zip Let_def
  example_dock_def example_session_def example_view_def example_rows_def empty_rows_def
  three_mode_dock_def reloaded_dock_def reloaded_rows_def scope_rows_def analog_rows_def

lemma example_dock_at_rest: "cursor_update example_dock = Inr example_dock"
  by (simp add: round_trip_eval digits.simps)

lemma example_dock_gone:
  "\<not> isl (switch_mode DSO example_dock)"
  "map r_label (edge_row_list (mode_rows (projr (switch_mode DSO example_dock)) ! 0))
     = [None, None, None]"
  "map r_label (dist_row_list (mode_rows (projr (switch_mode DSO example_dock)) ! 0))
     = [None, None, None]"
  by (simp_all add: round_trip_eval)

lemma example_dock_again:
  "\<not> isl (switch_mode LOGIC (projr (switch_mode DSO example_dock)))"
  "map r_label (edge_row_list (active_rows
      (projr (switch_mode LOGIC (projr (switch_mode DSO example_dock))))))
     = [Some ''2/1/3'', Some ''-/-/-'', Some ''1/0/1'']"
  "map cursor1 (edge_row_list (active_rows
      (projr (switch_mode LOGIC (projr (switch_mode DSO example_dock))))))
     = [1, - 1, 1]"
  "map cursor2 (edge_row_list (active_rows
      (projr (switch_mode LOGIC (projr (switch_mode DSO example_dock))))))
     = [3, 3, 2]"
  "map channelIndex (edge_row_list (active_rows
      (projr (switch_mode LOGIC (projr (switch_mode DSO example_dock))))))
     = [0, 0, 1]"
  by (simp_all add: round_trip_eval digits.simps)

lemma reload_three_mode_dock: "reload three_mode_dock = Inr reloaded_dock"
  by (simp add: round_trip_eval digits.simps)

text \<open>
  C9, as the claim states it, fails. A row has no field for its result but the pointer to
  its label, and \<open>get_mode_rows\<close> sets that pointer to \<open>NULL\<close> for every mode that
  is not active: while the oscilloscope mode is active, no row of the logic mode holds a
  result. When the logic mode becomes active again the results are computed anew, and
  they are the results as left only where those were up to date.

  The example dock is at rest: \<open>cursor_update\<close> leaves it as it is. Its last edge row
  has channel 1 selected, which has been disabled since, and shows the placeholder. After
  the change to the oscilloscope mode and back the row has the references and the channel
  index it had, but its selector, built anew, lists channel 0 only, and the row shows
  the counts 1/0/1 of channel 0. In the dock with the freshly added distance row, that
  row shows an empty text before and one space after.
\<close>

theorem mode_switch_counterexample:
  "cursor_update example_dock = Inr example_dock
   \<and> r_label (edge_row_list (active_rows example_dock) ! 2) = Some ''-/-/-''
   \<and> cursor1 (edge_row_list (active_rows example_dock) ! 2) = 1
   \<and> cursor2 (edge_row_list (active_rows example_dock) ! 2) = 2
   \<and> channelIndex (edge_row_list (active_rows example_dock) ! 2) = 1
   \<and> \<not> isl (switch_mode DSO example_dock)
   \<and> r_label (edge_row_list (mode_rows (projr (switch_mode DSO example_dock)) ! 0) ! 2) = None
   \<and> \<not> isl (switch_mode LOGIC (projr (switch_mode DSO example_dock)))
   \<and> r_label (edge_row_list (active_rows
          (projr (switch_mode LOGIC (projr (switch_mode DSO example_dock))))) ! 2)
        = Some ''1/0/1''
   \<and> cursor1 (edge_row_list (active_rows
          (projr (switch_mode LOGIC (projr (switch_mode DSO example_dock))))) ! 2) = 1
   \<and> cursor2 (edge_row_list (active_rows
          (projr (switch_mode LOGIC (projr (switch_mode DSO example_dock))))) ! 2) = 2
   \<and> channelIndex (edge_row_list (active_rows
          (projr (switch_mode LOGIC (projr (switch_mode DSO example_dock))))) ! 2) = 1
   \<and> r_label (dist_row_list (active_rows fresh_row_dock) ! 3) = Some []
   \<and> \<not> isl (switch_mode DSO fresh_row_dock)
   \<and> \<not> isl (switch_mode LOGIC (projr (switch_mode DSO fresh_row_dock)))
   \<and> r_label (dist_row_list (active_rows
          (projr (switch_mode LOGIC (projr (switch_mode DSO fresh_row_dock))))) ! 3) = Some '' ''"
proof -
  have a: "r_label (edge_row_list (active_rows example_dock) ! 2) = Some ''-/-/-''"
    "cursor1 (edge_row_list (active_rows example_dock) ! 2) = 1"
    "cursor2 (edge_row_list (active_rows example_dock) ! 2) = 2"
    "channelIndex (edge_row_list (active_rows example_dock) ! 2) = 1"
    by (simp_all add: example_dock_def example_session_def example_rows_def active_rows_def
        mode_dex_def)
  have b: "r_label (edge_row_list (mode_rows (projr (switch_mode DSO example_dock)) ! 0) ! 2)
             = None"
    using example_dock_gone(2) by (simp add: list_eq_iff_nth_eq)
  have c: "r_label (edge_row_list (active_rows
          (projr (switch_mode LOGIC (projr (switch_mode DSO example_dock))))) ! 2)
        = Some ''1/0/1''"
    "cursor1 (edge_row_list (active_rows
          (projr (switch_mode LOGIC (projr (switch_mode DSO example_dock))))) ! 2) = 1"
    "cursor2 (edge_row_list (active_rows
          (projr (switch_mode LOGIC (projr (switch_mode DSO example_dock))))) ! 2) = 2"
    "channelIndex (edge_row_list (active_rows
          (projr (switch_mode LOGIC (projr (switch_mode DSO example_dock))))) ! 2) = 1"
    using example_dock_again(2,3,4,5) by (simp_all add: list_eq_iff_nth_eq)
  have f: "r_label (dist_row_list (active_rows fresh_row_dock) ! 3) = Some []"
    using fresh_row_dock_rows by (simp add: list_eq_iff_nth_eq)
  have g: "r_label (dist_row_list (active_rows
          (projr (switch_mode LOGIC (projr (switch_mode DSO fresh_row_dock))))) ! 3) = Some '' ''"
    using fresh_row_dock_back(2) by (simp add: list_eq_iff_nth_eq)
  show ?thesis
    by (intro conjI example_dock_at_rest a b c f g example_dock_gone(1) example_dock_again(1)
        fresh_row_dock_away(1) fresh_row_dock_back(1))
qed

text \<open>
  C9, amended. A dock in mode A is switched to a mode B with other rows and back, each
  switch followed by \<open>reload\<close>. Both reloads return, and they leave the markers and
  the signals as they are.

  The modes that are not active. While B is active, every other mode, A and any third
  one, has its distance rows and its edge rows as they were, in number and order, each
  with the two references and the channel index it had and with all five widget pointers
  \<open>NULL\<close>, the result label among them. After the return the same holds of every
  mode other than A: the rows of B are as B left them, those of a third mode as they
  were at the start.

  The mode that becomes active. Its rows get new widgets (when B becomes active, a
  distance row keeps the selector pointer it had, which \<open>build_dist_pannel\<close> does not
  write), a reference above the number of markers of the mode is reset to -1, and every
  result is computed anew: a distance row shows the distance of its two markers or one
  space; an edge row shows the counts of the first enabled logic signal that has the
  channel selected in the new selector and whose scan succeeds, or \<open>-/-/-\<close>.

  Hence, for a dock that \<open>reload\<close> has left, the change to B and back leaves every
  reference, channel index and result label of A as it was, and with them the texts of
  the buttons of the distance rows and the selectors of the edge rows.
\<close>

theorem mode_switch_round_trip:
  assumes A: "work_mode (session d) = A"
    and dexA: "mode_dex A < length (mode_rows d)"
    and dexB: "mode_dex B < length (mode_rows d)"
    and AB: "mode_dex A \<noteq> mode_dex B"
  shows "\<exists>d1 d2. switch_mode B d = Inr d1 \<and> switch_mode A d1 = Inr d2
     \<and> session d1 = (session d)\<lparr>work_mode := B\<rparr> \<and> session d2 = session d
     \<and> view d1 = view d \<and> view d2 = view d
     \<and> length (mode_rows d1) = length (mode_rows d)
     \<and> length (mode_rows d2) = length (mode_rows d)
     \<and> (\<forall>j<length (mode_rows d). j \<noteq> mode_dex B \<longrightarrow>
           kept_detached (mode_rows d ! j) (mode_rows d1 ! j))
     \<and> (\<forall>j<length (mode_rows d). j \<noteq> mode_dex A \<longrightarrow>
           kept_detached (mode_rows d1 ! j) (mode_rows d2 ! j))
     \<and> (\<forall>j<length (mode_rows d). j \<noteq> mode_dex A \<and> j \<noteq> mode_dex B \<longrightarrow>
           kept_detached (mode_rows d ! j) (mode_rows d2 ! j))
     \<and> dist_row_list (active_rows d1) =
         map (\<lambda>r. (resumed_dist_row (view d) (session d1) r)\<lparr>box := box r\<rparr>)
           (dist_row_list (mode_rows d ! mode_dex B))
     \<and> edge_row_list (active_rows d1) =
         map (resumed_edge_row (view d) (session d1)) (edge_row_list (mode_rows d ! mode_dex B))
     \<and> dist_row_list (active_rows d2) =
         map (resumed_dist_row (view d) (session d)) (dist_row_list (active_rows d))
     \<and> edge_row_list (active_rows d2) =
         map (resumed_edge_row (view d) (session d)) (edge_row_list (active_rows d))
     \<and> (\<forall>d0. reload d0 = Inr d \<longrightarrow>
           list_all2 (\<lambda>r r'. same_bindings r r' \<and> r_label r' = r_label r
                         \<and> start_bt r' = start_bt r \<and> end_bt r' = end_bt r
                         \<and> del_bt r' = del_bt r)
             (dist_row_list (active_rows d)) (dist_row_list (active_rows d2))
         \<and> list_all2 (\<lambda>r r'. same_bindings r r' \<and> r_label r' = r_label r \<and> box r' = box r
                         \<and> del_bt r' = del_bt r)
             (edge_row_list (active_rows d)) (edge_row_list (active_rows d2)))"
proof -
  define dB where "dB = d\<lparr>session := (session d)\<lparr>work_mode := B\<rparr>\<rparr>"
  have sB: "work_mode (session dB) = B" and mB: "mode_rows dB = mode_rows d"
    and vB: "view dB = view d"
    by (simp_all add: dB_def)
  have dexB': "mode_dex (work_mode (session dB)) < length (mode_rows dB)"
    using dexB by (simp add: sB mB)
  from reload_rows[OF dexB'] obtain d1 where
    d1: "reload dB = Inr d1" "session d1 = session dB" "view d1 = view dB"
      "length (mode_rows d1) = length (mode_rows dB)"
      "\<forall>j<length (mode_rows dB). j \<noteq> mode_dex (work_mode (session dB)) \<longrightarrow>
          mode_rows d1 ! j = detach_rows (mode_rows dB ! j)"
      "dist_row_list (active_rows d1) =
         map (\<lambda>r. (resumed_dist_row (view dB) (session dB) r)\<lparr>box := box r\<rparr>)
           (dist_row_list (active_rows dB))"
      "edge_row_list (active_rows d1) =
         map (resumed_edge_row (view dB) (session dB)) (edge_row_list (active_rows dB))"
    by blast
  have s1: "session d1 = (session d)\<lparr>work_mode := B\<rparr>"
    using d1(2) by (simp add: dB_def)
  have actB: "active_rows dB = mode_rows d ! mode_dex B"
    by (simp add: active_rows_def sB mB)
  have bd: "dist_row_list (active_rows d1) =
         map (\<lambda>r. (resumed_dist_row (view d) (session d1) r)\<lparr>box := box r\<rparr>)
           (dist_row_list (mode_rows d ! mode_dex B))"
    using d1(6) by (simp add: actB vB d1(2))
  have be: "edge_row_list (active_rows d1) =
         map (resumed_edge_row (view d) (session d1)) (edge_row_list (mode_rows d ! mode_dex B))"
    using d1(7) by (simp add: actB vB d1(2))
  have r1: "switch_mode B d = Inr d1" using d1(1) by (simp add: switch_mode_def dB_def)
  have o1: "\<forall>j<length (mode_rows d). j \<noteq> mode_dex B \<longrightarrow>
              mode_rows d1 ! j = detach_rows (mode_rows d ! j)"
    using d1(5) by (simp add: sB mB)
  have a1: "mode_rows d1 ! mode_dex A = detach_rows (active_rows d)"
    using o1 dexA AB by (simp add: active_rows_def A)
  define dA where "dA = d1\<lparr>session := (session d1)\<lparr>work_mode := A\<rparr>\<rparr>"
  have sA: "session dA = session d"
    using A by (simp add: dA_def d1(2) dB_def)
  have mA: "mode_rows dA = mode_rows d1" and vA: "view dA = view d"
    by (simp_all add: dA_def d1(3) vB)
  have dexA': "mode_dex (work_mode (session dA)) < length (mode_rows dA)"
    using dexA by (simp add: sA A mA d1(4) mB)
  have actA: "active_rows dA = detach_rows (active_rows d)"
    by (simp add: active_rows_def sA A mA a1)
  from reload_rows[OF dexA'] obtain d2 where
    d2: "reload dA = Inr d2" "session d2 = session dA" "view d2 = view dA"
      "length (mode_rows d2) = length (mode_rows dA)"
      "dist_row_list (active_rows d2) =
         map (\<lambda>r. (resumed_dist_row (view dA) (session dA) r)\<lparr>box := box r\<rparr>)
           (dist_row_list (active_rows dA))"
      "edge_row_list (active_rows d2) =
         map (resumed_edge_row (view dA) (session dA)) (edge_row_list (active_rows dA))"
      "\<forall>j<length (mode_rows dA). j \<noteq> mode_dex (work_mode (session dA)) \<longrightarrow>
          mode_rows d2 ! j = detach_rows (mode_rows dA ! j)"
    by blast
  have r2: "switch_mode A d1 = Inr d2" using d2(1) by (simp add: switch_mode_def dA_def)
  have o2: "\<forall>j<length (mode_rows d). j \<noteq> mode_dex A \<longrightarrow>
              mode_rows d2 ! j = detach_rows (mode_rows d1 ! j)"
    using d2(7) by (simp add: sA A mA d1(4) mB)
  have k1: "\<forall>j<length (mode_rows d). j \<noteq> mode_dex B \<longrightarrow>
              kept_detached (mode_rows d ! j) (mode_rows d1 ! j)"
    using o1 by (simp add: detach_rows_kept)
  have k2: "\<forall>j<length (mode_rows d). j \<noteq> mode_dex A \<longrightarrow>
              kept_detached (mode_rows d1 ! j) (mode_rows d2 ! j)"
    using o2 by (simp add: detach_rows_kept)
  have k3: "\<forall>j<length (mode_rows d). j \<noteq> mode_dex A \<and> j \<noteq> mode_dex B \<longrightarrow>
              kept_detached (mode_rows d ! j) (mode_rows d2 ! j)"
    using o1 o2 by (simp add: detach_rows_idem detach_rows_kept)
  have dl: "dist_row_list (active_rows d2) =
         map (resumed_dist_row (view d) (session d)) (dist_row_list (active_rows d))"
    unfolding d2(5) actA sA vA
    by (simp only: detach_rows_sel resumed_dist_rows_of_detached)
  have el: "edge_row_list (active_rows d2) =
         map (resumed_edge_row (view d) (session d)) (edge_row_list (active_rows d))"
    unfolding d2(6) actA sA vA
    by (simp only: detach_rows_sel resumed_edge_rows_of_detached)
  have settled: "list_all2 (\<lambda>r r'. same_bindings r r' \<and> r_label r' = r_label r
                         \<and> start_bt r' = start_bt r \<and> end_bt r' = end_bt r
                         \<and> del_bt r' = del_bt r)
             (dist_row_list (active_rows d)) (dist_row_list (active_rows d2))
         \<and> list_all2 (\<lambda>r r'. same_bindings r r' \<and> r_label r' = r_label r \<and> box r' = box r
                         \<and> del_bt r' = del_bt r)
             (edge_row_list (active_rows d)) (edge_row_list (active_rows d2))"
    if d0: "reload d0 = Inr d" for d0
  proof -
    note f = reload_frame[OF d0]
    have dex0: "mode_dex (work_mode (session d0)) < length (mode_rows d0)"
      using dexA A f by simp
    from reload_rows[OF dex0] d0
    have rows: "dist_row_list (active_rows d) =
         map (\<lambda>r. (resumed_dist_row (view d) (session d) r)\<lparr>box := box r\<rparr>)
           (dist_row_list (active_rows d0))"
      "edge_row_list (active_rows d) =
         map (resumed_edge_row (view d) (session d)) (edge_row_list (active_rows d0))"
      using f by auto
    show ?thesis
      unfolding dl el rows
      by (rule conjI[OF settled_dist_rows settled_edge_rows])
  qed
  have l1: "length (mode_rows d1) = length (mode_rows d)"
    using d1(4) by (simp add: mB)
  have l2: "length (mode_rows d2) = length (mode_rows d)"
    using d2(4) l1 by (simp add: mA)
  have v1: "view d1 = view d" using d1(3) by (simp add: vB)
  have v2: "view d2 = view d" using d2(3) by (simp add: vA)
  have s2: "session d2 = session d" using d2(2) by (simp add: sA)
  have all: "\<forall>d0. reload d0 = Inr d \<longrightarrow>
           list_all2 (\<lambda>r r'. same_bindings r r' \<and> r_label r' = r_label r
                         \<and> start_bt r' = start_bt r \<and> end_bt r' = end_bt r
                         \<and> del_bt r' = del_bt r)
             (dist_row_list (active_rows d)) (dist_row_list (active_rows d2))
         \<and> list_all2 (\<lambda>r r'. same_bindings r r' \<and> r_label r' = r_label r \<and> box r' = box r
                         \<and> del_bt r' = del_bt r)
             (edge_row_list (active_rows d)) (edge_row_list (active_rows d2))"
    using settled by blast
  show ?thesis
    by (rule exI[of _ d1], rule exI[of _ d2])
       (intro conjI r1 r2 s1 s2 v1 v2 l1 l2 k1 k2 k3 bd be dl el all)
qed

theorem mode_switch_round_trip_witness:
  "work_mode (session reloaded_dock) = LOGIC
   \<and> mode_dex LOGIC < length (mode_rows reloaded_dock)
   \<and> mode_dex DSO < length (mode_rows reloaded_dock)
   \<and> mode_dex LOGIC \<noteq> mode_dex DSO
   \<and> mode_dex ANALOG < length (mode_rows reloaded_dock)
   \<and> mode_dex ANALOG \<noteq> mode_dex LOGIC \<and> mode_dex ANALOG \<noteq> mode_dex DSO
   \<and> reload three_mode_dock = Inr reloaded_dock
   \<and> map cursor1 (dist_row_list (mode_rows reloaded_dock ! mode_dex ANALOG)) = [1]
   \<and> map cursor2 (dist_row_list (mode_rows reloaded_dock ! mode_dex ANALOG)) = [2]
   \<and> map r_label (dist_row_list (active_rows reloaded_dock))
        = [Some ''-2us/-2'', Some ''-4us/-4'', Some '' '']
   \<and> map r_label (edge_row_list (active_rows reloaded_dock))
        = [Some ''2/1/3'', Some ''-/-/-'', Some ''1/0/1'']
   \<and> (\<exists>d1 d2. switch_mode DSO reloaded_dock = Inr d1 \<and> switch_mode LOGIC d1 = Inr d2
          \<and> map r_label (edge_row_list (mode_rows d1 ! mode_dex LOGIC)) = [None, None, None]
          \<and> map cursor1 (edge_row_list (mode_rows d1 ! mode_dex LOGIC)) = [1, - 1, 1]
          \<and> map cursor2 (edge_row_list (mode_rows d1 ! mode_dex LOGIC)) = [3, 3, 2]
          \<and> map channelIndex (edge_row_list (mode_rows d1 ! mode_dex LOGIC)) = [0, 0, 1]
          \<and> map cursor1 (dist_row_list (mode_rows d1 ! mode_dex ANALOG)) = [1]
          \<and> map cursor2 (dist_row_list (mode_rows d1 ! mode_dex ANALOG)) = [2]
          \<and> map cursor1 (dist_row_list (mode_rows d2 ! mode_dex ANALOG)) = [1]
          \<and> map cursor2 (dist_row_list (mode_rows d2 ! mode_dex ANALOG)) = [2]
          \<and> map r_label (dist_row_list (mode_rows d2 ! mode_dex ANALOG)) = [None]
          \<and> map r_label (dist_row_list (active_rows d1)) = [Some '' '']
          \<and> map r_label (dist_row_list (mode_rows d2 ! mode_dex DSO)) = [None]
          \<and> map r_label (dist_row_list (active_rows d2))
               = [Some ''-2us/-2'', Some ''-4us/-4'', Some '' '']
          \<and> map r_label (edge_row_list (active_rows d2))
               = [Some ''2/1/3'', Some ''-/-/-'', Some ''1/0/1'']
          \<and> map cursor1 (edge_row_list (active_rows d2)) = [1, - 1, 1]
          \<and> map cursor2 (edge_row_list (active_rows d2)) = [3, 3, 2]
          \<and> map channelIndex (edge_row_list (active_rows d2)) = [0, 0, 1]
          \<and> map box (edge_row_list (active_rows d2))
               = map box (edge_row_list (active_rows reloaded_dock)))"
proof -
  have h: "work_mode (session reloaded_dock) = LOGIC"
    "mode_dex LOGIC < length (mode_rows reloaded_dock)"
    "mode_dex DSO < length (mode_rows reloaded_dock)"
    "mode_dex LOGIC \<noteq> mode_dex DSO"
    by (simp_all add: reloaded_dock_def example_dock_def example_session_def mode_dex_def)
  have m: "mode_dex ANALOG < length (mode_rows reloaded_dock)"
    "mode_dex ANALOG \<noteq> mode_dex LOGIC" "mode_dex ANALOG \<noteq> mode_dex DSO"
    "mode_dex LOGIC \<noteq> mode_dex DSO"
    by (simp_all add: reloaded_dock_def example_dock_def mode_dex_def)
  have rows: "dist_row_list (mode_rows reloaded_dock ! mode_dex ANALOG)
                = [new_row\<lparr>cursor1 := 1, cursor2 := 2\<rparr>]"
    "edge_row_list (mode_rows reloaded_dock ! mode_dex LOGIC) = edge_row_list reloaded_rows"
    "edge_row_list (active_rows reloaded_dock) = edge_row_list reloaded_rows"
    "dist_row_list (active_rows reloaded_dock) = dist_row_list example_rows"
    by (simp_all add: reloaded_dock_def example_dock_def example_session_def mode_dex_def
        analog_rows_def active_rows_def reloaded_rows_def)
  have before: "map cursor1 (dist_row_list (mode_rows reloaded_dock ! mode_dex ANALOG)) = [1]"
    "map cursor2 (dist_row_list (mode_rows reloaded_dock ! mode_dex ANALOG)) = [2]"
    "map r_label (dist_row_list (active_rows reloaded_dock))
        = [Some ''-2us/-2'', Some ''-4us/-4'', Some '' '']"
    "map r_label (edge_row_list (active_rows reloaded_dock))
        = [Some ''2/1/3'', Some ''-/-/-'', Some ''1/0/1'']"
    by (simp_all add: rows new_row_def reloaded_rows_def example_rows_def)
  from mode_switch_round_trip[OF h] obtain d1 d2 where
    s: "switch_mode DSO reloaded_dock = Inr d1" "switch_mode LOGIC d1 = Inr d2"
    and s1: "session d1 = (session reloaded_dock)\<lparr>work_mode := DSO\<rparr>"
    and k1: "\<forall>j<length (mode_rows reloaded_dock). j \<noteq> mode_dex DSO \<longrightarrow>
           kept_detached (mode_rows reloaded_dock ! j) (mode_rows d1 ! j)"
    and k2: "\<forall>j<length (mode_rows reloaded_dock). j \<noteq> mode_dex LOGIC \<longrightarrow>
           kept_detached (mode_rows d1 ! j) (mode_rows d2 ! j)"
    and k3: "\<forall>j<length (mode_rows reloaded_dock). j \<noteq> mode_dex LOGIC \<and> j \<noteq> mode_dex DSO \<longrightarrow>
           kept_detached (mode_rows reloaded_dock ! j) (mode_rows d2 ! j)"
    and b1: "dist_row_list (active_rows d1) =
         map (\<lambda>r. (resumed_dist_row (view reloaded_dock) (session d1) r)\<lparr>box := box r\<rparr>)
           (dist_row_list (mode_rows reloaded_dock ! mode_dex DSO))"
    and a2: "dist_row_list (active_rows d2) =
         map (resumed_dist_row (view reloaded_dock) (session reloaded_dock))
           (dist_row_list (active_rows reloaded_dock))"
      "edge_row_list (active_rows d2) =
         map (resumed_edge_row (view reloaded_dock) (session reloaded_dock))
           (edge_row_list (active_rows reloaded_dock))"
    and settled: "\<forall>d0. reload d0 = Inr reloaded_dock \<longrightarrow>
           list_all2 (\<lambda>r r'. same_bindings r r' \<and> r_label r' = r_label r
                         \<and> start_bt r' = start_bt r \<and> end_bt r' = end_bt r
                         \<and> del_bt r' = del_bt r)
             (dist_row_list (active_rows reloaded_dock)) (dist_row_list (active_rows d2))
         \<and> list_all2 (\<lambda>r r'. same_bindings r r' \<and> r_label r' = r_label r \<and> box r' = box r
                         \<and> del_bt r' = del_bt r)
             (edge_row_list (active_rows reloaded_dock)) (edge_row_list (active_rows d2))"
    by (elim exE conjE)
  from k1[rule_format, OF h(2) m(4)]
  have gone: "map r_label (edge_row_list (mode_rows d1 ! mode_dex LOGIC)) = [None, None, None]"
    "map cursor1 (edge_row_list (mode_rows d1 ! mode_dex LOGIC)) = [1, - 1, 1]"
    "map cursor2 (edge_row_list (mode_rows d1 ! mode_dex LOGIC)) = [3, 3, 2]"
    "map channelIndex (edge_row_list (mode_rows d1 ! mode_dex LOGIC)) = [0, 0, 1]"
    by (auto simp: kept_detached_def rows reloaded_rows_def example_rows_def list_all2_Cons1
        same_bindings_def detached_def)
  from k1[rule_format, OF m(1) m(3)]
  have third1: "map cursor1 (dist_row_list (mode_rows d1 ! mode_dex ANALOG)) = [1]"
    "map cursor2 (dist_row_list (mode_rows d1 ! mode_dex ANALOG)) = [2]"
    by (auto simp: kept_detached_def rows list_all2_Cons1 same_bindings_def detached_def)
  from k3[rule_format, OF m(1) conjI[OF m(2) m(3)]]
  have third2: "map cursor1 (dist_row_list (mode_rows d2 ! mode_dex ANALOG)) = [1]"
    "map cursor2 (dist_row_list (mode_rows d2 ! mode_dex ANALOG)) = [2]"
    "map r_label (dist_row_list (mode_rows d2 ! mode_dex ANALOG)) = [None]"
    by (auto simp: kept_detached_def rows list_all2_Cons1 same_bindings_def detached_def)
  have scope1: "map r_label (dist_row_list (active_rows d1)) = [Some '' '']"
    unfolding b1
    by (simp add: reloaded_dock_def mode_dex_def scope_rows_def new_row_def
        resumed_dist_row_def cleared_def Let_def)
  have act1: "active_rows d1 = mode_rows d1 ! mode_dex DSO"
    by (simp add: active_rows_def s1)
  from k2[rule_format, OF h(3) m(4)[symmetric]] scope1
  have scope2: "map r_label (dist_row_list (mode_rows d2 ! mode_dex DSO)) = [None]"
    by (auto simp: kept_detached_def act1 list_all2_Cons1 detached_def)
  have again: "map r_label (dist_row_list (active_rows d2))
               = [Some ''-2us/-2'', Some ''-4us/-4'', Some '' '']"
    "map r_label (edge_row_list (active_rows d2))
               = [Some ''2/1/3'', Some ''-/-/-'', Some ''1/0/1'']"
    "map cursor1 (edge_row_list (active_rows d2)) = [1, - 1, 1]"
    "map cursor2 (edge_row_list (active_rows d2)) = [3, 3, 2]"
    "map channelIndex (edge_row_list (active_rows d2)) = [0, 0, 1]"
    unfolding a2 rows
    by (simp_all add: resumed_dist_row_def resumed_edge_row_def edge_result_def edge_text_def
        selected_channel_def selector_position_def enabled_logic_def cleared_def
        round_trip_eval digits.simps)
  from settled[rule_format, OF reload_three_mode_dock]
  have boxes: "map box (edge_row_list (active_rows d2))
               = map box (edge_row_list (active_rows reloaded_dock))"
    by (auto simp: list_all2_conv_all_nth list_eq_iff_nth_eq)
  have "\<exists>d1 d2. switch_mode DSO reloaded_dock = Inr d1 \<and> switch_mode LOGIC d1 = Inr d2
          \<and> map r_label (edge_row_list (mode_rows d1 ! mode_dex LOGIC)) = [None, None, None]
          \<and> map cursor1 (edge_row_list (mode_rows d1 ! mode_dex LOGIC)) = [1, - 1, 1]
          \<and> map cursor2 (edge_row_list (mode_rows d1 ! mode_dex LOGIC)) = [3, 3, 2]
          \<and> map channelIndex (edge_row_list (mode_rows d1 ! mode_dex LOGIC)) = [0, 0, 1]
          \<and> map cursor1 (dist_row_list (mode_rows d1 ! mode_dex ANALOG)) = [1]
          \<and> map cursor2 (dist_row_list (mode_rows d1 ! mode_dex ANALOG)) = [2]
          \<and> map cursor1 (dist_row_list (mode_rows d2 ! mode_dex ANALOG)) = [1]
          \<and> map cursor2 (dist_row_list (mode_rows d2 ! mode_dex ANALOG)) = [2]
          \<and> map r_label (dist_row_list (mode_rows d2 ! mode_dex ANALOG)) = [None]
          \<and> map r_label (dist_row_list (active_rows d1)) = [Some '' '']
          \<and> map r_label (dist_row_list (mode_rows d2 ! mode_dex DSO)) = [None]
          \<and> map r_label (dist_row_list (active_rows d2))
               = [Some ''-2us/-2'', Some ''-4us/-4'', Some '' '']
          \<and> map r_label (edge_row_list (active_rows d2))
               = [Some ''2/1/3'', Some ''-/-/-'', Some ''1/0/1'']
          \<and> map cursor1 (edge_row_list (active_rows d2)) = [1, - 1, 1]
          \<and> map cursor2 (edge_row_list (active_rows d2)) = [3, 3, 2]
          \<and> map channelIndex (edge_row_list (active_rows d2)) = [0, 0, 1]
          \<and> map box (edge_row_list (active_rows d2))
               = map box (edge_row_list (active_rows reloaded_dock))"
    by (rule exI[of _ d1], rule exI[of _ d2])
       (intro conjI s gone third1 third2 scope1 scope2 again boxes)
  then show ?thesis
    by (intro conjI h m(1-3) reload_three_mode_dock before)
qed

end
